theory Spec2Isabelle
  imports Complex_Main "HOL-Library.Word" "HOL-Library.Sublist"
    "HOL-Library.Product_Lexorder"
begin

section \<open>Numbers and values\<close>

text \<open>
  Floating-point values are read as the real numbers they denote; NaN and the infinities
  are outside the embedding, and so is rounding: a conversion between \<open>half\<close>,
  \<open>float\<close> and \<open>double\<close> keeps the number. Integers of a fixed width are
  words; \<open>sint\<close> reads a signed one, \<open>uint\<close> an unsigned one.
\<close>

type_synonym half = real
type_synonym float = real
type_synonym double = real

text \<open>\<open>FbxTime\<close> is counted in whole frames.\<close>

type_synonym FbxTime = int

text \<open>\<open>UsdTimeCode\<close> holds a \<open>double\<close>.\<close>

type_synonym UsdTimeCode = double

type_synonym TfToken = string

text \<open>The property data types of the FBX SDK (\<open>EFbxType\<close>).\<close>

datatype EFbxType =
    eFbxUndefined | eFbxChar | eFbxUChar | eFbxShort | eFbxUShort | eFbxUInt
  | eFbxLongLong | eFbxULongLong | eFbxHalfFloat | eFbxBool | eFbxInt | eFbxFloat
  | eFbxDouble | eFbxDouble2 | eFbxDouble3 | eFbxDouble4 | eFbxDouble4x4 | eFbxEnum
  | eFbxEnumM | eFbxString | eFbxTime | eFbxReference | eFbxBlob | eFbxDistance
  | eFbxDateTime

text \<open>
  What a property stores, one constructor per data type, so that
  \<open>fbxProperty->Get<T>()\<close> at the property's own type is the stored value.
\<close>

datatype FbxData =
    DUndefined
  | DChar "8 word"
  | DUChar "8 word"
  | DShort "16 word"
  | DUShort "16 word"
  | DUInt "32 word"
  | DLongLong "64 word"
  | DULongLong "64 word"
  | DHalfFloat half
  | DBool bool
  | DInt "32 word"
  | DFloat float
  | DDouble double
  | DDouble2 double double
  | DDouble3 double double double
  | DDouble4 double double double double
  | DDouble4x4 "double list"
  | DEnum int
  | DEnumM int
  | DString string
  | DTime FbxTime
  | DReference
  | DBlob string
  | DDistance float string
  | DDateTime

fun GetType :: "FbxData \<Rightarrow> EFbxType" where
  "GetType DUndefined = eFbxUndefined"
| "GetType (DChar _) = eFbxChar"
| "GetType (DUChar _) = eFbxUChar"
| "GetType (DShort _) = eFbxShort"
| "GetType (DUShort _) = eFbxUShort"
| "GetType (DUInt _) = eFbxUInt"
| "GetType (DLongLong _) = eFbxLongLong"
| "GetType (DULongLong _) = eFbxULongLong"
| "GetType (DHalfFloat _) = eFbxHalfFloat"
| "GetType (DBool _) = eFbxBool"
| "GetType (DInt _) = eFbxInt"
| "GetType (DFloat _) = eFbxFloat"
| "GetType (DDouble _) = eFbxDouble"
| "GetType (DDouble2 _ _) = eFbxDouble2"
| "GetType (DDouble3 _ _ _) = eFbxDouble3"
| "GetType (DDouble4 _ _ _ _) = eFbxDouble4"
| "GetType (DDouble4x4 _) = eFbxDouble4x4"
| "GetType (DEnum _) = eFbxEnum"
| "GetType (DEnumM _) = eFbxEnumM"
| "GetType (DString _) = eFbxString"
| "GetType (DTime _) = eFbxTime"
| "GetType DReference = eFbxReference"
| "GetType (DBlob _) = eFbxBlob"
| "GetType (DDistance _ _) = eFbxDistance"
| "GetType DDateTime = eFbxDateTime"

text \<open>The value type names the reader uses (\<open>SdfValueTypeNames\<close>).\<close>

datatype SdfValueTypeName =
    Sdf_UChar | Sdf_Int | Sdf_UInt | Sdf_Int64 | Sdf_UInt64 | Sdf_Half | Sdf_Bool
  | Sdf_Float | Sdf_Double | Sdf_Double2 | Sdf_Double3 | Sdf_Double4 | Sdf_Matrix4d
  | Sdf_TimeCode | Sdf_Token | Sdf_Float2 | Sdf_Half3Array | Sdf_Empty

text \<open>A \<open>VtValue\<close> holds a value of one C++ type; one constructor per held type.\<close>

datatype VtValue =
    VEmpty
  | VUChar "8 word"
  | VInt "32 word"
  | VUInt "32 word"
  | VInt64 "64 word"
  | VUInt64 "64 word"
  | VHalf half
  | VBool bool
  | VFloat float
  | VDouble double
  | VVec2d double double
  | VVec3d double double double
  | VVec4d double double double double
  | VMatrix4d "double list"
  | VTimeCode UsdTimeCode
  | VToken TfToken
  | VVec2f float float
  | VVec3hArray "(half \<times> half \<times> half) list"
  | VString string

datatype HeldType =
    T_empty | T_uint8 | T_int32 | T_uint32 | T_int64 | T_uint64 | T_GfHalf | T_bool
  | T_float | T_double | T_GfVec2d | T_GfVec3d | T_GfVec4d | T_GfMatrix4d
  | T_UsdTimeCode | T_TfToken | T_GfVec2f | T_VtVec3hArray | T_string

text \<open>The type a \<open>VtValue\<close> holds.\<close>

fun heldType :: "VtValue \<Rightarrow> HeldType" where
  "heldType VEmpty = T_empty"
| "heldType (VUChar _) = T_uint8"
| "heldType (VInt _) = T_int32"
| "heldType (VUInt _) = T_uint32"
| "heldType (VInt64 _) = T_int64"
| "heldType (VUInt64 _) = T_uint64"
| "heldType (VHalf _) = T_GfHalf"
| "heldType (VBool _) = T_bool"
| "heldType (VFloat _) = T_float"
| "heldType (VDouble _) = T_double"
| "heldType (VVec2d _ _) = T_GfVec2d"
| "heldType (VVec3d _ _ _) = T_GfVec3d"
| "heldType (VVec4d _ _ _ _) = T_GfVec4d"
| "heldType (VMatrix4d _) = T_GfMatrix4d"
| "heldType (VTimeCode _) = T_UsdTimeCode"
| "heldType (VToken _) = T_TfToken"
| "heldType (VVec2f _ _) = T_GfVec2f"
| "heldType (VVec3hArray _) = T_VtVec3hArray"
| "heldType (VString _) = T_string"

section \<open>The value and type mapper (\<open>helpers::FbxToUsd\<close>)\<close>

fun getSdfTypeName_of :: "EFbxType \<Rightarrow> SdfValueTypeName" where
  "getSdfTypeName_of eFbxUChar = Sdf_UChar"
| "getSdfTypeName_of eFbxChar = Sdf_UChar"
| "getSdfTypeName_of eFbxShort = Sdf_Int"
| "getSdfTypeName_of eFbxUShort = Sdf_UInt"
| "getSdfTypeName_of eFbxLongLong = Sdf_Int64"
| "getSdfTypeName_of eFbxULongLong = Sdf_UInt64"
| "getSdfTypeName_of eFbxHalfFloat = Sdf_Half"
| "getSdfTypeName_of eFbxBool = Sdf_Bool"
| "getSdfTypeName_of eFbxInt = Sdf_Int"
| "getSdfTypeName_of eFbxUInt = Sdf_UInt"
| "getSdfTypeName_of eFbxDistance = Sdf_Float"
| "getSdfTypeName_of eFbxFloat = Sdf_Float"
| "getSdfTypeName_of eFbxDouble = Sdf_Double"
| "getSdfTypeName_of eFbxDouble2 = Sdf_Double2"
| "getSdfTypeName_of eFbxDouble3 = Sdf_Double3"
| "getSdfTypeName_of eFbxDouble4 = Sdf_Double4"
| "getSdfTypeName_of eFbxDouble4x4 = Sdf_Matrix4d"
| "getSdfTypeName_of eFbxTime = Sdf_TimeCode"
| "getSdfTypeName_of eFbxBlob = Sdf_Token"
| "getSdfTypeName_of eFbxString = Sdf_Token"
| "getSdfTypeName_of _ = Sdf_Token"

definition getSdfTypeName :: "FbxData \<Rightarrow> SdfValueTypeName" where
  "getSdfTypeName d = getSdfTypeName_of (GetType d)"

text \<open>
  The integer conversions of \<open>getValue()\<close>: a \<open>static_cast\<close> between integer types
  keeps the value modulo two to the width of the target.
\<close>

definition char_to_uint8 :: "8 word \<Rightarrow> 8 word" where
  "char_to_uint8 c = word_of_int (sint c)"

definition short_to_int32 :: "16 word \<Rightarrow> 32 word" where
  "short_to_int32 s = word_of_int (sint s)"

definition ushort_to_uint32 :: "16 word \<Rightarrow> 32 word" where
  "ushort_to_uint32 s = word_of_int (uint s)"

text \<open>
  A 4 by 4 matrix is the list of its sixteen entries, row by row; \<open>toGfMatrix\<close> copies
  them in that order.
\<close>

definition toGfMatrix :: "double list \<Rightarrow> double list" where
  "toGfMatrix m = m"

text \<open>\<open>getValue()\<close>: the default value of a property.\<close>

fun getValue :: "FbxData \<Rightarrow> VtValue" where
  "getValue (DUChar v) = VUChar v"
| "getValue (DChar v) = VUChar (char_to_uint8 v)"
| "getValue (DShort v) = VInt (short_to_int32 v)"
| "getValue (DUShort v) = VUInt (ushort_to_uint32 v)"
| "getValue (DLongLong v) = VInt64 v"
| "getValue (DULongLong v) = VUInt64 v"
| "getValue (DHalfFloat v) = VHalf v"
| "getValue (DBool v) = VBool v"
| "getValue (DInt v) = VInt v"
| "getValue (DUInt v) = VUInt v"
| "getValue (DFloat v) = VFloat v"
| "getValue (DDouble v) = VDouble v"
| "getValue (DDouble2 a b) = VVec2d a b"
| "getValue (DDouble3 a b c) = VVec3d a b c"
| "getValue (DDouble4 a b c d) = VVec4d a b c d"
| "getValue (DDouble4x4 m) = VMatrix4d (toGfMatrix m)"
| "getValue (DTime t) = VTimeCode (of_int t)"
| "getValue (DDistance v u) = VFloat v"
| "getValue (DBlob s) = VToken s"
| "getValue (DString s) = VToken s"
| "getValue _ = VToken ''UNKNOWN TYPE''"

text \<open>
  Reading \<open>animChannels[i]\<close>: beyond the end of the vector the read has no defined
  value.
\<close>

definition channel :: "float list \<Rightarrow> nat \<Rightarrow> float option" where
  "channel animChannels i = (if i < length animChannels then Some (animChannels ! i) else None)"

text \<open>
  A \<open>static_cast\<close> from \<open>float\<close> to an integer type drops the fraction (towards
  zero); C++ defines the result only when the truncated value fits the target type.
\<close>

definition trunc_to_zero :: "real \<Rightarrow> int" where
  "trunc_to_zero x = (if 0 \<le> x then \<lfloor>x\<rfloor> else \<lceil>x\<rceil>)"

definition float_to_integral :: "int \<Rightarrow> int \<Rightarrow> float \<Rightarrow> int option" where
  "float_to_integral lo hi x = (let t = trunc_to_zero x in if lo \<le> t \<and> t \<le> hi then Some t else None)"

definition float_to_uint8 :: "float \<Rightarrow> 8 word option" where
  "float_to_uint8 x = map_option word_of_int (float_to_integral 0 255 x)"

definition float_to_int32 :: "float \<Rightarrow> 32 word option" where
  "float_to_int32 x = map_option word_of_int (float_to_integral (- (2 ^ 31)) (2 ^ 31 - 1) x)"

definition float_to_uint32 :: "float \<Rightarrow> 32 word option" where
  "float_to_uint32 x = map_option word_of_int (float_to_integral 0 (2 ^ 32 - 1) x)"

definition float_to_int64 :: "float \<Rightarrow> 64 word option" where
  "float_to_int64 x = map_option word_of_int (float_to_integral (- (2 ^ 63)) (2 ^ 63 - 1) x)"

definition float_to_uint64 :: "float \<Rightarrow> 64 word option" where
  "float_to_uint64 x = map_option word_of_int (float_to_integral 0 (2 ^ 64 - 1) x)"

text \<open>
  \<open>getValue(animChannels)\<close>: the value of one sampled frame, from the property's data
  type and the frame's channel vector. \<open>None\<close> where the C++ has no defined result.
\<close>

fun getValue_anim :: "EFbxType \<Rightarrow> float list \<Rightarrow> VtValue option" where
  "getValue_anim eFbxBool cs = map_option (\<lambda>c. VBool (c \<noteq> 0)) (channel cs 0)"
| "getValue_anim eFbxUChar cs = map_option VUChar (Option.bind (channel cs 0) float_to_uint8)"
| "getValue_anim eFbxChar cs = map_option VUChar (Option.bind (channel cs 0) float_to_uint8)"
| "getValue_anim eFbxShort cs = map_option VInt (Option.bind (channel cs 0) float_to_int32)"
| "getValue_anim eFbxUShort cs = map_option VUInt (Option.bind (channel cs 0) float_to_uint32)"
| "getValue_anim eFbxInt cs = map_option VInt (Option.bind (channel cs 0) float_to_int32)"
| "getValue_anim eFbxUInt cs = map_option VUInt (Option.bind (channel cs 0) float_to_uint32)"
| "getValue_anim eFbxLongLong cs = map_option VInt64 (Option.bind (channel cs 0) float_to_int64)"
| "getValue_anim eFbxULongLong cs = map_option VUInt64 (Option.bind (channel cs 0) float_to_uint64)"
| "getValue_anim eFbxHalfFloat cs = map_option VHalf (channel cs 0)"
| "getValue_anim eFbxFloat cs = map_option VFloat (channel cs 0)"
| "getValue_anim eFbxDouble cs = map_option VDouble (channel cs 0)"
| "getValue_anim eFbxDouble2 cs =
     (if 2 \<le> length cs then Some (VVec2d (cs ! 0) (cs ! 1)) else None)"
| "getValue_anim eFbxDouble3 cs =
     (if 3 \<le> length cs then Some (VVec3d (cs ! 0) (cs ! 1) (cs ! 2)) else None)"
| "getValue_anim eFbxDouble4 cs =
     (if 4 \<le> length cs then Some (VVec4d (cs ! 0) (cs ! 1) (cs ! 2) (cs ! 3)) else None)"
| "getValue_anim eFbxDouble4x4 cs =
     (if 16 \<le> length cs then Some (VMatrix4d (map (\<lambda>i. cs ! i) [0..<16])) else None)"
| "getValue_anim _ cs = Some (VToken ''UNKNOWN VALUE'')"

section \<open>The animation sampler (\<open>helpers::getPropertyAnimation\<close>)\<close>

text \<open>
  An animation curve is what \<open>FbxAnimCurve::Evaluate\<close> returns at each frame. A curve
  node has one slot per channel, with or without a curve attached (\<open>GetCurve\<close> returns
  null for a slot without one).
\<close>

type_synonym FbxAnimCurve = "FbxTime \<Rightarrow> float"

type_synonym FbxAnimCurveNode = "FbxAnimCurve option list"

type_synonym FbxAnimLayer = nat

record FbxProperty =
  GetName :: string
  propertyData :: FbxData
  eUserDefined :: bool
  IsValid :: bool
  GetCurveNode :: "FbxAnimLayer \<Rightarrow> FbxAnimCurveNode option"

record FbxTimeSpan =
  GetStart :: FbxTime
  GetStop :: FbxTime

text \<open>\<open>FbxTimeSpan::GetDuration\<close> is the distance between start and stop.\<close>

definition GetDuration :: "FbxTimeSpan \<Rightarrow> FbxTime" where
  "GetDuration animTimeSpan =
     (if GetStop animTimeSpan > GetStart animTimeSpan
      then GetStop animTimeSpan - GetStart animTimeSpan
      else GetStart animTimeSpan - GetStop animTimeSpan)"

text \<open>
  The overload that takes a function of the frame: one sample per frame from start to
  stop.
\<close>

definition getPropertyAnimation_fn ::
  "'node \<Rightarrow> ('node \<Rightarrow> FbxTime \<Rightarrow> VtValue) \<Rightarrow> FbxAnimLayer option \<Rightarrow> FbxTimeSpan
     \<Rightarrow> (UsdTimeCode \<times> VtValue) list" where
  "getPropertyAnimation_fn node valueAtTimeFn animLayer animTimeSpan =
     (if animLayer = None then []
      else map (\<lambda>frame. (of_int frame, valueAtTimeFn node frame))
             [GetStart animTimeSpan .. GetStop animTimeSpan])"

text \<open>
  \<open>std::set<UsdTimeCode>\<close> as the ascending list of its elements: \<open>insert\<close> keeps an
  element that is already there.
\<close>

definition set_insert :: "UsdTimeCode \<Rightarrow> UsdTimeCode list \<Rightarrow> UsdTimeCode list" where
  "set_insert t timeCodes = (if t \<in> set timeCodes then timeCodes else insort t timeCodes)"

text \<open>
  The inner loop of the overload that takes a property: the frames of one channel's curve,
  written to \<open>channelValues[index][channelId]\<close>. A write beyond the end of
  \<open>channelValues\<close> has no defined result.
\<close>

fun sampleCurve ::
  "FbxAnimCurve \<Rightarrow> nat \<Rightarrow> FbxTime list \<Rightarrow> nat \<Rightarrow> float list list \<times> UsdTimeCode list
     \<Rightarrow> (float list list \<times> UsdTimeCode list) option" where
  "sampleCurve animCurve channelId [] index st = Some st"
| "sampleCurve animCurve channelId (frame # frames) index (channelValues, timeCodes) =
     (if index < length channelValues
      then sampleCurve animCurve channelId frames (Suc index)
             (channelValues[index := (channelValues ! index)[channelId := animCurve frame]],
              set_insert (of_int frame) timeCodes)
      else None)"

text \<open>The loop over the channels; a channel without a curve is passed over.\<close>

fun sampleChannels ::
  "FbxAnimCurveNode \<Rightarrow> FbxTimeSpan \<Rightarrow> nat list \<Rightarrow> float list list \<times> UsdTimeCode list
     \<Rightarrow> (float list list \<times> UsdTimeCode list) option" where
  "sampleChannels curveNode animTimeSpan [] st = Some st"
| "sampleChannels curveNode animTimeSpan (channelId # channelIds) st =
     (case curveNode ! channelId of
        None \<Rightarrow> sampleChannels curveNode animTimeSpan channelIds st
      | Some animCurve \<Rightarrow>
          (case sampleCurve animCurve channelId
                  [GetStart animTimeSpan .. GetStop animTimeSpan] 0 st of
             None \<Rightarrow> None
           | Some st' \<Rightarrow> sampleChannels curveNode animTimeSpan channelIds st'))"

text \<open>
  \<open>std::transform\<close> over \<open>channelValues\<close> and the time codes: it reads one time code
  per channel vector, so fewer time codes than vectors is a read past the end.
\<close>

definition transformSamples ::
  "EFbxType \<Rightarrow> float list list \<Rightarrow> UsdTimeCode list \<Rightarrow> (UsdTimeCode \<times> VtValue) list option" where
  "transformSamples ty channelValues timeCodes =
     (if length timeCodes < length channelValues then None
      else those (map (\<lambda>(channelValue, timeCode).
                         map_option (\<lambda>val. (timeCode, val)) (getValue_anim ty channelValue))
                      (zip channelValues timeCodes)))"

definition getPropertyAnimation ::
  "FbxProperty \<Rightarrow> FbxAnimLayer option \<Rightarrow> FbxTimeSpan \<Rightarrow> (UsdTimeCode \<times> VtValue) list option" where
  "getPropertyAnimation fbxProperty animLayer animTimeSpan =
     (case animLayer of
        None \<Rightarrow> Some []
      | Some layer \<Rightarrow>
          if \<not> IsValid fbxProperty then Some []
          else
            (case GetCurveNode fbxProperty layer of
               None \<Rightarrow> Some []
             | Some curveNode \<Rightarrow>
                 let hasAnimCurves = list_ex (\<lambda>curve. curve \<noteq> None) curveNode in
                 if \<not> hasAnimCurves then Some []
                 else
                   let numKeys = nat (GetDuration animTimeSpan) + 1;
                       defaultChannelsValue = replicate (length curveNode) 0;
                       channelValues = replicate numKeys defaultChannelsValue
                   in (case sampleChannels curveNode animTimeSpan [0..<length curveNode]
                              (channelValues, []) of
                         None \<Rightarrow> None
                       | Some (channelValues', timeCodes) \<Rightarrow>
                           transformSamples (GetType (propertyData fbxProperty))
                             channelValues' timeCodes)))"

text \<open>
  The channel vector of one frame, as the sampling loops leave it: the value of the curve
  for a channel that has one, the initial 0 for a channel that has none.
\<close>

definition frameChannels :: "FbxAnimCurveNode \<Rightarrow> FbxTime \<Rightarrow> float list" where
  "frameChannels curveNode frame =
     map (\<lambda>curve. case curve of None \<Rightarrow> 0 | Some animCurve \<Rightarrow> animCurve frame) curveNode"

section \<open>Paths, prims and properties of the target\<close>

text \<open>
  An \<open>SdfPath\<close> is the empty path, or a prim path (absolute or relative, a list of prim
  names) with or without a property name at its end. Node and property names are taken to
  be valid path elements, so that \<open>SdfPath(name)\<close> is the relative path of one element.
\<close>

datatype SdfPath = EmptyPath | SdfPath bool "TfToken list" "TfToken option"

definition SdfPath_name :: "string \<Rightarrow> SdfPath" where
  "SdfPath_name name = SdfPath False [name] None"

definition AppendChild :: "SdfPath \<Rightarrow> TfToken \<Rightarrow> SdfPath" where
  "AppendChild p childName =
     (case p of SdfPath absolute elems None \<Rightarrow> SdfPath absolute (elems @ [childName]) None
      | _ \<Rightarrow> EmptyPath)"

definition AppendPath :: "SdfPath \<Rightarrow> SdfPath \<Rightarrow> SdfPath" where
  "AppendPath p newSuffix =
     (case (p, newSuffix) of
        (SdfPath absolute elems None, SdfPath False suffixElems prop) \<Rightarrow>
          SdfPath absolute (elems @ suffixElems) prop
      | _ \<Rightarrow> EmptyPath)"

definition AppendProperty :: "SdfPath \<Rightarrow> TfToken \<Rightarrow> SdfPath" where
  "AppendProperty p propName =
     (case p of SdfPath absolute elems None \<Rightarrow> SdfPath absolute elems (Some propName)
      | _ \<Rightarrow> EmptyPath)"

definition GetParentPath :: "SdfPath \<Rightarrow> SdfPath" where
  "GetParentPath p =
     (case p of
        SdfPath absolute elems (Some propName) \<Rightarrow> SdfPath absolute elems None
      | SdfPath absolute elems None \<Rightarrow>
          (if elems = [] then EmptyPath else SdfPath absolute (butlast elems) None)
      | EmptyPath \<Rightarrow> EmptyPath)"

fun joinElements :: "TfToken list \<Rightarrow> string" where
  "joinElements [] = []"
| "joinElements [e] = e"
| "joinElements (e # es) = e @ ''/'' @ joinElements es"

definition GetAsToken :: "SdfPath \<Rightarrow> TfToken" where
  "GetAsToken p =
     (case p of
        EmptyPath \<Rightarrow> []
      | SdfPath absolute elems prop \<Rightarrow>
          (if absolute then ''/'' else []) @ joinElements elems
          @ (case prop of None \<Rightarrow> [] | Some propName \<Rightarrow> ''.'' @ propName))"

text \<open>\<open>SdfPath("/ROOT")\<close> and \<open>SdfPath::AbsoluteRootPath()\<close>.\<close>

definition ROOT :: SdfPath where
  "ROOT = SdfPath True [''ROOT''] None"

definition AbsoluteRootPath :: SdfPath where
  "AbsoluteRootPath = SdfPath True [] None"

datatype SdfVariability = SdfVariabilityVarying | SdfVariabilityUniform

type_synonym MetadataMap = "(TfToken \<times> VtValue) list"

record Property =
  typeName :: SdfValueTypeName
  variability :: SdfVariability
  "value" :: VtValue
  timeSamples :: "(UsdTimeCode \<times> VtValue) list"
  metadata :: MetadataMap

record Prim =
  primTypeName :: TfToken
  primMetadata :: MetadataMap
  primChildren :: "TfToken list"

text \<open>What the data reader holds: prims and properties by path.\<close>

record FbxDataReader =
  prims :: "SdfPath \<rightharpoonup> Prim"
  properties :: "SdfPath \<rightharpoonup> Property"

text \<open>
  Modelled from the spec: \<open>AddProperty\<close> and \<open>GetOrAddPrim\<close> of the data reader are
  not in the source file. The spec gives the sink "get-or-create-prim(path)" and
  "add-property(path)", idempotent by path: a path that has no entry gets a
  default-constructed one, a path that has one keeps it.
\<close>

definition AddProperty :: "SdfPath \<Rightarrow> FbxDataReader \<Rightarrow> FbxDataReader" where
  "AddProperty path r =
     (case properties r path of
        Some prop \<Rightarrow> r
      | None \<Rightarrow> r\<lparr>properties := (properties r)(path \<mapsto>
          \<lparr>typeName = Sdf_Empty, variability = SdfVariabilityVarying, value = VEmpty,
           timeSamples = [], metadata = []\<rparr>)\<rparr>)"

definition GetOrAddPrim :: "SdfPath \<Rightarrow> FbxDataReader \<Rightarrow> FbxDataReader" where
  "GetOrAddPrim path r =
     (case prims r path of
        Some prim \<Rightarrow> r
      | None \<Rightarrow> r\<lparr>prims := (prims r)(path \<mapsto>
          \<lparr>primTypeName = [], primMetadata = [], primChildren = []\<rparr>)\<rparr>)"

section \<open>Scene nodes\<close>

datatype EType =
    eUnknown | eNull | eMarker | eSkeleton | eMesh | eNurbs | ePatch | eCamera
  | eCameraStereo | eCameraSwitcher | eLight | eOpticalReference | eOpticalMarker
  | eNurbsCurve | eTrimNurbsSurface | eBoundary | eNurbsSurface | eShape | eLODGroup
  | eSubDiv | eCachedEffect | eLine

text \<open>\<open>FbxSystemUnit\<close>: a scale factor and a multiplier, in centimetres.\<close>

record FbxSystemUnit =
  GetScaleFactor :: double
  GetMultiplier :: double

definition GetConversionFactorTo :: "FbxSystemUnit \<Rightarrow> FbxSystemUnit \<Rightarrow> double" where
  "GetConversionFactorTo u target =
     (GetScaleFactor u * GetMultiplier u) / (GetScaleFactor target * GetMultiplier target)"

definition mm :: FbxSystemUnit where
  "mm = \<lparr>GetScaleFactor = 1 / 10, GetMultiplier = 1\<rparr>"

datatype EProjectionType = ePerspective | eOrthogonal

text \<open>
  A camera: its film and lens properties, the evaluator's value of the focal length and of
  the field of view at each time, and the system unit of its scene.
\<close>

record FbxCamera =
  FilmHeight :: double
  FilmWidth :: double
  FilmSqueezeRatio :: double
  ProjectionType :: EProjectionType
  NearPlane :: double
  FarPlane :: double
  FocusDistance :: FbxProperty
  UseDepthOfField :: bool
  FocalLength :: "FbxTime \<Rightarrow> double"
  FieldOfView :: "FbxTime \<Rightarrow> double"
  GetSystemUnit :: FbxSystemUnit

text \<open>
  The attribute of a node, by its type; a camera attribute carries the camera. (Mesh data
  are given to the mesh converters directly.)
\<close>

datatype FbxNodeAttribute = FbxCameraAttribute FbxCamera | FbxAttribute EType

fun GetAttributeType :: "FbxNodeAttribute \<Rightarrow> EType" where
  "GetAttributeType (FbxCameraAttribute camera) = eCamera"
| "GetAttributeType (FbxAttribute t) = t"

text \<open>
  The scene is a tree of nodes. A node pointer (\<open>FbxNode*\<close>) is the subtree at the node
  together with the subtrees of its ancestors, the parent first: \<open>GetParent\<close> and
  \<open>GetChild\<close> (for an index below \<open>GetChildCount\<close>) move along it, and the
  root node of the scene is the node without ancestors.
\<close>

datatype FbxNodeTree =
  FbxNodeTree (treeName: string) (treeAttribute: "FbxNodeAttribute option")
    (treeChildren: "FbxNodeTree list")

datatype FbxNode = FbxNode (ancestors: "FbxNodeTree list") (subtree: "FbxNodeTree")

definition GetNodeName :: "FbxNode \<Rightarrow> string" where
  "GetNodeName node = treeName (subtree node)"

definition GetNodeAttribute :: "FbxNode \<Rightarrow> FbxNodeAttribute option" where
  "GetNodeAttribute node = treeAttribute (subtree node)"

definition GetNodeAttributeCount :: "FbxNode \<Rightarrow> nat" where
  "GetNodeAttributeCount node = (case treeAttribute (subtree node) of None \<Rightarrow> 0 | Some a \<Rightarrow> 1)"

definition GetParent :: "FbxNode \<Rightarrow> FbxNode option" where
  "GetParent node =
     (case ancestors node of [] \<Rightarrow> None | parent # rest \<Rightarrow> Some (FbxNode rest parent))"

definition GetChildCount :: "FbxNode \<Rightarrow> nat" where
  "GetChildCount node = length (treeChildren (subtree node))"

definition GetChild :: "FbxNode \<Rightarrow> nat \<Rightarrow> FbxNode" where
  "GetChild node i = FbxNode (subtree node # ancestors node) (treeChildren (subtree node) ! i)"

definition GetCamera :: "FbxNode \<Rightarrow> FbxCamera option" where
  "GetCamera node =
     (case GetNodeAttribute node of Some (FbxCameraAttribute camera) \<Rightarrow> Some camera | _ \<Rightarrow> None)"

section \<open>The reader context (\<open>remedy::FbxNodeReaderContext\<close>)\<close>

record FbxNodeReaderContext =
  m_dataReader :: FbxDataReader
  m_fbxNode :: FbxNode
  m_usdPath :: SdfPath
  m_fbxAnimLayer :: "FbxAnimLayer option"
  m_fbxTimeSpan :: FbxTimeSpan
  m_scaleFactor :: double

text \<open>
  \<open>createPropertyAtPath\<close> returns a reference to the property at the path, which the
  caller then assigns to: here the property as found or created, and the data reader that
  holds it.
\<close>

definition createPropertyAtPath :: "SdfPath \<Rightarrow> FbxDataReader \<Rightarrow> Property \<times> FbxDataReader" where
  "createPropertyAtPath path r =
     (let r' = AddProperty path r
      in (case properties r' path of
            Some prop \<Rightarrow> (prop, r')
          | None \<Rightarrow> (\<lparr>typeName = Sdf_Empty, variability = SdfVariabilityVarying, value = VEmpty,
                       timeSamples = [], metadata = []\<rparr>, r')))"

definition storeProperty :: "SdfPath \<Rightarrow> Property \<Rightarrow> FbxDataReader \<Rightarrow> FbxNodeReaderContext
    \<Rightarrow> FbxNodeReaderContext" where
  "storeProperty path prop r ctx =
     ctx\<lparr>m_dataReader := r\<lparr>properties := (properties r)(path \<mapsto> prop)\<rparr>\<rparr>"

text \<open>
  \<open>CreateProperty\<close> with an \<open>FbxProperty*\<close> (null or not): the time samples are
  assigned only when the pointer is not null. \<open>None\<close> where the sampler has no defined
  result.
\<close>

definition CreateProperty_at ::
  "SdfPath \<Rightarrow> SdfValueTypeName \<Rightarrow> VtValue \<Rightarrow> FbxProperty option \<Rightarrow> MetadataMap \<Rightarrow> SdfVariability
     \<Rightarrow> FbxNodeReaderContext \<Rightarrow> FbxNodeReaderContext option" where
  "CreateProperty_at propertyPath tn defaultValue fbxProperty md var ctx =
     (let (prop, r) = createPropertyAtPath propertyPath (m_dataReader ctx);
          prop = prop\<lparr>metadata := md\<rparr>;
          prop = prop\<lparr>typeName := tn\<rparr>;
          prop = prop\<lparr>variability := var\<rparr>
      in (case fbxProperty of
            None \<Rightarrow> Some (storeProperty propertyPath (prop\<lparr>value := defaultValue\<rparr>) r ctx)
          | Some p \<Rightarrow>
              (case getPropertyAnimation p (m_fbxAnimLayer ctx) (m_fbxTimeSpan ctx) of
                 None \<Rightarrow> None
               | Some samples \<Rightarrow>
                   Some (storeProperty propertyPath
                           (prop\<lparr>timeSamples := samples, value := defaultValue\<rparr>) r ctx))))"

text \<open>\<open>CreateProperty\<close> with a function of the frame.\<close>

definition CreateProperty_fn_at ::
  "SdfPath \<Rightarrow> SdfValueTypeName \<Rightarrow> VtValue \<Rightarrow> (FbxNode \<Rightarrow> FbxTime \<Rightarrow> VtValue) \<Rightarrow> MetadataMap
     \<Rightarrow> SdfVariability \<Rightarrow> FbxNodeReaderContext \<Rightarrow> FbxNodeReaderContext option" where
  "CreateProperty_fn_at propertyPath tn defaultValue valueAtTimeFn md var ctx =
     (let (prop, r) = createPropertyAtPath propertyPath (m_dataReader ctx);
          prop = prop\<lparr>metadata := md\<rparr>;
          prop = prop\<lparr>typeName := tn\<rparr>;
          prop = prop\<lparr>variability := var\<rparr>;
          prop = prop\<lparr>timeSamples := getPropertyAnimation_fn (m_fbxNode ctx) valueAtTimeFn
                                       (m_fbxAnimLayer ctx) (m_fbxTimeSpan ctx)\<rparr>
      in Some (storeProperty propertyPath (prop\<lparr>value := defaultValue\<rparr>) r ctx))"

text \<open>
  The overloads that take the property's name, relative to the path of the node's prim, and the
  ones without a source of animation. The variability argument is left to its default in
  every call but those of \<open>CreateUniformProperty\<close>; the default is declared in the
  header and is taken to be varying.
\<close>

definition CreateProperty ::
  "TfToken \<Rightarrow> SdfValueTypeName \<Rightarrow> VtValue \<Rightarrow> MetadataMap \<Rightarrow> FbxNodeReaderContext
     \<Rightarrow> FbxNodeReaderContext option" where
  "CreateProperty propertyName tn defaultValue md ctx =
     CreateProperty_at (AppendProperty (m_usdPath ctx) propertyName) tn defaultValue None md
       SdfVariabilityVarying ctx"

definition CreateProperty_fbx ::
  "TfToken \<Rightarrow> SdfValueTypeName \<Rightarrow> VtValue \<Rightarrow> FbxProperty option \<Rightarrow> MetadataMap
     \<Rightarrow> FbxNodeReaderContext \<Rightarrow> FbxNodeReaderContext option" where
  "CreateProperty_fbx propertyName tn defaultValue fbxProperty md ctx =
     CreateProperty_at (AppendProperty (m_usdPath ctx) propertyName) tn defaultValue
       fbxProperty md SdfVariabilityVarying ctx"

definition CreateProperty_fn ::
  "TfToken \<Rightarrow> SdfValueTypeName \<Rightarrow> VtValue \<Rightarrow> (FbxNode \<Rightarrow> FbxTime \<Rightarrow> VtValue) \<Rightarrow> MetadataMap
     \<Rightarrow> FbxNodeReaderContext \<Rightarrow> FbxNodeReaderContext option" where
  "CreateProperty_fn propertyName tn defaultValue valueAtTimeFn md ctx =
     CreateProperty_fn_at (AppendProperty (m_usdPath ctx) propertyName) tn defaultValue
       valueAtTimeFn md SdfVariabilityVarying ctx"

definition CreateProperty_path ::
  "SdfPath \<Rightarrow> SdfValueTypeName \<Rightarrow> VtValue \<Rightarrow> MetadataMap \<Rightarrow> FbxNodeReaderContext
     \<Rightarrow> FbxNodeReaderContext option" where
  "CreateProperty_path propertyPath tn defaultValue md ctx =
     CreateProperty_at propertyPath tn defaultValue None md SdfVariabilityVarying ctx"

text \<open>\<open>GetOrAddPrim().typeName = t\<close>.\<close>

definition setPrimTypeName :: "TfToken \<Rightarrow> FbxNodeReaderContext \<Rightarrow> FbxNodeReaderContext" where
  "setPrimTypeName t ctx =
     (let r = GetOrAddPrim (m_usdPath ctx) (m_dataReader ctx)
      in ctx\<lparr>m_dataReader := r\<lparr>prims :=
           (case prims r (m_usdPath ctx) of
              None \<Rightarrow> prims r
            | Some prim \<Rightarrow> (prims r)(m_usdPath ctx \<mapsto> prim\<lparr>primTypeName := t\<rparr>))\<rparr>\<rparr>)"

text \<open>
  The names of \<open>Tokens.h\<close> that the readers below use. The header is not part of the
  source file, so the readers take the names as an argument.
\<close>

record UsdFbxTokens =
  PrimTypeNames_Camera :: TfToken
  DisplayGroupTokens_camera :: TfToken
  DisplayGroupTokens_generated :: TfToken
  DisplayGroupTokens_skelanimation :: TfToken

definition getDisplayGroupMetadata :: "TfToken \<Rightarrow> TfToken \<times> VtValue" where
  "getDisplayGroupMetadata displayGroupName = (''displayGroup'', VString displayGroupName)"

section \<open>The camera reader\<close>

definition MM_PER_INCH :: double where
  "MM_PER_INCH = 254 / 10"

definition toOneTenthOfScene :: "double \<Rightarrow> FbxSystemUnit \<Rightarrow> double" where
  "toOneTenthOfScene v systemUnits =
     (let mmToScene = \<lparr>GetScaleFactor = GetConversionFactorTo mm systemUnits, GetMultiplier = 1\<rparr>;
          relativeToMM = GetConversionFactorTo mmToScene mm
      in v * relativeToMM)"

definition cameraApertureHeight :: "FbxCamera \<Rightarrow> double" where
  "cameraApertureHeight camera =
     toOneTenthOfScene (FilmHeight camera * FilmSqueezeRatio camera * MM_PER_INCH)
       (GetSystemUnit camera)"

definition cameraApertureWidth :: "FbxCamera \<Rightarrow> double" where
  "cameraApertureWidth camera =
     toOneTenthOfScene (FilmWidth camera * FilmSqueezeRatio camera * MM_PER_INCH)
       (GetSystemUnit camera)"

definition cameraProjectionMode :: "FbxCamera \<Rightarrow> TfToken" where
  "cameraProjectionMode camera =
     (case ProjectionType camera of ePerspective \<Rightarrow> ''perspective''
      | eOrthogonal \<Rightarrow> ''orthographic'')"

definition cameraClippingRange :: "FbxCamera \<Rightarrow> VtValue" where
  "cameraClippingRange camera = VVec2f (NearPlane camera) (FarPlane camera)"

definition cameraFocalLength :: "FbxCamera \<Rightarrow> FbxTime \<Rightarrow> bool \<Rightarrow> double" where
  "cameraFocalLength camera t scale =
     (let focalLength = FocalLength camera t
      in if scale then toOneTenthOfScene focalLength (GetSystemUnit camera) else focalLength)"

definition cameraFieldOfView :: "FbxCamera \<Rightarrow> FbxTime \<Rightarrow> float" where
  "cameraFieldOfView camera t = FieldOfView camera t"

text \<open>The value of a property declared as \<open>FbxPropertyT<FbxDouble>\<close>.\<close>

definition Get_double :: "FbxProperty \<Rightarrow> double" where
  "Get_double p = (case propertyData p of DDouble v \<Rightarrow> v | _ \<Rightarrow> 0)"

text \<open>
  \<open>readCamera\<close>. The two functions of the frame read the camera of the node they are
  given, which is this node.
\<close>

definition readCamera :: "UsdFbxTokens \<Rightarrow> FbxNodeReaderContext \<Rightarrow> FbxNodeReaderContext option" where
  "readCamera tk ctx0 =
     (let ctx = setPrimTypeName (PrimTypeNames_Camera tk) ctx0;
          fbxNode = m_fbxNode ctx
      in if GetNodeAttribute fbxNode = None \<or> GetNodeAttributeCount fbxNode = 0
            \<or> map_option GetAttributeType (GetNodeAttribute fbxNode) \<noteq> Some eCamera
         then Some ctx
         else
           (case GetCamera fbxNode of
              None \<Rightarrow> None
            | Some camera \<Rightarrow>
                Option.bind (CreateProperty_fn ''focalLength'' Sdf_Float
                    (VFloat (cameraFocalLength camera 0 True))
                    (\<lambda>node t. case GetCamera node of
                        Some c \<Rightarrow> VDouble (cameraFocalLength c t True) | None \<Rightarrow> VEmpty)
                    [getDisplayGroupMetadata (DisplayGroupTokens_camera tk)] ctx)
               (\<lambda>ctx.
                Option.bind (CreateProperty_fbx ''focusDistance'' Sdf_Float
                    (VFloat (Get_double (FocusDistance camera)))
                    (Some (FocusDistance camera))
                    [getDisplayGroupMetadata (DisplayGroupTokens_camera tk)] ctx)
               (\<lambda>ctx.
                Option.bind (CreateProperty ''horizontalAperture'' Sdf_Float
                    (VFloat (cameraApertureWidth camera))
                    [getDisplayGroupMetadata (DisplayGroupTokens_camera tk)] ctx)
               (\<lambda>ctx.
                Option.bind (CreateProperty ''verticalAperture'' Sdf_Float
                    (VFloat (cameraApertureHeight camera))
                    [getDisplayGroupMetadata (DisplayGroupTokens_camera tk)] ctx)
               (\<lambda>ctx.
                Option.bind (CreateProperty ''projection'' Sdf_Token
                    (VToken (cameraProjectionMode camera))
                    [getDisplayGroupMetadata (DisplayGroupTokens_camera tk)] ctx)
               (\<lambda>ctx.
                Option.bind
                  (if UseDepthOfField camera
                   then CreateProperty ''fStop'' Sdf_Float (VFloat 0)
                          [getDisplayGroupMetadata (DisplayGroupTokens_camera tk)] ctx
                   else Some ctx)
               (\<lambda>ctx.
                Option.bind (CreateProperty ''clippingRange'' Sdf_Float2
                    (cameraClippingRange camera)
                    [getDisplayGroupMetadata (DisplayGroupTokens_camera tk)] ctx)
               (\<lambda>ctx.
                CreateProperty_fn ''generated:fov'' Sdf_Float
                    (VFloat (cameraFieldOfView camera 0))
                    (\<lambda>node t. case GetCamera node of
                        Some c \<Rightarrow> VFloat (cameraFieldOfView c t) | None \<Rightarrow> VEmpty)
                    [getDisplayGroupMetadata (DisplayGroupTokens_generated tk),
                     (''custom'', VBool True)] ctx)))))))))"

text \<open>
  A camera node under the scene root, for the concrete instances below: its camera with or
  without depth of field, no property yet at its prim, and names for the tokens.
\<close>

definition example_camera :: "bool \<Rightarrow> FbxCamera" where
  "example_camera dof =
     \<lparr>FilmHeight = 1, FilmWidth = 3 / 2, FilmSqueezeRatio = 1, ProjectionType = ePerspective,
      NearPlane = 1, FarPlane = 1000,
      FocusDistance = \<lparr>GetName = ''FocusDistance'', propertyData = DDouble 5, eUserDefined = False,
                        IsValid = True, GetCurveNode = (\<lambda>layer. None)\<rparr>,
      UseDepthOfField = dof, FocalLength = (\<lambda>t. 35), FieldOfView = (\<lambda>t. 40),
      GetSystemUnit = \<lparr>GetScaleFactor = 1, GetMultiplier = 1\<rparr>\<rparr>"

definition example_camera_context :: "bool \<Rightarrow> FbxNodeReaderContext" where
  "example_camera_context dof =
     \<lparr>m_dataReader = \<lparr>prims = Map.empty, properties = Map.empty\<rparr>,
      m_fbxNode = FbxNode [FbxNodeTree ''RootNode'' None []]
                    (FbxNodeTree ''cam'' (Some (FbxCameraAttribute (example_camera dof))) []),
      m_usdPath = SdfPath True [''ROOT'', ''cam''] None,
      m_fbxAnimLayer = Some 0,
      m_fbxTimeSpan = \<lparr>GetStart = 0, GetStop = 1\<rparr>,
      m_scaleFactor = 1\<rparr>"

definition example_tokens :: UsdFbxTokens where
  "example_tokens =
     \<lparr>PrimTypeNames_Camera = ''Camera'', DisplayGroupTokens_camera = ''Camera'',
      DisplayGroupTokens_generated = ''Generated'', DisplayGroupTokens_skelanimation = ''SkelAnimation''\<rparr>"

section \<open>Skeleton hierarchies\<close>

text \<open>
  An \<open>FbxSkeleton*\<close> is used through \<open>GetNode()\<close> only, and is obtained from a node
  by casting its attribute: it is modelled as the node that owns it.
\<close>

type_synonym FbxSkeleton = FbxNode

definition isSkeleton :: "FbxNode \<Rightarrow> bool" where
  "isSkeleton node =
     (GetNodeAttribute node \<noteq> None \<and> GetNodeAttributeCount node > 0
      \<and> map_option GetAttributeType (GetNodeAttribute node) = Some eSkeleton)"

definition notSkeletonWarning :: "string \<Rightarrow> string" where
  "notSkeletonWarning childName =
     ''\"'' @ childName @ ''\" is not an FbxSkeleton node, but is part of a skeleton hierarchy! It and its children will be ignored''"

text \<open>
  \<open>collectSkeletonHierarchy\<close>, the recursive lambda of \<open>readSkeleton\<close> and of
  \<open>readSkeletonAnimation\<close>: the loop over the children of a joint, in their order. The
  first argument holds the joint's subtree and those of its ancestors, the second the
  children still to visit. The result is what the loop appends to \<open>skeletonHierarchy\<close>
  and the warnings it issues.
\<close>

fun collectChildren :: "FbxNodeTree list \<Rightarrow> FbxNodeTree list \<Rightarrow> FbxSkeleton list \<times> string list" where
  "collectChildren anc [] = ([], [])"
| "collectChildren anc (FbxNodeTree childName attr grandChildren # siblings) =
     (let child = FbxNode anc (FbxNodeTree childName attr grandChildren) in
      if \<not> isSkeleton child
      then (let (hierarchy, warnings) = collectChildren anc siblings
            in (hierarchy, notSkeletonWarning childName # warnings))
      else (let (below, warningsBelow) =
                  collectChildren (FbxNodeTree childName attr grandChildren # anc) grandChildren;
                (hierarchy, warnings) = collectChildren anc siblings
            in (child # below @ hierarchy, warningsBelow @ warnings)))"

definition collectSkeletonHierarchy :: "FbxSkeleton \<Rightarrow> FbxSkeleton list \<times> string list" where
  "collectSkeletonHierarchy skeleton =
     collectChildren (subtree skeleton # ancestors skeleton) (treeChildren (subtree skeleton))"

text \<open>
  The \<open>while\<close> loop of \<open>skeletonToTokenPath\<close>. The first element of the list is
  the node \<open>parent\<close> points to, the rest are its ancestors; with nothing left above it,
  \<open>parent\<close> becomes null and is dereferenced.
\<close>

fun tokenPathLoop :: "TfToken \<Rightarrow> FbxNodeTree list \<Rightarrow> SdfPath \<Rightarrow> SdfPath option" where
  "tokenPathLoop rootJointName [] jointPath = None"
| "tokenPathLoop rootJointName (parent # rest) jointPath =
     (if treeName parent \<noteq> rootJointName
      then (case rest of
              [] \<Rightarrow> None
            | newParent # _ \<Rightarrow>
                tokenPathLoop rootJointName rest
                  (AppendPath (SdfPath_name (treeName newParent)) jointPath))
      else Some jointPath)"

definition skeletonToTokenPath :: "FbxSkeleton \<Rightarrow> TfToken \<Rightarrow> TfToken option" where
  "skeletonToTokenPath skeleton rootJointName =
     (let jointName = GetNodeName skeleton in
      if jointName = rootJointName then Some jointName
      else (case ancestors skeleton of
              [] \<Rightarrow> None
            | parent # rest \<Rightarrow>
                map_option GetAsToken
                  (tokenPathLoop rootJointName (parent # rest)
                     (AppendChild (SdfPath_name (treeName parent)) jointName))))"

definition skeletonHierarchyToTokenList :: "FbxSkeleton list \<Rightarrow> TfToken list option" where
  "skeletonHierarchyToTokenList skeletonHierarchy =
     (case skeletonHierarchy of
        [] \<Rightarrow> None
      | first # _ \<Rightarrow>
          those (map (\<lambda>skeleton. skeletonToTokenPath skeleton (GetNodeName first))
                   skeletonHierarchy))"

text \<open>
  The joint list of \<open>readSkeleton\<close> and \<open>readSkeletonAnimation\<close>: the node itself,
  then what \<open>collectSkeletonHierarchy\<close> appends.
\<close>

definition skeletonHierarchyOf :: "FbxSkeleton \<Rightarrow> FbxSkeleton list" where
  "skeletonHierarchyOf pSkeleton = pSkeleton # fst (collectSkeletonHierarchy pSkeleton)"

section \<open>The scales of a skeleton animation (\<open>readSkeletonAnimation\<close>)\<close>

text \<open>
  The loop over the frames, for the scales: frame 0 to \<open>numFrames\<close>, the sample time
  advancing by one frame from the start of the time span, and one \<open>GfVec3h(1, 1, 1)\<close>
  per joint.
\<close>

definition sampleSkeletonScales :: "FbxSkeleton list \<Rightarrow> FbxTimeSpan \<Rightarrow> (UsdTimeCode \<times> VtValue) list" where
  "sampleSkeletonScales skeletonHierarchy animTimeSpan =
     (let numFrames = nat (GetDuration animTimeSpan) in
      map (\<lambda>frame. (of_int (GetStart animTimeSpan + int frame),
                     VVec3hArray (map (\<lambda>skeleton. (1, 1, 1)) skeletonHierarchy)))
        [0..<Suc numFrames])"

definition setTimeSamples :: "SdfPath \<Rightarrow> (UsdTimeCode \<times> VtValue) list \<Rightarrow> FbxNodeReaderContext
    \<Rightarrow> FbxNodeReaderContext" where
  "setTimeSamples path samples ctx =
     (case properties (m_dataReader ctx) path of
        None \<Rightarrow> ctx
      | Some prop \<Rightarrow>
          ctx\<lparr>m_dataReader := (m_dataReader ctx)\<lparr>properties :=
                (properties (m_dataReader ctx))(path \<mapsto> prop\<lparr>timeSamples := samples\<rparr>)\<rparr>\<rparr>)"

text \<open>
  \<open>hasUniqueScales\<close> and the scales property: the default is the first sample, the
  time samples are assigned only when some sample differs from the first. Reading
  \<open>scales[0]\<close> of an empty vector has no defined result.
\<close>

definition authorScales :: "UsdFbxTokens \<Rightarrow> SdfPath \<Rightarrow> (UsdTimeCode \<times> VtValue) list
    \<Rightarrow> FbxNodeReaderContext \<Rightarrow> FbxNodeReaderContext option" where
  "authorScales tk skelAnimPrimPath scales ctx =
     (case scales of
        [] \<Rightarrow> None
      | first # rest \<Rightarrow>
          (let hasUniqueScales = (\<not> list_all (\<lambda>tup. snd tup = snd first) rest);
               scalesPath = AppendProperty skelAnimPrimPath ''scales''
           in map_option
                (\<lambda>ctx. if hasUniqueScales then setTimeSamples scalesPath scales ctx else ctx)
                (CreateProperty_path scalesPath Sdf_Half3Array (snd first)
                   [getDisplayGroupMetadata (DisplayGroupTokens_skelanimation tk)] ctx)))"

text \<open>
  The part of \<open>readSkeletonAnimation\<close> that samples and authors the scales of the
  animation prim. (The joints, translations, rotations and user properties, and the
  relationship, are other properties of that prim and are left out.)
\<close>

definition readSkeletonAnimation_scales :: "UsdFbxTokens \<Rightarrow> FbxNodeReaderContext
    \<Rightarrow> FbxNodeReaderContext option" where
  "readSkeletonAnimation_scales tk ctx =
     (if m_fbxAnimLayer ctx = None then Some ctx
      else
        (let fbxNode = m_fbxNode ctx;
             parent = GetParent fbxNode
         in if (case parent of None \<Rightarrow> False | Some p \<Rightarrow> isSkeleton p) then Some ctx
            else
              (let skelAnimationPrimName = ''Animation'' @ GetNodeName fbxNode;
                   parentPath = GetParentPath (m_usdPath ctx);
                   skelAnimPrimPath = AppendChild parentPath skelAnimationPrimName;
                   skeletonHierarchy = skeletonHierarchyOf fbxNode;
                   scales = sampleSkeletonScales skeletonHierarchy (m_fbxTimeSpan ctx)
               in authorScales tk skelAnimPrimPath scales ctx)))"

text \<open>
  A skeleton of two joints under the scene root, with an animation layer and the frames 0 to
  10, and no property yet at any path.
\<close>

definition example_skeleton_context :: FbxNodeReaderContext where
  "example_skeleton_context =
     \<lparr>m_dataReader = \<lparr>prims = Map.empty, properties = Map.empty\<rparr>,
      m_fbxNode = FbxNode [FbxNodeTree ''RootNode'' None []]
                    (FbxNodeTree ''Hips'' (Some (FbxAttribute eSkeleton))
                       [FbxNodeTree ''Spine'' (Some (FbxAttribute eSkeleton)) []]),
      m_usdPath = SdfPath True [''ROOT'', ''Hips''] None,
      m_fbxAnimLayer = Some 0,
      m_fbxTimeSpan = \<lparr>GetStart = 0, GetStop = 10\<rparr>,
      m_scaleFactor = 1\<rparr>"

text \<open>
  A node lies below another one when that one is among its ancestors.
\<close>

definition isBelow :: "FbxNode \<Rightarrow> FbxNode \<Rightarrow> bool" where
  "isBelow node upper = suffix (subtree upper # ancestors upper) (ancestors node)"

text \<open>
  The joint hierarchy a -> b -> c: three joints, each the only child of the one before.
\<close>

definition jointChain :: "string \<Rightarrow> string \<Rightarrow> string \<Rightarrow> FbxNodeTree" where
  "jointChain a b c =
     FbxNodeTree a (Some (FbxAttribute eSkeleton))
       [FbxNodeTree b (Some (FbxAttribute eSkeleton))
          [FbxNodeTree c (Some (FbxAttribute eSkeleton)) []]]"

text \<open>
  A root joint Hips with a joint child Spine, which has the joint child Head, and a child
  Prop that is not a joint, which has the joint child Finger.
\<close>

definition example_broken_hierarchy :: FbxNode where
  "example_broken_hierarchy =
     FbxNode [FbxNodeTree ''RootNode'' None []]
       (FbxNodeTree ''Hips'' (Some (FbxAttribute eSkeleton))
          [FbxNodeTree ''Spine'' (Some (FbxAttribute eSkeleton))
             [FbxNodeTree ''Head'' (Some (FbxAttribute eSkeleton)) []],
           FbxNodeTree ''Prop'' (Some (FbxAttribute eNull))
             [FbxNodeTree ''Finger'' (Some (FbxAttribute eSkeleton)) []]])"

section \<open>Layered mesh attributes\<close>

type_synonym FbxVector4 = "double \<times> double \<times> double \<times> double"
type_synonym FbxColor = "double \<times> double \<times> double \<times> double"
type_synonym GfVec3f = "float \<times> float \<times> float"

datatype EMappingMode = eNone | eByControlPoint | eByPolygonVertex | eByPolygon | eByEdge | eAllSame

datatype EReferenceMode = eDirect | eIndex | eIndexToDirect

record 'a FbxLayerElementTemplate =
  GetMappingMode :: EMappingMode
  GetReferenceMode :: EReferenceMode
  GetDirectArray :: "'a list"
  GetIndexArray :: "int list"

record FbxLayer =
  GetNormals :: "FbxVector4 FbxLayerElementTemplate option"
  GetTangents :: "FbxVector4 FbxLayerElementTemplate option"
  GetVertexColors :: "FbxColor FbxLayerElementTemplate option"

text \<open>
  A mesh: its layers, the number of vertices of each polygon, the number of control points,
  and what \<open>GetPolygonVertexNormal\<close> gives for a polygon and one of its vertices
  (\<open>None\<close> when it returns false).
\<close>

record FbxMesh =
  GetLayers :: "FbxLayer list"
  GetPolygonSizes :: "nat list"
  GetControlPointsCount :: nat
  GetPolygonVertexNormal :: "nat \<Rightarrow> nat \<Rightarrow> FbxVector4 option"

text \<open>
  \<open>GetAt\<close> of a layer element's array is code of the FBX SDK; an index outside the
  array is not given a value here.
\<close>

definition GetAt :: "'a list \<Rightarrow> int \<Rightarrow> 'a option" where
  "GetAt xs i = (if 0 \<le> i \<and> i < int (length xs) then Some (xs ! nat i) else None)"

definition toGfVec :: "FbxVector4 \<Rightarrow> GfVec3f" where
  "toGfVec src = (case src of (x, y, z, w) \<Rightarrow> (x, y, z))"

definition getAtVertexIndex :: "'a FbxLayerElementTemplate \<Rightarrow> int \<Rightarrow> 'a option" where
  "getAtVertexIndex pLayerElement iVertexIndex =
     (case GetReferenceMode pLayerElement of
        eDirect \<Rightarrow> GetAt (GetDirectArray pLayerElement) iVertexIndex
      | _ \<Rightarrow>
          (case GetAt (GetIndexArray pLayerElement) iVertexIndex of
             None \<Rightarrow> None
           | Some idx \<Rightarrow> GetAt (GetDirectArray pLayerElement) idx))"

text \<open>
  The two nested loops over the polygons and their vertices: the pairs (polygon, vertex)
  in the order the loops visit them. \<open>currentIndex\<close> is the position in this list.
\<close>

definition polygonVertices :: "FbxMesh \<Rightarrow> (nat \<times> nat) list" where
  "polygonVertices pMesh =
     concat (map (\<lambda>polygonIndex.
                    map (\<lambda>polygonVertex. (polygonIndex, polygonVertex))
                      [0..<GetPolygonSizes pMesh ! polygonIndex])
               [0..<length (GetPolygonSizes pMesh)])"

text \<open>The test of the loop that looks for the normals (and the tangents) of a mesh.\<close>

definition perPolygonVertex :: "'a FbxLayerElementTemplate \<Rightarrow> bool" where
  "perPolygonVertex element =
     (GetMappingMode element = eByPolygonVertex \<and> GetReferenceMode element \<noteq> eIndex)"

text \<open>
  The loop over the layers: each layer whose element passes the test is assigned to
  \<open>perPolygonVertexNormals\<close>, and the loop goes on.
\<close>

definition findNormals :: "FbxLayer list \<Rightarrow> FbxVector4 FbxLayerElementTemplate option" where
  "findNormals layers =
     fold (\<lambda>layer perPolygonVertexNormals.
             case GetNormals layer of
               None \<Rightarrow> perPolygonVertexNormals
             | Some normalsElement \<Rightarrow>
                 if perPolygonVertex normalsElement then Some normalsElement
                 else perPolygonVertexNormals)
       layers None"

definition meshNormals :: "FbxMesh \<Rightarrow> GfVec3f list option" where
  "meshNormals pMesh =
     (case findNormals (GetLayers pMesh) of
        Some perPolygonVertexNormals \<Rightarrow>
          those (map (\<lambda>currentIndex.
                        map_option toGfVec
                          (getAtVertexIndex perPolygonVertexNormals (int currentIndex)))
                   [0..<length (polygonVertices pMesh)])
      | None \<Rightarrow>
          Some (concat (map (\<lambda>(polygonIndex, polygonVertex).
                               case GetPolygonVertexNormal pMesh polygonIndex polygonVertex of
                                 Some normal \<Rightarrow> [toGfVec normal]
                               | None \<Rightarrow> [])
                          (polygonVertices pMesh))))"

definition findTangents :: "FbxLayer list \<Rightarrow> FbxVector4 FbxLayerElementTemplate option" where
  "findTangents layers =
     fold (\<lambda>layer perPolygonVertexTangents.
             case GetTangents layer of
               None \<Rightarrow> perPolygonVertexTangents
             | Some tangentsElement \<Rightarrow>
                 if perPolygonVertex tangentsElement then Some tangentsElement
                 else perPolygonVertexTangents)
       layers None"

definition meshTangents :: "FbxMesh \<Rightarrow> GfVec3f list option" where
  "meshTangents pMesh =
     (case findTangents (GetLayers pMesh) of
        None \<Rightarrow> Some []
      | Some perPolygonVertexTangents \<Rightarrow>
          those (map (\<lambda>currentIndex.
                        map_option toGfVec
                          (getAtVertexIndex perPolygonVertexTangents (int currentIndex)))
                   [0..<length (polygonVertices pMesh)]))"

text \<open>
  The loop that looks for the vertex colors passes over an element only when its mapping
  mode is not by control point and its reference mode is not \<open>eIndex\<close>.
\<close>

definition findVertexColors :: "FbxLayer list \<Rightarrow> FbxColor FbxLayerElementTemplate option" where
  "findVertexColors layers =
     fold (\<lambda>layer perPolygonVertexColors.
             case GetVertexColors layer of
               None \<Rightarrow> perPolygonVertexColors
             | Some vertexColorsElement \<Rightarrow>
                 if GetMappingMode vertexColorsElement \<noteq> eByControlPoint
                    \<and> GetReferenceMode vertexColorsElement \<noteq> eIndex
                 then perPolygonVertexColors
                 else Some vertexColorsElement)
       layers None"

definition meshVertexColors :: "FbxMesh \<Rightarrow> GfVec3f list option" where
  "meshVertexColors pMesh =
     (case findVertexColors (GetLayers pMesh) of
        None \<Rightarrow> Some []
      | Some perPolygonVertexColors \<Rightarrow>
          those (map (\<lambda>i. map_option (\<lambda>color. case color of (r, g, b, a) \<Rightarrow> (r, g, b))
                              (GetAt (GetDirectArray perPolygonVertexColors) (int i)))
                   [0..<GetControlPointsCount pMesh]))"

text \<open>
  A layer passes the test of a converter's loop when it has an element of the converter's
  kind and the loop assigns that element.
\<close>

definition passesNormals :: "FbxLayer \<Rightarrow> bool" where
  "passesNormals layer =
     (case GetNormals layer of None \<Rightarrow> False | Some element \<Rightarrow> perPolygonVertex element)"

definition passesTangents :: "FbxLayer \<Rightarrow> bool" where
  "passesTangents layer =
     (case GetTangents layer of None \<Rightarrow> False | Some element \<Rightarrow> perPolygonVertex element)"

definition passesVertexColors :: "FbxLayer \<Rightarrow> bool" where
  "passesVertexColors layer =
     (case GetVertexColors layer of
        None \<Rightarrow> False
      | Some element \<Rightarrow>
          GetMappingMode element = eByControlPoint \<or> GetReferenceMode element = eIndex)"

text \<open>
  A mesh of one triangle with two layers; each layer has normals, tangents and vertex
  colors that pass the tests, with different values in the two layers.
\<close>

definition example_layer :: "double \<Rightarrow> FbxLayer" where
  "example_layer v =
     \<lparr>GetNormals = Some \<lparr>GetMappingMode = eByPolygonVertex, GetReferenceMode = eDirect,
                          GetDirectArray = [(v, 0, 0, 0), (v, 0, 0, 0), (v, 0, 0, 0)],
                          GetIndexArray = []\<rparr>,
      GetTangents = Some \<lparr>GetMappingMode = eByPolygonVertex, GetReferenceMode = eIndexToDirect,
                           GetDirectArray = [(0, v, 0, 0)], GetIndexArray = [0, 0, 0]\<rparr>,
      GetVertexColors = Some \<lparr>GetMappingMode = eByControlPoint, GetReferenceMode = eDirect,
                               GetDirectArray = [(v, v, v, 1), (v, v, v, 1), (v, v, v, 1)],
                               GetIndexArray = []\<rparr>\<rparr>"

definition example_mesh :: "FbxLayer list \<Rightarrow> FbxMesh" where
  "example_mesh layers =
     \<lparr>GetLayers = layers, GetPolygonSizes = [3], GetControlPointsCount = 3,
      GetPolygonVertexNormal = (\<lambda>polygonIndex polygonVertex. None)\<rparr>"

section \<open>Skin binding data (\<open>converters::getBindingData\<close>)\<close>

text \<open>
  A cluster: the joint it is linked to (or none) and the control points it weights, each
  with its weight (\<open>GetControlPointIndices\<close> and \<open>GetControlPointWeights\<close>, which
  have the same length).
\<close>

record FbxCluster =
  GetLink :: "FbxNode option"
  GetControlPoints :: "(int \<times> double) list"

type_synonym FbxSkin = "FbxCluster list"

record BindingData =
  names :: "TfToken list"
  perVertexInfluences :: "int list"
  perVertexWeights :: "float list"
  influencesPerVertex :: int
  pathToSkeleton :: SdfPath

text \<open>
  The first loop: from the link of the first cluster up to the topmost joint. The first
  argument holds the ancestors of \<open>rootBone\<close>, the second its subtree. A node without a
  parent makes \<open>newParent\<close> null, and it is dereferenced.
\<close>

fun findRootBone :: "FbxNodeTree list \<Rightarrow> FbxNodeTree \<Rightarrow> FbxNode option" where
  "findRootBone [] rootBone = None"
| "findRootBone (newParent # rest) rootBone =
     (if treeAttribute newParent = None
         \<or> map_option GetAttributeType (treeAttribute newParent) \<noteq> Some eSkeleton
      then Some (FbxNode (newParent # rest) rootBone)
      else findRootBone rest newParent)"

text \<open>
  The loop over the control points of one cluster. \<open>perVertexIndicesAndWeights\<close> has
  one list per control point; an index outside it is an access outside the vector.
\<close>

fun addInfluences :: "int \<Rightarrow> (int \<times> double) list \<Rightarrow> (int \<times> double) list list \<times> nat
    \<Rightarrow> ((int \<times> double) list list \<times> nat) option" where
  "addInfluences influenceIndex [] st = Some st"
| "addInfluences influenceIndex ((controlPointIndex, weight) # controlPoints)
       (perVertexIndicesAndWeights, elementSize) =
     (if 0 \<le> controlPointIndex \<and> controlPointIndex < int (length perVertexIndicesAndWeights)
      then (let k = nat controlPointIndex;
                influences = perVertexIndicesAndWeights ! k @ [(influenceIndex, weight)];
                numInfluences = length influences
            in addInfluences influenceIndex controlPoints
                 (perVertexIndicesAndWeights[k := influences], max numInfluences elementSize))
      else None)"

text \<open>
  The loop over the clusters. A cluster without a link is passed over. The path token of a
  link is taken from its attribute, which is dereferenced.
\<close>

fun clusterLoop :: "TfToken \<Rightarrow> FbxCluster list
    \<Rightarrow> (int \<times> double) list list \<times> nat \<times> TfToken list
    \<Rightarrow> ((int \<times> double) list list \<times> nat \<times> TfToken list) option" where
  "clusterLoop rootBoneName [] st = Some st"
| "clusterLoop rootBoneName (cluster # clusters) (perVertexIndicesAndWeights, elementSize, jointsUsed) =
     (case GetLink cluster of
        None \<Rightarrow>
          clusterLoop rootBoneName clusters (perVertexIndicesAndWeights, elementSize, jointsUsed)
      | Some link \<Rightarrow>
          (case addInfluences (int (length jointsUsed)) (GetControlPoints cluster)
                  (perVertexIndicesAndWeights, elementSize) of
             None \<Rightarrow> None
           | Some (perVertexIndicesAndWeights', elementSize') \<Rightarrow>
               (if GetNodeAttribute link = None then None
                else (case skeletonToTokenPath link rootBoneName of
                        None \<Rightarrow> None
                      | Some skeletonPath \<Rightarrow>
                          clusterLoop rootBoneName clusters
                            (perVertexIndicesAndWeights', elementSize',
                             jointsUsed @ [skeletonPath])))))"

text \<open>
  The flattening loop: \<open>elementSize\<close> entries per control point, its own influences
  first and \<open>missingValue\<close>, the pair (0, 0.0), after them. \<open>lastIndex\<close> is computed
  as in the source; no list is longer than \<open>elementSize\<close>, so the subtractions do not
  wrap.
\<close>

definition flattenVertex :: "nat \<Rightarrow> (int \<times> double) list \<Rightarrow> (int \<times> float) list" where
  "flattenVertex elementSize vertexInfluencesAndWeights =
     (let lastIndex = elementSize - (elementSize - length vertexInfluencesAndWeights)
      in map (\<lambda>i. if i < lastIndex then vertexInfluencesAndWeights ! i else (0, 0))
           [0..<elementSize])"

definition flattenInfluences :: "nat \<Rightarrow> (int \<times> double) list list \<Rightarrow> int list \<times> float list" where
  "flattenInfluences elementSize perVertexIndicesAndWeights =
     (let flat = concat (map (flattenVertex elementSize) perVertexIndicesAndWeights)
      in (map fst flat, map snd flat))"

text \<open>
  The last loop: the names of the ancestors of the root bone, the root node of the scene
  left out, in front of the root bone's name.
\<close>

fun skeletonPathLoop :: "FbxNodeTree list \<Rightarrow> SdfPath \<Rightarrow> SdfPath" where
  "skeletonPathLoop [] jointPath = jointPath"
| "skeletonPathLoop (parent # rest) jointPath =
     (if rest = [] then jointPath
      else skeletonPathLoop rest (AppendPath (SdfPath_name (treeName parent)) jointPath))"

text \<open>
  \<open>getBindingData\<close>. \<open>UsdSkelNormalizeWeights\<close> and \<open>UsdSkelSortInfluences\<close>
  are functions of the USD library that work in place on the flattened arrays; they are
  arguments here, and are given after it.
\<close>

definition getBindingData ::
  "(int \<Rightarrow> float list \<Rightarrow> float list) \<Rightarrow> (int \<Rightarrow> int list \<Rightarrow> float list \<Rightarrow> int list \<times> float list)
     \<Rightarrow> FbxSkin \<Rightarrow> FbxMesh \<Rightarrow> BindingData option" where
  "getBindingData UsdSkelNormalizeWeights UsdSkelSortInfluences skin mesh =
     (case skin of
        [] \<Rightarrow> Some \<lparr>names = [], perVertexInfluences = [], perVertexWeights = [],
                     influencesPerVertex = 0, pathToSkeleton = EmptyPath\<rparr>
      | firstCluster # _ \<Rightarrow>
          (case (case GetLink firstCluster of
                   None \<Rightarrow> None
                 | Some link \<Rightarrow> findRootBone (ancestors link) (subtree link)) of
             None \<Rightarrow> None
           | Some rootBone \<Rightarrow>
               (case clusterLoop (GetNodeName rootBone) skin
                       (replicate (GetControlPointsCount mesh) [], 0, []) of
                  None \<Rightarrow> None
                | Some (perVertexIndicesAndWeights, elementSize, jointsUsed) \<Rightarrow>
                    (let (jointIndices, jointWeights) =
                           flattenInfluences elementSize perVertexIndicesAndWeights;
                         influencesPerComponents = int elementSize;
                         jointWeights = UsdSkelNormalizeWeights influencesPerComponents jointWeights;
                         (jointIndices, jointWeights) =
                           UsdSkelSortInfluences influencesPerComponents jointIndices jointWeights;
                         jointPath = skeletonPathLoop (ancestors rootBone)
                                       (SdfPath_name (GetNodeName rootBone))
                     in Some \<lparr>names = jointsUsed, perVertexInfluences = jointIndices,
                               perVertexWeights = jointWeights,
                               influencesPerVertex = influencesPerComponents,
                               pathToSkeleton = AppendPath ROOT jointPath\<rparr>))))"

text \<open>
  The two functions of the USD library (\<open>pxr/usd/usdSkel/utils\<close>) that
  \<open>getBindingData\<close> calls on the flattened arrays. Both work on the runs of
  \<open>numInfluencesPerComponent\<close> consecutive elements, one run per control point, and
  both leave the arrays as they are when they refuse the shape of the arrays: a number of
  influences per component that is not positive, or an array size that is no multiple of it.
  The number of influences per component is the first argument here. The specification
  describes the two steps the same way: each vertex's weights normalised to sum to 1, an
  all-zero vertex left at zero, and its influences sorted by descending weight, index and
  weight kept paired.
\<close>

definition validateArrayShape :: "nat \<Rightarrow> int \<Rightarrow> bool" where
  "validateArrayShape arraySize numInfluencesPerComponent =
     (0 < numInfluencesPerComponent \<and> int arraySize mod numInfluencesPerComponent = 0)"

text \<open>The \<open>i\<close>-th run of an array.\<close>

definition component :: "int \<Rightarrow> 'a list \<Rightarrow> nat \<Rightarrow> 'a list" where
  "component numInfluencesPerComponent xs i =
     take (nat numInfluencesPerComponent) (drop (i * nat numInfluencesPerComponent) xs)"

text \<open>
  \<open>UsdSkelNormalizeWeights\<close> adds up the weights of a run; it divides each weight of the
  run by the sum when the sum is further than \<open>std::numeric_limits<float>::epsilon()\<close>
  from zero, and sets each weight of the run to zero otherwise.
\<close>

definition FLT_EPSILON :: float where
  "FLT_EPSILON = 1 / 2 ^ 23"

definition normalizeWeightSet :: "float list \<Rightarrow> float list" where
  "normalizeWeightSet weightSet =
     (let weightSum = foldl (\<lambda>acc w. acc + w) 0 weightSet
      in if \<bar>weightSum\<bar> > FLT_EPSILON then map (\<lambda>w. w / weightSum) weightSet
         else map (\<lambda>w. 0) weightSet)"

definition UsdSkelNormalizeWeights :: "int \<Rightarrow> float list \<Rightarrow> float list" where
  "UsdSkelNormalizeWeights numInfluencesPerComponent weights =
     (if \<not> validateArrayShape (length weights) numInfluencesPerComponent then weights
      else concat (map (\<lambda>i. normalizeWeightSet (component numInfluencesPerComponent weights i))
                    [0..<length weights div nat numInfluencesPerComponent]))"

text \<open>
  \<open>UsdSkelSortInfluences\<close> refuses index and weight arrays of different sizes, and has
  nothing to do with fewer than two influences per component. Otherwise it orders each run
  with \<open>std::sort\<close> and \<open>std::greater\<close> on the pairs (weight, index): by descending
  weight, and by descending index among equal weights. The order on the pairs is total, so
  the outcome is the one descending arrangement of the run.
\<close>

definition sortInfluenceSet :: "int list \<Rightarrow> float list \<Rightarrow> (float \<times> int) list" where
  "sortInfluenceSet indices weights = rev (sort (zip weights indices))"

definition UsdSkelSortInfluences :: "int \<Rightarrow> int list \<Rightarrow> float list \<Rightarrow> int list \<times> float list" where
  "UsdSkelSortInfluences numInfluencesPerComponent indices weights =
     (if length indices \<noteq> length weights then (indices, weights)
      else if \<not> validateArrayShape (length weights) numInfluencesPerComponent then (indices, weights)
      else if numInfluencesPerComponent < 2 then (indices, weights)
      else (let influences =
                  concat (map (\<lambda>i. sortInfluenceSet (component numInfluencesPerComponent indices i)
                                       (component numInfluencesPerComponent weights i))
                            [0..<length weights div nat numInfluencesPerComponent])
            in (map snd influences, map fst influences)))"

text \<open>
  The run of one control point, from its recorded influences: its indices as flattened, its
  weights as flattened and normalised, and its (weight, index) pairs as they stand after
  the sort (left in place with fewer than two influences per component).
\<close>

definition flatIndices :: "nat \<Rightarrow> (int \<times> double) list \<Rightarrow> int list" where
  "flatIndices es x = map fst (flattenVertex es x)"

definition flatWeights :: "nat \<Rightarrow> (int \<times> double) list \<Rightarrow> float list" where
  "flatWeights es x = normalizeWeightSet (map snd (flattenVertex es x))"

definition vertexInfluences :: "nat \<Rightarrow> (int \<times> double) list \<Rightarrow> (float \<times> int) list" where
  "vertexInfluences es x =
     (if es < 2 then zip (flatWeights es x) (flatIndices es x)
      else sortInfluenceSet (flatIndices es x) (flatWeights es x))"

text \<open>
  What the cluster loop needs of a cluster to go through it: no link, or a link with an
  attribute and a path token, and control point indices inside the mesh.
\<close>

definition clusterReadable :: "TfToken \<Rightarrow> nat \<Rightarrow> FbxCluster \<Rightarrow> bool" where
  "clusterReadable rootBoneName n cluster =
     (case GetLink cluster of
        None \<Rightarrow> True
      | Some link \<Rightarrow>
          GetNodeAttribute link \<noteq> None \<and> skeletonToTokenPath link rootBoneName \<noteq> None
          \<and> list_all (\<lambda>(i, w). 0 \<le> i \<and> i < int n) (GetControlPoints cluster))"

text \<open>
  Two joints J and K (K below J) under the scene root, and the skin of the specification's
  example over four control points: the cluster of J weights control point 0 with 1 and
  control point 1 with 1/2, the cluster of K weights control point 1 with 1/2 and control
  point 2 with 1. A second skin has the cluster of J and a cluster without a link.
\<close>

definition example_joint_J :: FbxNode where
  "example_joint_J =
     FbxNode [FbxNodeTree ''RootNode'' None []]
       (FbxNodeTree ''J'' (Some (FbxAttribute eSkeleton))
          [FbxNodeTree ''K'' (Some (FbxAttribute eSkeleton)) []])"

definition example_joint_K :: FbxNode where
  "example_joint_K = GetChild example_joint_J 0"

definition example_skin :: FbxSkin where
  "example_skin =
     [\<lparr>GetLink = Some example_joint_J, GetControlPoints = [(0, 1), (1, 1 / 2)]\<rparr>,
      \<lparr>GetLink = Some example_joint_K, GetControlPoints = [(1, 1 / 2), (2, 1)]\<rparr>]"

definition example_skin_unlinked :: FbxSkin where
  "example_skin_unlinked =
     [\<lparr>GetLink = Some example_joint_J, GetControlPoints = [(0, 1), (1, 1 / 2)]\<rparr>,
      \<lparr>GetLink = None, GetControlPoints = [(1, 1 / 2), (2, 1)]\<rparr>]"

definition example_skinned_mesh :: FbxMesh where
  "example_skinned_mesh =
     \<lparr>GetLayers = [], GetPolygonSizes = [4], GetControlPointsCount = 4,
      GetPolygonVertexNormal = (\<lambda>polygonIndex polygonVertex. None)\<rparr>"

text \<open>
  A chain of three joints J, K, L under the scene root, a mesh of two control points, and a
  skin with a negative weight: control point 0 is weighted by J, K and L (1/2, 1/4, 1/4),
  control point 1 by J and K only (3/2 and -1/2).
\<close>

definition example_joint_chain :: FbxNode where
  "example_joint_chain =
     FbxNode [FbxNodeTree ''RootNode'' None []]
       (FbxNodeTree ''J'' (Some (FbxAttribute eSkeleton))
          [FbxNodeTree ''K'' (Some (FbxAttribute eSkeleton))
             [FbxNodeTree ''L'' (Some (FbxAttribute eSkeleton)) []]])"

definition example_mesh_two_points :: FbxMesh where
  "example_mesh_two_points =
     \<lparr>GetLayers = [], GetPolygonSizes = [], GetControlPointsCount = 2,
      GetPolygonVertexNormal = (\<lambda>polygonIndex polygonVertex. None)\<rparr>"

definition example_skin_signed :: FbxSkin where
  "example_skin_signed =
     [\<lparr>GetLink = Some example_joint_chain, GetControlPoints = [(0, 1 / 2), (1, 3 / 2)]\<rparr>,
      \<lparr>GetLink = Some (GetChild example_joint_chain 0),
       GetControlPoints = [(0, 1 / 4), (1, - (1 / 2))]\<rparr>,
      \<lparr>GetLink = Some (GetChild (GetChild example_joint_chain 0) 0),
       GetControlPoints = [(0, 1 / 4)]\<rparr>]"

text \<open>
  Stand-ins for the two functions of the USD library, for the concrete instances: they
  leave the arrays as they are.
\<close>

definition keepWeights :: "int \<Rightarrow> float list \<Rightarrow> float list" where
  "keepWeights numInfluencesPerComponent weights = weights"

definition keepInfluences :: "int \<Rightarrow> int list \<Rightarrow> float list \<Rightarrow> int list \<times> float list" where
  "keepInfluences numInfluencesPerComponent indices weights = (indices, weights)"

section \<open>Properties of the value and type mapper\<close>

lemma char_to_uint8_mod: "uint (char_to_uint8 c) = sint c mod 256"
  unfolding char_to_uint8_def by (simp only: uint_word_of_int) simp

lemma short_to_int32_sint: "sint (short_to_int32 s) = sint s"
  by (simp add: short_to_int32_def sint_up_scast is_up)

lemma ushort_to_uint32_uint: "uint (ushort_to_uint32 s) = uint s"
  by (simp add: ushort_to_uint32_def uint_up_ucast is_up)

lemma float_to_uint8_in_range:
  "0 \<le> trunc_to_zero x \<Longrightarrow> trunc_to_zero x \<le> 255 \<Longrightarrow> float_to_uint8 x = Some (word_of_int (trunc_to_zero x))"
  by (simp add: float_to_uint8_def float_to_integral_def)

text \<open>
  Away from \<open>eFbxTime\<close> and \<open>eFbxDistance\<close> the two extractions agree on the held
  type, whenever the channel vector is long enough for the sample to be defined.
\<close>

lemma getValue_types_agree:
  "GetType d \<noteq> eFbxTime \<Longrightarrow> GetType d \<noteq> eFbxDistance \<Longrightarrow>
   getValue_anim (GetType d) cs = Some v \<Longrightarrow> heldType v = heldType (getValue d)"
  by (cases d) (auto split: if_splits)

text \<open>
  C1. The claim: for every property data type, the value of \<open>getValue()\<close> and the value
  of \<open>getValue(animChannels)\<close> hold the same type. The code at a distance property
  (value 2.5 cm, sampled channel 2.5) and at a time property (frame 3, sampled channel 3):
  \<open>getSdfTypeName\<close> names Float and TimeCode, \<open>getValue()\<close> holds a \<open>float\<close> and a
  \<open>UsdTimeCode\<close>, but \<open>getValue(animChannels)\<close> has no case for either type and
  falls to its default branch, the token \<open>UNKNOWN VALUE\<close>.
\<close>

theorem getValue_anim_misses_time_and_distance:
  "getSdfTypeName (DDistance (5 / 2) ''cm'') = Sdf_Float
   \<and> heldType (getValue (DDistance (5 / 2) ''cm'')) = T_float
   \<and> getValue_anim (GetType (DDistance (5 / 2) ''cm'')) [5 / 2] = Some (VToken ''UNKNOWN VALUE'')
   \<and> getSdfTypeName (DTime 3) = Sdf_TimeCode
   \<and> heldType (getValue (DTime 3)) = T_UsdTimeCode
   \<and> getValue_anim (GetType (DTime 3)) [3] = Some (VToken ''UNKNOWN VALUE'')
   \<and> heldType (VToken ''UNKNOWN VALUE'') = T_TfToken"
  by (simp add: getSdfTypeName_def)

text \<open>
  C4, as stated, fails: a signed or unsigned char property is not widened to 32 bits.
  At the char property 5 and the unsigned char property 5 the type name is UChar and the
  value holds a \<open>uint8_t\<close>.
\<close>

theorem sub32_not_all_widened:
  "\<not> (getSdfTypeName (DChar 5) = Sdf_Int \<and> heldType (getValue (DChar 5)) = T_int32)
   \<and> \<not> (getSdfTypeName (DUChar 5) = Sdf_UInt \<and> heldType (getValue (DUChar 5)) = T_uint32)"
  by (simp add: getSdfTypeName_def)

text \<open>
  C4, amended. A signed short property maps to the 32-bit signed type Int and an unsigned
  short property to the 32-bit unsigned type UInt, each with its value kept; a signed and an
  unsigned char property both map to the 8-bit unsigned type UChar, the unsigned value
  unchanged and the signed value taken modulo 256; half, float and double properties keep
  their type and value.
\<close>

theorem getValue_widening:
  "getSdfTypeName (DShort s) = Sdf_Int \<and> getValue (DShort s) = VInt (short_to_int32 s)
     \<and> sint (short_to_int32 s) = sint s
   \<and> getSdfTypeName (DUShort u) = Sdf_UInt \<and> getValue (DUShort u) = VUInt (ushort_to_uint32 u)
     \<and> uint (ushort_to_uint32 u) = uint u
   \<and> getSdfTypeName (DChar c) = Sdf_UChar \<and> getValue (DChar c) = VUChar (char_to_uint8 c)
     \<and> uint (char_to_uint8 c) = sint c mod 256
   \<and> getSdfTypeName (DUChar b) = Sdf_UChar \<and> getValue (DUChar b) = VUChar b
   \<and> getSdfTypeName (DHalfFloat h) = Sdf_Half \<and> getValue (DHalfFloat h) = VHalf h
   \<and> getSdfTypeName (DFloat f) = Sdf_Float \<and> getValue (DFloat f) = VFloat f
   \<and> getSdfTypeName (DDouble d) = Sdf_Double \<and> getValue (DDouble d) = VDouble d"
  by (simp add: getSdfTypeName_def char_to_uint8_mod short_to_int32_sint ushort_to_uint32_uint)

text \<open>
  Within 0..255 an animated sample of a char property is the first channel's value with its
  fraction dropped.
\<close>

lemma getValue_anim_char_in_range:
  "0 \<le> trunc_to_zero x \<Longrightarrow> trunc_to_zero x \<le> 255 \<Longrightarrow>
   getValue_anim eFbxChar (x # cs) = Some (VUChar (word_of_int (trunc_to_zero x)))"
  by (simp add: channel_def float_to_uint8_in_range)

text \<open>
  C9. The claim: the default value and every animated sample of a signed char property are
  the source value taken modulo 256, so that negative values wrap around. The default value
  is: \<open>getValue()\<close> casts the char to \<open>uint8_t\<close>, an integer conversion that wraps,
  under its comment that the value will overflow; the char -1 gives 255. An animated sample
  is not: \<open>getValue(animChannels)\<close> casts the \<open>float\<close> channel straight to
  \<open>uint8_t\<close>, and for the channel value -1 of the same property the truncated value
  does not fit \<open>uint8_t\<close>, so that the conversion has no defined result where the
  default value path wraps.
\<close>

theorem animated_char_negative_not_wrapped:
  "getValue (DChar c) = VUChar (char_to_uint8 c) \<and> uint (char_to_uint8 c) = sint c mod 256
   \<and> getValue (DChar (- 1)) = VUChar 255
   \<and> getValue_anim (GetType (DChar (- 1))) [- 1] = None"
  by (simp add: char_to_uint8_mod channel_def float_to_uint8_def float_to_integral_def
      trunc_to_zero_def) (simp add: char_to_uint8_def)

section \<open>Properties of the animation sampler\<close>

lemma set_insert_props:
  "sorted tcs \<Longrightarrow> distinct tcs \<Longrightarrow>
   sorted (set_insert t tcs) \<and> distinct (set_insert t tcs) \<and> set (set_insert t tcs) = insert t (set tcs)"
  by (auto simp: set_insert_def sorted_insort distinct_insort set_insort_key)

lemma sampleCurve_Some:
  "index + length frames \<le> length cvs \<Longrightarrow> sorted tcs \<Longrightarrow> distinct tcs \<Longrightarrow>
   \<exists>cvs' tcs'. sampleCurve c ch frames index (cvs, tcs) = Some (cvs', tcs')
     \<and> length cvs' = length cvs
     \<and> (\<forall>i<length cvs. cvs' ! i =
           (if index \<le> i \<and> i < index + length frames
            then (cvs ! i)[ch := c (frames ! (i - index))] else cvs ! i))
     \<and> sorted tcs' \<and> distinct tcs' \<and> set tcs' = set tcs \<union> of_int ` set frames"
proof (induction frames arbitrary: index cvs tcs)
  case Nil
  then show ?case by auto
next
  case (Cons f fs)
  let ?cvs1 = "cvs[index := (cvs ! index)[ch := c f]]"
  let ?tcs1 = "set_insert (of_int f) tcs"
  from Cons.prems have idx: "index < length cvs" by simp
  have p1: "Suc index + length fs \<le> length ?cvs1" using Cons.prems by simp
  have p2: "sorted ?tcs1" "distinct ?tcs1" "set ?tcs1 = insert (of_int f) (set tcs)"
    using set_insert_props [OF Cons.prems(2,3)] by auto
  from Cons.IH [OF p1 p2(1,2)] obtain cvs' tcs' where
    r: "sampleCurve c ch fs (Suc index) (?cvs1, ?tcs1) = Some (cvs', tcs')"
    and l: "length cvs' = length ?cvs1"
    and n: "\<forall>i<length ?cvs1. cvs' ! i =
           (if Suc index \<le> i \<and> i < Suc index + length fs
            then (?cvs1 ! i)[ch := c (fs ! (i - Suc index))] else ?cvs1 ! i)"
    and s: "sorted tcs'" "distinct tcs'" "set tcs' = set ?tcs1 \<union> of_int ` set fs"
    by blast
  have "sampleCurve c ch (f # fs) index (cvs, tcs) = Some (cvs', tcs')"
    using idx r by simp
  moreover have "length cvs' = length cvs" using l by simp
  moreover have "\<forall>i<length cvs. cvs' ! i =
           (if index \<le> i \<and> i < index + length (f # fs)
            then (cvs ! i)[ch := c ((f # fs) ! (i - index))] else cvs ! i)"
  proof (intro allI impI)
    fix i assume i: "i < length cvs"
    show "cvs' ! i = (if index \<le> i \<and> i < index + length (f # fs)
            then (cvs ! i)[ch := c ((f # fs) ! (i - index))] else cvs ! i)"
    proof (cases "i = index")
      case True
      then show ?thesis using n i by simp
    next
      case False
      then show ?thesis using n i by (auto simp: nth_Cons' Suc_diff_Suc)
    qed
  qed
  moreover have "set tcs' = set tcs \<union> of_int ` set (f # fs)" using s(3) p2(3) by auto
  ultimately show ?case using s(1,2) by blast
qed


lemma sampleChannels_Some:
  assumes "length cvs = length [GetStart ts..GetStop ts]" "sorted tcs" "distinct tcs"
  shows "\<exists>cvs' tcs'. sampleChannels cn ts ids (cvs, tcs) = Some (cvs', tcs')
     \<and> length cvs' = length cvs
     \<and> (\<forall>i<length cvs. cvs' ! i =
           fold (\<lambda>ch cv. case cn ! ch of None \<Rightarrow> cv
                   | Some c \<Rightarrow> cv[ch := c ([GetStart ts..GetStop ts] ! i)]) ids (cvs ! i))
     \<and> sorted tcs' \<and> distinct tcs'
     \<and> set tcs' = set tcs \<union> (if list_ex (\<lambda>ch. cn ! ch \<noteq> None) ids
                                then of_int ` set [GetStart ts..GetStop ts] else {})"
  using assms
proof (induction ids arbitrary: cvs tcs)
  case Nil
  then show ?case by simp
next
  case (Cons ch ids)
  define frames where "frames = [GetStart ts..GetStop ts]"
  note prems = Cons.prems [folded frames_def]
  note IH = Cons.IH [folded frames_def]
  show ?case
  proof (cases "cn ! ch")
    case None
    from IH [OF prems] obtain cvs' tcs' where
      "sampleChannels cn ts ids (cvs, tcs) = Some (cvs', tcs')"
      "length cvs' = length cvs"
      "\<forall>i<length cvs. cvs' ! i =
           fold (\<lambda>ch cv. case cn ! ch of None \<Rightarrow> cv | Some c \<Rightarrow> cv[ch := c (frames ! i)]) ids (cvs ! i)"
      "sorted tcs'" "distinct tcs'"
      "set tcs' = set tcs \<union> (if list_ex (\<lambda>ch. cn ! ch \<noteq> None) ids then of_int ` set frames else {})"
      by blast
    then show ?thesis using None unfolding frames_def [symmetric] by simp
  next
    case (Some c)
    have "0 + length frames \<le> length cvs" using prems(1) by simp
    from sampleCurve_Some [OF this prems(2,3), of c ch] obtain cvs1 tcs1 where
      r1: "sampleCurve c ch frames 0 (cvs, tcs) = Some (cvs1, tcs1)"
      and l1: "length cvs1 = length cvs"
      and n1: "\<forall>i<length cvs. cvs1 ! i =
           (if 0 \<le> i \<and> i < 0 + length frames
            then (cvs ! i)[ch := c (frames ! (i - 0))] else cvs ! i)"
      and s1: "sorted tcs1" "distinct tcs1" "set tcs1 = set tcs \<union> of_int ` set frames"
      by blast
    have n1': "\<forall>i<length cvs. cvs1 ! i = (cvs ! i)[ch := c (frames ! i)]"
      using n1 prems(1) by simp
    have "length cvs1 = length frames" using l1 prems(1) by simp
    from IH [OF this s1(1,2)] obtain cvs' tcs' where
      r2: "sampleChannels cn ts ids (cvs1, tcs1) = Some (cvs', tcs')"
      and l2: "length cvs' = length cvs1"
      and n2: "\<forall>i<length cvs1. cvs' ! i =
           fold (\<lambda>ch cv. case cn ! ch of None \<Rightarrow> cv | Some c \<Rightarrow> cv[ch := c (frames ! i)]) ids (cvs1 ! i)"
      and s2: "sorted tcs'" "distinct tcs'"
        "set tcs' = set tcs1 \<union> (if list_ex (\<lambda>ch. cn ! ch \<noteq> None) ids then of_int ` set frames else {})"
      by blast
    have "sampleChannels cn ts (ch # ids) (cvs, tcs) = Some (cvs', tcs')"
      using Some r1 r2 unfolding frames_def by simp
    moreover have "length cvs' = length cvs" using l1 l2 by simp
    moreover have "\<forall>i<length cvs. cvs' ! i =
           fold (\<lambda>ch cv. case cn ! ch of None \<Rightarrow> cv | Some c \<Rightarrow> cv[ch := c (frames ! i)])
             (ch # ids) (cvs ! i)"
      using n2 n1' l1 Some by simp
    moreover have "set tcs' = set tcs \<union> (if list_ex (\<lambda>ch. cn ! ch \<noteq> None) (ch # ids)
                                then of_int ` set frames else {})"
      using s2(3) s1(3) Some by auto
    ultimately show ?thesis using s2(1,2) unfolding frames_def [symmetric] by blast
  qed
qed

lemma fold_channels:
  "k \<le> length cn \<Longrightarrow> length cv = length cn \<Longrightarrow>
   fold (\<lambda>ch cv. case cn ! ch of None \<Rightarrow> cv | Some c \<Rightarrow> cv[ch := g c]) [0..<k] cv
     = map (\<lambda>j. if j < k then (case cn ! j of None \<Rightarrow> cv ! j | Some c \<Rightarrow> g c) else cv ! j)
         [0..<length cn]"
proof (induction k)
  case 0
  then show ?case by (auto intro!: nth_equalityI)
next
  case (Suc k)
  then have IH: "fold (\<lambda>ch cv. case cn ! ch of None \<Rightarrow> cv | Some c \<Rightarrow> cv[ch := g c]) [0..<k] cv
     = map (\<lambda>j. if j < k then (case cn ! j of None \<Rightarrow> cv ! j | Some c \<Rightarrow> g c) else cv ! j)
         [0..<length cn]" by simp
  show ?case
    using Suc.prems
    by (auto simp: IH nth_list_update less_Suc_eq intro!: nth_equalityI split: option.splits)
qed

lemma fold_channels_all:
  "fold (\<lambda>ch cv. case cn ! ch of None \<Rightarrow> cv | Some c \<Rightarrow> cv[ch := c f]) [0..<length cn]
      (replicate (length cn) 0) = frameChannels cn f"
  by (subst fold_channels [where g = "\<lambda>c. c f"])
     (auto simp: frameChannels_def intro!: nth_equalityI split: option.splits)

lemma those_map_Some:
  "(\<forall>x\<in>set xs. h x \<noteq> None) \<Longrightarrow> those (map h xs) = Some (map (\<lambda>x. the (h x)) xs)"
  by (induction xs) auto

lemma those_length: "those xs = Some ys \<Longrightarrow> length ys = length xs"
  by (induction xs arbitrary: ys) (auto split: option.splits)

lemma those_map_fst:
  "those (map (\<lambda>(a, t). map_option (\<lambda>v. (t, v)) (h a)) xs) = Some ys \<Longrightarrow> map fst ys = map snd xs"
  by (induction xs arbitrary: ys) (auto split: option.splits)

lemma timeCodes_upto:
  "sorted (tcs :: real list) \<Longrightarrow> distinct tcs \<Longrightarrow> set tcs = of_int ` set [a..b]
   \<Longrightarrow> tcs = map of_int [a..b]"
  by (rule sorted_distinct_set_unique)
     (auto simp: sorted_map distinct_map inj_on_def intro!: sorted_wrt_mono_rel [OF _ sorted_upto])


lemma those_map_fst':
  "those (map (\<lambda>x. map_option (\<lambda>v. (g x, v)) (h x)) xs) = Some ys \<Longrightarrow> map fst ys = map g xs"
  by (induction xs arbitrary: ys) (auto split: option.splits)

lemma list_ex_channel_ids:
  "list_ex (\<lambda>curve. curve \<noteq> None) cn \<Longrightarrow> list_ex (\<lambda>ch. cn ! ch \<noteq> None) [0..<length cn]"
  by (fastforce simp: list_ex_iff in_set_conv_nth)

lemma numKeys_frames:
  "GetStart ts \<le> GetStop ts \<Longrightarrow> nat (GetDuration ts) + 1 = length [GetStart ts..GetStop ts]"
  by (auto simp: GetDuration_def)

lemma getPropertyAnimation_sampled:
  assumes "GetStart ts \<le> GetStop ts" "IsValid p" "GetCurveNode p l = Some cn"
    "list_ex (\<lambda>curve. curve \<noteq> None) cn"
  shows "getPropertyAnimation p (Some l) ts =
     those (map (\<lambda>frame. map_option (\<lambda>val. (of_int frame, val))
                    (getValue_anim (GetType (propertyData p)) (frameChannels cn frame)))
              [GetStart ts..GetStop ts])"
proof -
  define frames where "frames = [GetStart ts..GetStop ts]"
  define cvs0 where "cvs0 = replicate (nat (GetDuration ts) + 1) (replicate (length cn) (0::real))"
  have len0: "length cvs0 = length [GetStart ts..GetStop ts]"
    using numKeys_frames [OF assms(1)] by (simp add: cvs0_def)
  from sampleChannels_Some [OF len0, of "[]" cn "[0..<length cn]"]
  obtain cvs' tcs' where
    r: "sampleChannels cn ts [0..<length cn] (cvs0, []) = Some (cvs', tcs')"
    and l: "length cvs' = length cvs0"
    and n: "\<forall>i<length cvs0. cvs' ! i =
           fold (\<lambda>ch cv. case cn ! ch of None \<Rightarrow> cv
                   | Some c \<Rightarrow> cv[ch := c (frames ! i)]) [0..<length cn] (cvs0 ! i)"
    and s: "sorted tcs'" "distinct tcs'"
      "set tcs' = set [] \<union> (if list_ex (\<lambda>ch. cn ! ch \<noteq> None) [0..<length cn]
                                then of_int ` set frames else {})"
    unfolding frames_def by auto
  have lf: "length cvs0 = length frames" using len0 by (simp add: frames_def)
  have cvs': "cvs' = map (frameChannels cn) frames"
  proof (rule nth_equalityI)
    show "length cvs' = length (map (frameChannels cn) frames)" using l lf by simp
  next
    fix i assume "i < length cvs'"
    then have i: "i < length cvs0" using l by simp
    then have "cvs0 ! i = replicate (length cn) 0"
      unfolding cvs0_def by (intro nth_replicate) simp
    then have "cvs' ! i = frameChannels cn (frames ! i)"
      using n i by (simp add: fold_channels_all)
    then show "cvs' ! i = map (frameChannels cn) frames ! i" using i lf by simp
  qed
  have "set tcs' = of_int ` set frames"
    using s(3) list_ex_channel_ids [OF assms(4)] by simp
  then have tcs': "tcs' = map of_int frames"
    unfolding frames_def using timeCodes_upto [OF s(1,2)] by simp
  have "transformSamples (GetType (propertyData p)) cvs' tcs' =
     those (map (\<lambda>frame. map_option (\<lambda>val. (of_int frame, val))
                    (getValue_anim (GetType (propertyData p)) (frameChannels cn frame))) frames)"
    by (simp add: transformSamples_def cvs' tcs' zip_map_map zip_same_conv_map o_def)
  then show ?thesis
    using assms(2,3,4) r
    by (simp add: getPropertyAnimation_def cvs0_def frames_def)
qed

lemma strict_sorted_upto: "sorted_wrt (<) (map real_of_int [a..b])"
  by (simp add: sorted_wrt_map strict_sorted_iff)

text \<open>
  C6. Over an inclusive range of integer frames, start to stop, the sampler returns the
  empty sequence when the animation layer is absent, the property is invalid or not bound to
  a curve node, or no channel of the curve node has a curve; in every other case the result
  is not empty: it has exactly one sample per frame, stop - start + 1 of them, at the times
  start, start + 1, ..., stop, strictly increasing and without duplicates. The result is
  defined, and is the frame-by-frame conversion of the channel vectors, whenever each
  frame's channel vector converts to a value of the property's type.
\<close>

theorem getPropertyAnimation_one_sample_per_frame:
  assumes "GetStart ts \<le> GetStop ts"
  shows "getPropertyAnimation p None ts = Some []
    \<and> (\<not> IsValid p \<longrightarrow> getPropertyAnimation p (Some l) ts = Some [])
    \<and> (GetCurveNode p l = None \<longrightarrow> getPropertyAnimation p (Some l) ts = Some [])
    \<and> (GetCurveNode p l = Some cn \<and> \<not> list_ex (\<lambda>curve. curve \<noteq> None) cn
          \<longrightarrow> getPropertyAnimation p (Some l) ts = Some [])
    \<and> (IsValid p \<and> GetCurveNode p l = Some cn \<and> list_ex (\<lambda>curve. curve \<noteq> None) cn \<longrightarrow>
          getPropertyAnimation p (Some l) ts \<noteq> Some []
        \<and> (\<forall>samples. getPropertyAnimation p (Some l) ts = Some samples \<longrightarrow>
              int (length samples) = GetStop ts - GetStart ts + 1
            \<and> map fst samples = map of_int [GetStart ts..GetStop ts]
            \<and> sorted_wrt (<) (map fst samples) \<and> distinct (map fst samples))
        \<and> ((\<forall>frame\<in>set [GetStart ts..GetStop ts].
                getValue_anim (GetType (propertyData p)) (frameChannels cn frame) \<noteq> None) \<longrightarrow>
              getPropertyAnimation p (Some l) ts =
                Some (map (\<lambda>frame. (of_int frame,
                         the (getValue_anim (GetType (propertyData p)) (frameChannels cn frame))))
                        [GetStart ts..GetStop ts])))"
proof (intro conjI impI allI)
  show "getPropertyAnimation p None ts = Some []" by (simp add: getPropertyAnimation_def)
next
  assume "\<not> IsValid p"
  then show "getPropertyAnimation p (Some l) ts = Some []" by (simp add: getPropertyAnimation_def)
next
  assume "GetCurveNode p l = None"
  then show "getPropertyAnimation p (Some l) ts = Some []" by (simp add: getPropertyAnimation_def)
next
  assume "GetCurveNode p l = Some cn \<and> \<not> list_ex (\<lambda>curve. curve \<noteq> None) cn"
  then show "getPropertyAnimation p (Some l) ts = Some []" by (simp add: getPropertyAnimation_def)
next
  assume a: "IsValid p \<and> GetCurveNode p l = Some cn \<and> list_ex (\<lambda>curve. curve \<noteq> None) cn"
  note eq = getPropertyAnimation_sampled [OF assms, of p l cn]
  have ne: "[GetStart ts..GetStop ts] \<noteq> []" using assms by (simp add: upto_Nil)
  show "getPropertyAnimation p (Some l) ts \<noteq> Some []"
  proof
    assume "getPropertyAnimation p (Some l) ts = Some []"
    then have "length ([] :: (real \<times> VtValue) list) = length [GetStart ts..GetStop ts]"
      using eq a those_length by (metis length_map)
    then show False using ne by simp
  qed
next
  fix samples
  assume a: "IsValid p \<and> GetCurveNode p l = Some cn \<and> list_ex (\<lambda>curve. curve \<noteq> None) cn"
    and r: "getPropertyAnimation p (Some l) ts = Some samples"
  note eq = getPropertyAnimation_sampled [OF assms, of p l cn]
  have th: "those (map (\<lambda>frame. map_option (\<lambda>val. (real_of_int frame, val))
                    (getValue_anim (GetType (propertyData p)) (frameChannels cn frame)))
              [GetStart ts..GetStop ts]) = Some samples"
    using eq a r by simp
  have "length samples = length [GetStart ts..GetStop ts]"
    using those_length [OF th] by simp
  then show "int (length samples) = GetStop ts - GetStart ts + 1" using assms by simp
  show fst: "map fst samples = map of_int [GetStart ts..GetStop ts]"
    using those_map_fst' [OF th] .
  show "sorted_wrt (<) (map fst samples)" unfolding fst by (rule strict_sorted_upto)
  then show "distinct (map fst samples)" using strict_sorted_iff by blast
next
  assume a: "IsValid p \<and> GetCurveNode p l = Some cn \<and> list_ex (\<lambda>curve. curve \<noteq> None) cn"
    and d: "\<forall>frame\<in>set [GetStart ts..GetStop ts].
                getValue_anim (GetType (propertyData p)) (frameChannels cn frame) \<noteq> None"
  note eq = getPropertyAnimation_sampled [OF assms, of p l cn]
  have "those (map (\<lambda>frame. map_option (\<lambda>val. (real_of_int frame, val))
                    (getValue_anim (GetType (propertyData p)) (frameChannels cn frame)))
              [GetStart ts..GetStop ts])
      = Some (map (\<lambda>frame. the (map_option (\<lambda>val. (real_of_int frame, val))
                    (getValue_anim (GetType (propertyData p)) (frameChannels cn frame))))
              [GetStart ts..GetStop ts])"
    by (rule those_map_Some) (use d in auto)
  also have "\<dots> = Some (map (\<lambda>frame. (of_int frame,
                         the (getValue_anim (GetType (propertyData p)) (frameChannels cn frame))))
                        [GetStart ts..GetStop ts])"
    using d by (auto simp: option.map_sel)
  finally show "getPropertyAnimation p (Some l) ts =
                Some (map (\<lambda>frame. (of_int frame,
                         the (getValue_anim (GetType (propertyData p)) (frameChannels cn frame))))
                        [GetStart ts..GetStop ts])"
    using eq a by simp
qed

theorem getPropertyAnimation_one_sample_per_frame_witness:
  "getPropertyAnimation
     \<lparr>GetName = ''weight'', propertyData = DFloat 0, eUserDefined = True, IsValid = True,
      GetCurveNode = (\<lambda>layer. Some [Some (\<lambda>frame. 2 * of_int frame)])\<rparr>
     (Some 0) \<lparr>GetStart = 0, GetStop = 3\<rparr>
     = Some [(0, VFloat 0), (1, VFloat 2), (2, VFloat 4), (3, VFloat 6)]
   \<and> getPropertyAnimation
     \<lparr>GetName = ''weight'', propertyData = DFloat 0, eUserDefined = True, IsValid = True,
      GetCurveNode = (\<lambda>layer. Some [None])\<rparr>
     (Some 0) \<lparr>GetStart = 0, GetStop = 3\<rparr> = Some []"
  using getPropertyAnimation_one_sample_per_frame
    [of "\<lparr>GetStart = 0, GetStop = 3\<rparr>"
        "\<lparr>GetName = ''weight'', propertyData = DFloat 0, eUserDefined = True, IsValid = True,
          GetCurveNode = (\<lambda>layer. Some [Some (\<lambda>frame. 2 * of_int frame)])\<rparr>"
        0 "[Some (\<lambda>frame. 2 * of_int frame)]"]
    getPropertyAnimation_one_sample_per_frame
    [of "\<lparr>GetStart = 0, GetStop = 3\<rparr>"
        "\<lparr>GetName = ''weight'', propertyData = DFloat 0, eUserDefined = True, IsValid = True,
          GetCurveNode = (\<lambda>layer. Some [None])\<rparr>"
        0 "[None]"]
  by (simp add: frameChannels_def channel_def upto_rec1)

section \<open>Properties of the camera reader\<close>

lemma CreateProperty_at_effect:
  assumes "CreateProperty_at path tn v fp md var ctx = Some ctx'"
  shows "m_usdPath ctx' = m_usdPath ctx \<and> m_fbxNode ctx' = m_fbxNode ctx
    \<and> m_fbxAnimLayer ctx' = m_fbxAnimLayer ctx
    \<and> m_fbxTimeSpan ctx' = m_fbxTimeSpan ctx
    \<and> (\<forall>q. q \<noteq> path \<longrightarrow>
          properties (m_dataReader ctx') q = properties (m_dataReader ctx) q)
    \<and> (\<exists>prop. properties (m_dataReader ctx') path = Some prop \<and> value prop = v
          \<and> typeName prop = tn \<and> variability prop = var \<and> metadata prop = md
          \<and> (fp = None \<longrightarrow> timeSamples prop =
                (case properties (m_dataReader ctx) path of
                   None \<Rightarrow> [] | Some old \<Rightarrow> timeSamples old)))"
  using assms
  by (auto simp: CreateProperty_at_def createPropertyAtPath_def storeProperty_def AddProperty_def
      Let_def split: option.splits prod.splits)

lemma CreateProperty_fn_at_effect:
  assumes "CreateProperty_fn_at path tn v fn md var ctx = Some ctx'"
  shows "m_usdPath ctx' = m_usdPath ctx \<and> m_fbxNode ctx' = m_fbxNode ctx
    \<and> m_fbxAnimLayer ctx' = m_fbxAnimLayer ctx
    \<and> m_fbxTimeSpan ctx' = m_fbxTimeSpan ctx
    \<and> (\<forall>q. q \<noteq> path \<longrightarrow>
          properties (m_dataReader ctx') q = properties (m_dataReader ctx) q)
    \<and> (\<exists>prop. properties (m_dataReader ctx') path = Some prop \<and> value prop = v
          \<and> typeName prop = tn \<and> variability prop = var \<and> metadata prop = md)"
  using assms
  by (auto simp: CreateProperty_fn_at_def createPropertyAtPath_def storeProperty_def AddProperty_def
      Let_def split: option.splits prod.splits)

lemma CreateProperty_at_defined:
  "fp = None \<or> (\<exists>p. fp = Some p \<and> getPropertyAnimation p (m_fbxAnimLayer ctx) (m_fbxTimeSpan ctx) \<noteq> None)
   \<Longrightarrow> CreateProperty_at path tn v fp md var ctx \<noteq> None"
  by (auto simp: CreateProperty_at_def Let_def split: option.splits prod.splits)

lemma CreateProperty_fn_at_defined: "CreateProperty_fn_at path tn v fn md var ctx \<noteq> None"
  by (auto simp: CreateProperty_fn_at_def Let_def split: option.splits prod.splits)

lemma AppendProperty_inj:
  "p = SdfPath a es None \<Longrightarrow> (AppendProperty p n = AppendProperty p n') = (n = n')"
  by (simp add: AppendProperty_def)

lemma setPrimTypeName_effect:
  "m_usdPath (setPrimTypeName t ctx) = m_usdPath ctx
   \<and> m_fbxNode (setPrimTypeName t ctx) = m_fbxNode ctx
   \<and> m_fbxAnimLayer (setPrimTypeName t ctx) = m_fbxAnimLayer ctx
   \<and> m_fbxTimeSpan (setPrimTypeName t ctx) = m_fbxTimeSpan ctx
   \<and> properties (m_dataReader (setPrimTypeName t ctx)) = properties (m_dataReader ctx)"
  by (auto simp: setPrimTypeName_def GetOrAddPrim_def Let_def split: option.splits)

lemma CreateProperty_other:
  assumes "CreateProperty n tn v md c = Some c'" "m_usdPath c = SdfPath a es None" "n \<noteq> n'"
  shows "m_usdPath c' = m_usdPath c \<and> m_fbxNode c' = m_fbxNode c
    \<and> m_fbxAnimLayer c' = m_fbxAnimLayer c \<and> m_fbxTimeSpan c' = m_fbxTimeSpan c
    \<and> properties (m_dataReader c') (AppendProperty (m_usdPath c) n')
        = properties (m_dataReader c) (AppendProperty (m_usdPath c) n')"
  using CreateProperty_at_effect [OF assms(1) [unfolded CreateProperty_def]] assms(2,3)
  by (simp add: AppendProperty_def)

lemma CreateProperty_fbx_other:
  assumes "CreateProperty_fbx n tn v fp md c = Some c'" "m_usdPath c = SdfPath a es None" "n \<noteq> n'"
  shows "m_usdPath c' = m_usdPath c \<and> m_fbxNode c' = m_fbxNode c
    \<and> m_fbxAnimLayer c' = m_fbxAnimLayer c \<and> m_fbxTimeSpan c' = m_fbxTimeSpan c
    \<and> properties (m_dataReader c') (AppendProperty (m_usdPath c) n')
        = properties (m_dataReader c) (AppendProperty (m_usdPath c) n')"
  using CreateProperty_at_effect [OF assms(1) [unfolded CreateProperty_fbx_def]] assms(2,3)
  by (simp add: AppendProperty_def)

lemma CreateProperty_fn_other:
  assumes "CreateProperty_fn n tn v fn md c = Some c'" "m_usdPath c = SdfPath a es None" "n \<noteq> n'"
  shows "m_usdPath c' = m_usdPath c \<and> m_fbxNode c' = m_fbxNode c
    \<and> m_fbxAnimLayer c' = m_fbxAnimLayer c \<and> m_fbxTimeSpan c' = m_fbxTimeSpan c
    \<and> properties (m_dataReader c') (AppendProperty (m_usdPath c) n')
        = properties (m_dataReader c) (AppendProperty (m_usdPath c) n')"
  using CreateProperty_fn_at_effect [OF assms(1) [unfolded CreateProperty_fn_def]] assms(2,3)
  by (simp add: AppendProperty_def)

lemma CreateProperty_same:
  assumes "CreateProperty n tn v md c = Some c'"
  shows "m_usdPath c' = m_usdPath c
    \<and> map_option value (properties (m_dataReader c') (AppendProperty (m_usdPath c) n)) = Some v"
  using CreateProperty_at_effect [OF assms(1) [unfolded CreateProperty_def]]
  by auto

text \<open>
C10. For a camera node whose prim has no fStop property yet, \<open>readCamera\<close> returns (whenever
  the sampling of the focus distance is defined), and after it the prim has an fStop
  property if and only if the camera's UseDepthOfField flag is set; when it has one, its
  value is the float 0.
\<close>

theorem readCamera_fStop:
  assumes path: "m_usdPath ctx = SdfPath a es None"
    and cam: "GetNodeAttribute (m_fbxNode ctx) = Some (FbxCameraAttribute camera)"
    and fresh: "properties (m_dataReader ctx) (AppendProperty (m_usdPath ctx) ''fStop'') = None"
  shows "(getPropertyAnimation (FocusDistance camera) (m_fbxAnimLayer ctx)
             (m_fbxTimeSpan ctx) \<noteq> None \<longrightarrow> readCamera tk ctx \<noteq> None)
    \<and> (\<forall>ctx'. readCamera tk ctx = Some ctx' \<longrightarrow>
          ((properties (m_dataReader ctx') (AppendProperty (m_usdPath ctx) ''fStop'') \<noteq> None)
             = UseDepthOfField camera)
        \<and> (UseDepthOfField camera \<longrightarrow>
             map_option value
               (properties (m_dataReader ctx') (AppendProperty (m_usdPath ctx) ''fStop''))
             = Some (VFloat 0)))"
proof (intro conjI allI impI)
  define c0 where "c0 = setPrimTypeName (PrimTypeNames_Camera tk) ctx"
  define fStop where "fStop = AppendProperty (m_usdPath ctx) ''fStop''"
  have c0: "m_usdPath c0 = m_usdPath ctx" "m_fbxNode c0 = m_fbxNode ctx"
    "m_fbxAnimLayer c0 = m_fbxAnimLayer ctx" "m_fbxTimeSpan c0 = m_fbxTimeSpan ctx"
    "properties (m_dataReader c0) = properties (m_dataReader ctx)"
    using setPrimTypeName_effect [of "PrimTypeNames_Camera tk" ctx] by (simp_all add: c0_def)
  have isCam: "GetNodeAttribute (m_fbxNode c0) = Some (FbxCameraAttribute camera)"
    "GetNodeAttributeCount (m_fbxNode c0) = 1" "GetCamera (m_fbxNode c0) = Some camera"
    using cam c0(2) by (simp_all add: GetNodeAttributeCount_def GetNodeAttribute_def GetCamera_def)
  note rc = readCamera_def [of tk ctx, folded c0_def, unfolded Let_def, simplified isCam, simplified]
  {
    assume d: "getPropertyAnimation (FocusDistance camera) (m_fbxAnimLayer ctx)
             (m_fbxTimeSpan ctx) \<noteq> None"
    obtain c1 where c1: "CreateProperty_fn ''focalLength'' Sdf_Float
                    (VFloat (cameraFocalLength camera 0 True))
                    (\<lambda>node t. case GetCamera node of
                        Some c \<Rightarrow> VDouble (cameraFocalLength c t True) | None \<Rightarrow> VEmpty)
                    [getDisplayGroupMetadata (DisplayGroupTokens_camera tk)] c0 = Some c1"
      using CreateProperty_fn_at_defined unfolding CreateProperty_fn_def by blast
    have k1: "m_fbxAnimLayer c1 = m_fbxAnimLayer ctx" "m_fbxTimeSpan c1 = m_fbxTimeSpan ctx"
      using CreateProperty_fn_at_effect [OF c1 [unfolded CreateProperty_fn_def]] c0 by simp_all
    have "readCamera tk ctx \<noteq> None"
      unfolding rc c1
      using d k1
      by (auto simp: CreateProperty_fbx_def CreateProperty_def CreateProperty_fn_def
            CreateProperty_at_def CreateProperty_fn_at_def storeProperty_def Let_def
          split: option.splits prod.splits Option.bind_splits)
  }
  then show "getPropertyAnimation (FocusDistance camera) (m_fbxAnimLayer ctx)
             (m_fbxTimeSpan ctx) \<noteq> None \<Longrightarrow> readCamera tk ctx \<noteq> None" .
  fix ctx'
  assume r: "readCamera tk ctx = Some ctx'"
  from r [unfolded rc] obtain c1 c2 c3 c4 c5 c6 c7 where
    s1: "CreateProperty_fn ''focalLength'' Sdf_Float
                    (VFloat (cameraFocalLength camera 0 True))
                    (\<lambda>node t. case GetCamera node of
                        Some c \<Rightarrow> VDouble (cameraFocalLength c t True) | None \<Rightarrow> VEmpty)
                    [getDisplayGroupMetadata (DisplayGroupTokens_camera tk)] c0 = Some c1"
    and s2: "CreateProperty_fbx ''focusDistance'' Sdf_Float
                    (VFloat (Get_double (FocusDistance camera)))
                    (Some (FocusDistance camera))
                    [getDisplayGroupMetadata (DisplayGroupTokens_camera tk)] c1 = Some c2"
    and s3: "CreateProperty ''horizontalAperture'' Sdf_Float
                    (VFloat (cameraApertureWidth camera))
                    [getDisplayGroupMetadata (DisplayGroupTokens_camera tk)] c2 = Some c3"
    and s4: "CreateProperty ''verticalAperture'' Sdf_Float
                    (VFloat (cameraApertureHeight camera))
                    [getDisplayGroupMetadata (DisplayGroupTokens_camera tk)] c3 = Some c4"
    and s5: "CreateProperty ''projection'' Sdf_Token
                    (VToken (cameraProjectionMode camera))
                    [getDisplayGroupMetadata (DisplayGroupTokens_camera tk)] c4 = Some c5"
    and s6: "(if UseDepthOfField camera
                   then CreateProperty ''fStop'' Sdf_Float (VFloat 0)
                          [getDisplayGroupMetadata (DisplayGroupTokens_camera tk)] c5
                   else Some c5) = Some c6"
    and s7: "CreateProperty ''clippingRange'' Sdf_Float2
                    (cameraClippingRange camera)
                    [getDisplayGroupMetadata (DisplayGroupTokens_camera tk)] c6 = Some c7"
    and s8: "CreateProperty_fn ''generated:fov'' Sdf_Float
                    (VFloat (cameraFieldOfView camera 0))
                    (\<lambda>node t. case GetCamera node of
                        Some c \<Rightarrow> VFloat (cameraFieldOfView c t) | None \<Rightarrow> VEmpty)
                    [getDisplayGroupMetadata (DisplayGroupTokens_generated tk),
                     (''custom'', VBool True)] c7 = Some ctx'"
    by (auto simp: bind_eq_Some_conv)
  have p0: "m_usdPath c0 = SdfPath a es None" using path c0 by simp
  have f0: "properties (m_dataReader c0) (AppendProperty (m_usdPath c0) ''fStop'') = None"
    using fresh c0 by simp
  note e1 = CreateProperty_fn_other [OF s1 p0, of "''fStop''"]
  have p1: "m_usdPath c1 = SdfPath a es None" using e1 p0 by simp
  have f1: "properties (m_dataReader c1) (AppendProperty (m_usdPath c1) ''fStop'') = None"
    using e1 f0 by simp
  note e2 = CreateProperty_fbx_other [OF s2 p1, of "''fStop''"]
  have p2: "m_usdPath c2 = SdfPath a es None" using e2 p1 by simp
  have f2: "properties (m_dataReader c2) (AppendProperty (m_usdPath c2) ''fStop'') = None"
    using e2 f1 by simp
  note e3 = CreateProperty_other [OF s3 p2, of "''fStop''"]
  have p3: "m_usdPath c3 = SdfPath a es None" using e3 p2 by simp
  have f3: "properties (m_dataReader c3) (AppendProperty (m_usdPath c3) ''fStop'') = None"
    using e3 f2 by simp
  note e4 = CreateProperty_other [OF s4 p3, of "''fStop''"]
  have p4: "m_usdPath c4 = SdfPath a es None" using e4 p3 by simp
  have f4: "properties (m_dataReader c4) (AppendProperty (m_usdPath c4) ''fStop'') = None"
    using e4 f3 by simp
  note e5 = CreateProperty_other [OF s5 p4, of "''fStop''"]
  have p5: "m_usdPath c5 = SdfPath a es None" using e5 p4 by simp
  have f5: "properties (m_dataReader c5) (AppendProperty (m_usdPath c5) ''fStop'') = None"
    using e5 f4 by simp
  have p6: "m_usdPath c6 = SdfPath a es None"
    using s6 p5 CreateProperty_same [of "''fStop''" Sdf_Float "VFloat 0" _ c5 c6]
    by (auto split: if_splits)
  have f6: "map_option value (properties (m_dataReader c6) (AppendProperty (m_usdPath c6) ''fStop''))
      = (if UseDepthOfField camera then Some (VFloat 0) else None)"
    using s6 f5 CreateProperty_same [of "''fStop''" Sdf_Float "VFloat 0" _ c5 c6]
    by (auto split: if_splits)
  note e7 = CreateProperty_other [OF s7 p6, of "''fStop''"]
  have p7: "m_usdPath c7 = SdfPath a es None" using e7 p6 by simp
  have f7: "map_option value (properties (m_dataReader c7) (AppendProperty (m_usdPath c7) ''fStop''))
      = (if UseDepthOfField camera then Some (VFloat 0) else None)"
    using e7 f6 by simp
  note e8 = CreateProperty_fn_other [OF s8 p7, of "''fStop''"]
  have f8: "map_option value (properties (m_dataReader ctx') (AppendProperty (m_usdPath ctx) ''fStop''))
      = (if UseDepthOfField camera then Some (VFloat 0) else None)"
    using e8 f7 p7 path by simp
  show "(properties (m_dataReader ctx') (AppendProperty (m_usdPath ctx) ''fStop'') \<noteq> None)
             = UseDepthOfField camera"
    using f8 by (auto split: if_splits)
  show "UseDepthOfField camera \<Longrightarrow> map_option value
               (properties (m_dataReader ctx') (AppendProperty (m_usdPath ctx) ''fStop''))
             = Some (VFloat 0)"
    using f8 by simp
qed

theorem readCamera_fStop_witness:
  "(\<exists>ctx'. readCamera example_tokens (example_camera_context True) = Some ctx'
      \<and> map_option value (properties (m_dataReader ctx') (SdfPath True [''ROOT'', ''cam''] (Some ''fStop'')))
          = Some (VFloat 0))
   \<and> (\<exists>ctx'. readCamera example_tokens (example_camera_context False) = Some ctx'
      \<and> properties (m_dataReader ctx') (SdfPath True [''ROOT'', ''cam''] (Some ''fStop'')) = None)"
proof -
  have t: "\<exists>ctx'. readCamera example_tokens (example_camera_context dof) = Some ctx'
      \<and> ((properties (m_dataReader ctx') (SdfPath True [''ROOT'', ''cam''] (Some ''fStop'')) \<noteq> None) = dof)
      \<and> (dof \<longrightarrow> map_option value
               (properties (m_dataReader ctx') (SdfPath True [''ROOT'', ''cam''] (Some ''fStop'')))
             = Some (VFloat 0))" for dof
  proof -
    have h1: "m_usdPath (example_camera_context dof) = SdfPath True [''ROOT'', ''cam''] None"
      by (simp add: example_camera_context_def)
    have h2: "GetNodeAttribute (m_fbxNode (example_camera_context dof))
        = Some (FbxCameraAttribute (example_camera dof))"
      by (simp add: example_camera_context_def GetNodeAttribute_def)
    have h3: "properties (m_dataReader (example_camera_context dof))
        (AppendProperty (m_usdPath (example_camera_context dof)) ''fStop'') = None"
      by (simp add: example_camera_context_def)
    have h4: "getPropertyAnimation (FocusDistance (example_camera dof))
        (m_fbxAnimLayer (example_camera_context dof)) (m_fbxTimeSpan (example_camera_context dof)) \<noteq> None"
      by (simp add: example_camera_context_def example_camera_def getPropertyAnimation_def)
    have h5: "UseDepthOfField (example_camera dof) = dof"
      by (simp add: example_camera_def)
    have h6: "AppendProperty (m_usdPath (example_camera_context dof)) ''fStop''
        = SdfPath True [''ROOT'', ''cam''] (Some ''fStop'')"
      by (simp add: h1 AppendProperty_def)
    show ?thesis
      using readCamera_fStop [OF h1 h2 h3, of example_tokens] h4
      unfolding h5 h6 by blast
  qed
  show ?thesis using t [of True] t [of False] by auto
qed

section \<open>Properties of the skeleton animation's scales\<close>

lemma upto_as_map:
  "i \<le> j \<Longrightarrow> map (\<lambda>k. i + int k) [0..<Suc (nat (j - i))] = [i..j]"
  by (rule nth_equalityI) (auto simp: nth_upto simp del: upt_Suc)

lemma sampleSkeletonScales_times:
  "GetStart ts \<le> GetStop ts \<Longrightarrow>
   map fst (sampleSkeletonScales h ts) = map of_int [GetStart ts..GetStop ts]"
proof -
  assume a: "GetStart ts \<le> GetStop ts"
  have "map fst (sampleSkeletonScales h ts)
      = map real_of_int (map (\<lambda>k. GetStart ts + int k) [0..<Suc (nat (GetStop ts - GetStart ts))])"
    using a by (simp add: sampleSkeletonScales_def GetDuration_def o_def del: upt_Suc)
  then show ?thesis unfolding upto_as_map [OF a] .
qed

lemma sampleSkeletonScales_values:
  "map snd (sampleSkeletonScales h ts)
     = replicate (Suc (nat (GetDuration ts))) (VVec3hArray (map (\<lambda>skeleton. (1, 1, 1)) h))"
  by (simp add: sampleSkeletonScales_def o_def map_replicate_const del: upt_Suc replicate_Suc)

lemma sampleSkeletonScales_Cons:
  "\<exists>t rest. sampleSkeletonScales h ts = (t, VVec3hArray (map (\<lambda>skeleton. (1, 1, 1)) h)) # rest
     \<and> list_all (\<lambda>tup. snd tup = VVec3hArray (map (\<lambda>skeleton. (1, 1, 1)) h)) rest"
  by (simp add: sampleSkeletonScales_def upt_conv_Cons list_all_iff del: upt_Suc)

lemma authorScales_effect:
  assumes "skelAnimPrimPath = SdfPath a es None"
    and "properties (m_dataReader ctx) (AppendProperty skelAnimPrimPath ''scales'') = None"
  shows "\<exists>ctx' prop. authorScales tk skelAnimPrimPath (first # rest) ctx = Some ctx'
     \<and> properties (m_dataReader ctx') (AppendProperty skelAnimPrimPath ''scales'') = Some prop
     \<and> value prop = snd first
     \<and> timeSamples prop = (if list_all (\<lambda>tup. snd tup = snd first) rest then [] else first # rest)"
  using assms
  by (auto simp: authorScales_def CreateProperty_path_def CreateProperty_at_def
      createPropertyAtPath_def AddProperty_def storeProperty_def setTimeSamples_def Let_def)

text \<open>
C8. In the skeleton-animation reader, sampling over the inclusive frame range start..stop
  produces one scales sample per frame (stop - start + 1 samples, at the frames of the
  range). Authoring a non-empty sample list at a prim that has no scales property yet sets
  the first sample's value as the default; when every later sample's value equals the first
  one's the property has no time samples, otherwise it has the whole list. The reader's own
  samples are one (1, 1, 1) per joint at every frame, so its scales property is the bare
  default with no time samples.
\<close>

theorem scales_collapse_to_default:
  assumes "GetStart (m_fbxTimeSpan ctx) \<le> GetStop (m_fbxTimeSpan ctx)"
    and "skelAnimPrimPath = SdfPath a es None"
    and "properties (m_dataReader ctx) (AppendProperty skelAnimPrimPath ''scales'') = None"
  shows "int (length (sampleSkeletonScales h (m_fbxTimeSpan ctx)))
        = GetStop (m_fbxTimeSpan ctx) - GetStart (m_fbxTimeSpan ctx) + 1
    \<and> map fst (sampleSkeletonScales h (m_fbxTimeSpan ctx))
        = map of_int [GetStart (m_fbxTimeSpan ctx)..GetStop (m_fbxTimeSpan ctx)]
    \<and> (\<exists>ctx' prop. authorScales tk skelAnimPrimPath (first # rest) ctx = Some ctx'
         \<and> properties (m_dataReader ctx') (AppendProperty skelAnimPrimPath ''scales'') = Some prop
         \<and> value prop = snd first
         \<and> (list_all (\<lambda>tup. snd tup = snd first) rest \<longrightarrow> timeSamples prop = [])
         \<and> (\<not> list_all (\<lambda>tup. snd tup = snd first) rest \<longrightarrow> timeSamples prop = first # rest))
    \<and> (m_fbxAnimLayer ctx \<noteq> None
         \<and> (case GetParent (m_fbxNode ctx) of None \<Rightarrow> True | Some p \<Rightarrow> \<not> isSkeleton p)
         \<and> AppendChild (GetParentPath (m_usdPath ctx)) (''Animation'' @ GetNodeName (m_fbxNode ctx))
             = skelAnimPrimPath \<longrightarrow>
         (\<exists>ctx' prop. readSkeletonAnimation_scales tk ctx = Some ctx'
           \<and> properties (m_dataReader ctx') (AppendProperty skelAnimPrimPath ''scales'') = Some prop
           \<and> value prop = VVec3hArray (map (\<lambda>skeleton. (1, 1, 1)) (skeletonHierarchyOf (m_fbxNode ctx)))
           \<and> timeSamples prop = []))"
proof (intro conjI impI)
  show t: "map fst (sampleSkeletonScales h (m_fbxTimeSpan ctx))
        = map of_int [GetStart (m_fbxTimeSpan ctx)..GetStop (m_fbxTimeSpan ctx)]"
    using sampleSkeletonScales_times [OF assms(1)] .
  have "length (map fst (sampleSkeletonScales h (m_fbxTimeSpan ctx)))
      = length [GetStart (m_fbxTimeSpan ctx)..GetStop (m_fbxTimeSpan ctx)]"
    unfolding t by simp
  then show "int (length (sampleSkeletonScales h (m_fbxTimeSpan ctx)))
        = GetStop (m_fbxTimeSpan ctx) - GetStart (m_fbxTimeSpan ctx) + 1"
    using assms(1) by simp
  show "\<exists>ctx' prop. authorScales tk skelAnimPrimPath (first # rest) ctx = Some ctx'
         \<and> properties (m_dataReader ctx') (AppendProperty skelAnimPrimPath ''scales'') = Some prop
         \<and> value prop = snd first
         \<and> (list_all (\<lambda>tup. snd tup = snd first) rest \<longrightarrow> timeSamples prop = [])
         \<and> (\<not> list_all (\<lambda>tup. snd tup = snd first) rest \<longrightarrow> timeSamples prop = first # rest)"
    using authorScales_effect [OF assms(2,3), of tk first rest] by auto
next
  assume r: "m_fbxAnimLayer ctx \<noteq> None
         \<and> (case GetParent (m_fbxNode ctx) of None \<Rightarrow> True | Some p \<Rightarrow> \<not> isSkeleton p)
         \<and> AppendChild (GetParentPath (m_usdPath ctx)) (''Animation'' @ GetNodeName (m_fbxNode ctx))
             = skelAnimPrimPath"
  define hier where "hier = skeletonHierarchyOf (m_fbxNode ctx)"
  obtain t rest where s: "sampleSkeletonScales hier (m_fbxTimeSpan ctx)
      = (t, VVec3hArray (map (\<lambda>skeleton. (1, 1, 1)) hier)) # rest"
    and e: "list_all (\<lambda>tup. snd tup = VVec3hArray (map (\<lambda>skeleton. (1, 1, 1)) hier)) rest"
    using sampleSkeletonScales_Cons by blast
  have "readSkeletonAnimation_scales tk ctx
      = authorScales tk skelAnimPrimPath (sampleSkeletonScales hier (m_fbxTimeSpan ctx)) ctx"
    using r by (auto simp: readSkeletonAnimation_scales_def Let_def hier_def split: option.splits)
  then show "\<exists>ctx' prop. readSkeletonAnimation_scales tk ctx = Some ctx'
           \<and> properties (m_dataReader ctx') (AppendProperty skelAnimPrimPath ''scales'') = Some prop
           \<and> value prop = VVec3hArray (map (\<lambda>skeleton. (1, 1, 1)) (skeletonHierarchyOf (m_fbxNode ctx)))
           \<and> timeSamples prop = []"
    using authorScales_effect [OF assms(2,3), of tk "(t, VVec3hArray (map (\<lambda>skeleton. (1, 1, 1)) hier))" rest]
      e unfolding s hier_def [symmetric] by auto
qed

theorem scales_collapse_to_default_witness:
  "length (sampleSkeletonScales (skeletonHierarchyOf (m_fbxNode example_skeleton_context))
             (m_fbxTimeSpan example_skeleton_context)) = 11
   \<and> (\<exists>ctx' prop. readSkeletonAnimation_scales example_tokens example_skeleton_context = Some ctx'
        \<and> properties (m_dataReader ctx') (SdfPath True [''ROOT'', ''AnimationHips''] (Some ''scales''))
            = Some prop
        \<and> value prop = VVec3hArray [(1, 1, 1), (1, 1, 1)] \<and> timeSamples prop = [])
   \<and> (\<exists>ctx' prop. authorScales example_tokens (SdfPath True [''ROOT'', ''AnimationHips''] None)
            [(0, VVec3hArray [(1, 1, 1)]), (1, VVec3hArray [(2, 2, 2)])] example_skeleton_context
          = Some ctx'
        \<and> properties (m_dataReader ctx') (SdfPath True [''ROOT'', ''AnimationHips''] (Some ''scales''))
            = Some prop
        \<and> value prop = VVec3hArray [(1, 1, 1)]
        \<and> timeSamples prop = [(0, VVec3hArray [(1, 1, 1)]), (1, VVec3hArray [(2, 2, 2)])])"
proof -
  have h1: "GetStart (m_fbxTimeSpan example_skeleton_context)
      \<le> GetStop (m_fbxTimeSpan example_skeleton_context)"
    by (simp add: example_skeleton_context_def)
  have h2: "SdfPath True [''ROOT'', ''AnimationHips''] None = SdfPath True [''ROOT'', ''AnimationHips''] None"
    by simp
  have h3: "properties (m_dataReader example_skeleton_context)
      (AppendProperty (SdfPath True [''ROOT'', ''AnimationHips''] None) ''scales'') = None"
    by (simp add: example_skeleton_context_def)
  have h4: "m_fbxAnimLayer example_skeleton_context \<noteq> None
         \<and> (case GetParent (m_fbxNode example_skeleton_context) of None \<Rightarrow> True
             | Some p \<Rightarrow> \<not> isSkeleton p)
         \<and> AppendChild (GetParentPath (m_usdPath example_skeleton_context))
               (''Animation'' @ GetNodeName (m_fbxNode example_skeleton_context))
             = SdfPath True [''ROOT'', ''AnimationHips''] None"
    by (simp add: example_skeleton_context_def GetParent_def isSkeleton_def GetNodeAttribute_def
        AppendChild_def GetParentPath_def GetNodeName_def)
  have h5: "skeletonHierarchyOf (m_fbxNode example_skeleton_context)
      = [m_fbxNode example_skeleton_context,
         FbxNode [FbxNodeTree ''Hips'' (Some (FbxAttribute eSkeleton))
                       [FbxNodeTree ''Spine'' (Some (FbxAttribute eSkeleton)) []],
                  FbxNodeTree ''RootNode'' None []]
           (FbxNodeTree ''Spine'' (Some (FbxAttribute eSkeleton)) [])]"
    by (simp add: example_skeleton_context_def skeletonHierarchyOf_def collectSkeletonHierarchy_def
        isSkeleton_def GetNodeAttribute_def GetNodeAttributeCount_def)
  have h6: "AppendProperty (SdfPath True [''ROOT'', ''AnimationHips''] None) ''scales''
      = SdfPath True [''ROOT'', ''AnimationHips''] (Some ''scales'')"
    by (simp add: AppendProperty_def)
  have h7: "GetStop (m_fbxTimeSpan example_skeleton_context)
      - GetStart (m_fbxTimeSpan example_skeleton_context) + 1 = 11"
    by (simp add: example_skeleton_context_def)
  note T = scales_collapse_to_default [OF h1 h2 h3,
      of "skeletonHierarchyOf (m_fbxNode example_skeleton_context)" example_tokens
         "(0, VVec3hArray [(1, 1, 1)])" "[(1, VVec3hArray [(2, 2, 2)])]", unfolded h6 h7]
  show ?thesis
    using T h4 by (simp add: h5)
qed

section \<open>Properties of the skeleton hierarchy\<close>

lemma isSkeleton_tree: "isSkeleton (FbxNode anc t) = isSkeleton (FbxNode anc' t)"
  by (simp add: isSkeleton_def GetNodeAttribute_def GetNodeAttributeCount_def)

lemma collectChildren_Cons:
  "collectChildren anc (c # cs) =
     (if \<not> isSkeleton (FbxNode anc c)
      then (fst (collectChildren anc cs),
            notSkeletonWarning (treeName c) # snd (collectChildren anc cs))
      else (FbxNode anc c # fst (collectChildren (c # anc) (treeChildren c))
              @ fst (collectChildren anc cs),
            snd (collectChildren (c # anc) (treeChildren c)) @ snd (collectChildren anc cs)))"
  by (cases c) (simp split: prod.splits)

lemma children_induct [case_names Nil Cons]:
  assumes "\<And>anc. P anc []"
    and "\<And>anc c cs. P anc cs \<Longrightarrow> P (c # anc) (treeChildren c) \<Longrightarrow> P anc (c # cs)"
  shows "P anc (cs :: FbxNodeTree list)"
proof (induction "size_list size cs" arbitrary: anc cs rule: less_induct)
  case less
  show ?case
  proof (cases cs)
    case Nil
    then show ?thesis using assms(1) by simp
  next
    case (Cons c cs')
    have "size_list size cs' < size_list size cs" using Cons by simp
    moreover have "size_list size (treeChildren c) < size_list size cs"
      using Cons by (cases c) simp
    ultimately show ?thesis using assms(2) less Cons by blast
  qed
qed

lemma collectChildren_sound:
  "h \<in> set (fst (collectChildren anc cs)) \<Longrightarrow>
   \<exists>path. ancestors h = path @ anc \<and> isSkeleton h \<and> (\<forall>q\<in>set path. isSkeleton (FbxNode [] q))"
proof (induction anc cs arbitrary: h rule: children_induct)
  case (Nil anc)
  then show ?case by simp
next
  case (Cons anc c cs)
  show ?case
  proof (cases "isSkeleton (FbxNode anc c)")
    case False
    then show ?thesis using Cons.prems Cons.IH(1) by (simp add: collectChildren_Cons)
  next
    case True
    then consider "h = FbxNode anc c" | "h \<in> set (fst (collectChildren (c # anc) (treeChildren c)))"
      | "h \<in> set (fst (collectChildren anc cs))"
      using Cons.prems by (auto simp: collectChildren_Cons)
    then show ?thesis
    proof cases
      case 1
      then show ?thesis using True by simp
    next
      case 2
      from Cons.IH(2) [OF 2]
      obtain path where p: "ancestors h = path @ c # anc" "isSkeleton h"
        "\<forall>q\<in>set path. isSkeleton (FbxNode [] q)"
        by auto
      have "isSkeleton (FbxNode [] c)" using True isSkeleton_tree by blast
      then have "ancestors h = (path @ [c]) @ anc \<and> isSkeleton h
          \<and> (\<forall>q\<in>set (path @ [c]). isSkeleton (FbxNode [] q))"
        using p by auto
      then show ?thesis by blast
    next
      case 3
      then show ?thesis using Cons.IH(1) by simp
    qed
  qed
qed

lemma collectChildren_warns_child:
  "c \<in> set cs \<Longrightarrow> \<not> isSkeleton (FbxNode anc c) \<Longrightarrow>
   notSkeletonWarning (treeName c) \<in> set (snd (collectChildren anc cs))"
  by (induction cs) (auto simp: collectChildren_Cons)

lemma collectChildren_warns_below:
  "h \<in> set (fst (collectChildren anc cs)) \<Longrightarrow> c \<in> set (treeChildren (subtree h)) \<Longrightarrow>
   \<not> isSkeleton (FbxNode anc' c) \<Longrightarrow>
   notSkeletonWarning (treeName c) \<in> set (snd (collectChildren anc cs))"
proof (induction anc cs arbitrary: h rule: children_induct)
  case (Nil anc)
  then show ?case by simp
next
  case (Cons anc d cs)
  show ?case
  proof (cases "isSkeleton (FbxNode anc d)")
    case False
    then show ?thesis using Cons.prems Cons.IH(1) by (simp add: collectChildren_Cons)
  next
    case True
    then consider "h = FbxNode anc d" | "h \<in> set (fst (collectChildren (d # anc) (treeChildren d)))"
      | "h \<in> set (fst (collectChildren anc cs))"
      using Cons.prems by (auto simp: collectChildren_Cons)
    then show ?thesis
    proof cases
      case 1
      then have "c \<in> set (treeChildren d)" using Cons.prems(2) by simp
      moreover have "\<not> isSkeleton (FbxNode (d # anc) c)"
        using Cons.prems(3) isSkeleton_tree by blast
      ultimately have "notSkeletonWarning (treeName c)
          \<in> set (snd (collectChildren (d # anc) (treeChildren d)))"
        by (rule collectChildren_warns_child)
      then show ?thesis using True by (simp add: collectChildren_Cons)
    next
      case 2
      from Cons.IH(2) [OF 2 Cons.prems(2,3)] True
      show ?thesis by (simp add: collectChildren_Cons)
    next
      case 3
      from Cons.IH(1) [OF 3 Cons.prems(2,3)] True
      show ?thesis by (simp add: collectChildren_Cons)
    qed
  qed
qed

lemma tokenPathLoop_up:
  "\<forall>q\<in>set path. treeName q \<noteq> rootJointName \<Longrightarrow> treeName r = rootJointName \<Longrightarrow>
   tokenPathLoop rootJointName (path @ r # anc)
       (SdfPath False (treeName (hd (path @ [r])) # sfx) None)
     = Some (SdfPath False (treeName r # map treeName (rev path) @ sfx) None)"
proof (induction path arbitrary: sfx)
  case Nil
  then show ?case by simp
next
  case (Cons p path)
  have "tokenPathLoop rootJointName ((p # path) @ r # anc)
       (SdfPath False (treeName (hd ((p # path) @ [r])) # sfx) None)
     = tokenPathLoop rootJointName (path @ r # anc)
         (SdfPath False (treeName (hd (path @ [r])) # treeName p # sfx) None)"
    using Cons.prems(1)
    by (cases path) (simp_all add: AppendPath_def SdfPath_name_def)
  then show ?case using Cons.IH [of "treeName p # sfx"] Cons.prems by simp
qed

text \<open>
  The token of a joint below the root joint is the names from the root joint down to it,
  joined by slashes, as long as no joint on the way down has the name of the root joint.
\<close>

lemma skeletonToTokenPath_below_root:
  assumes "ancestors h = path @ r # anc" "\<forall>q\<in>set path. treeName q \<noteq> treeName r"
    "GetNodeName h \<noteq> treeName r"
  shows "skeletonToTokenPath h (treeName r)
     = Some (joinElements (treeName r # map treeName (rev path) @ [GetNodeName h]))"
proof -
  obtain parent rest where pr: "path @ r # anc = parent # rest" "parent = hd (path @ [r])"
    by (cases path) auto
  have "tokenPathLoop (treeName r) (parent # rest)
          (AppendChild (SdfPath_name (treeName parent)) (GetNodeName h))
      = Some (SdfPath False (treeName r # map treeName (rev path) @ [GetNodeName h]) None)"
    using tokenPathLoop_up [OF assms(2) refl, of anc "[GetNodeName h]"] pr
    by (simp add: AppendChild_def SdfPath_name_def)
  then show ?thesis
    using assms(1,3) pr by (simp add: skeletonToTokenPath_def GetAsToken_def)
qed

lemma hierarchy_cases:
  "p \<in> set (skeletonHierarchyOf rootJoint) \<Longrightarrow>
   p = rootJoint \<or> (\<exists>path. ancestors p = path @ subtree rootJoint # ancestors rootJoint \<and> isSkeleton p
                 \<and> (\<forall>q\<in>set path. isSkeleton (FbxNode [] q)))"
  using collectChildren_sound [of p "subtree rootJoint # ancestors rootJoint" "treeChildren (subtree rootJoint)"]
  by (auto simp: skeletonHierarchyOf_def collectSkeletonHierarchy_def)

lemma hierarchy_above_root:
  "p \<in> set (skeletonHierarchyOf rootJoint) \<Longrightarrow>
   \<exists>pp. subtree p # ancestors p = pp @ subtree rootJoint # ancestors rootJoint"
proof -
  assume "p \<in> set (skeletonHierarchyOf rootJoint)"
  then consider "p = rootJoint"
    | path where "ancestors p = path @ subtree rootJoint # ancestors rootJoint"
    using hierarchy_cases by blast
  then show ?thesis
  proof cases
    case 1
    then show ?thesis by simp
  next
    case 2
    then have "subtree p # ancestors p = (subtree p # path) @ subtree rootJoint # ancestors rootJoint"
      by simp
    then show ?thesis by blast
  qed
qed

lemma non_joint_child_excluded:
  assumes p: "p \<in> set (skeletonHierarchyOf rootJoint)" and i: "i < GetChildCount p"
    and n: "\<not> isSkeleton (GetChild p i)"
  shows "GetChild p i \<notin> set (skeletonHierarchyOf rootJoint)
    \<and> (\<forall>h\<in>set (skeletonHierarchyOf rootJoint). \<not> isBelow h (GetChild p i))
    \<and> notSkeletonWarning (GetNodeName (GetChild p i)) \<in> set (snd (collectSkeletonHierarchy rootJoint))"
proof (intro conjI ballI)
  define c where "c = GetChild p i"
  define R where "R = subtree rootJoint # ancestors rootJoint"
  have ca: "ancestors c = subtree p # ancestors p" by (simp add: c_def GetChild_def)
  have cs: "subtree c \<in> set (treeChildren (subtree p))"
    using i by (simp add: c_def GetChild_def GetChildCount_def)
  from hierarchy_above_root [OF p] obtain pp where pp: "subtree p # ancestors p = pp @ R"
    unfolding R_def by blast
  have nroot: "c \<noteq> rootJoint"
  proof
    assume "c = rootJoint"
    then have "length (ancestors rootJoint) = length (pp @ R)" using ca pp by simp
    then show False by (simp add: R_def)
  qed
  show "GetChild p i \<notin> set (skeletonHierarchyOf rootJoint)"
  proof
    assume "GetChild p i \<in> set (skeletonHierarchyOf rootJoint)"
    then have "c = rootJoint \<or> isSkeleton c" using hierarchy_cases unfolding c_def by blast
    then show False using nroot n c_def by simp
  qed
  show "\<not> isBelow h (GetChild p i)" if h: "h \<in> set (skeletonHierarchyOf rootJoint)" for h
  proof
    assume "isBelow h (GetChild p i)"
    then obtain pre where pre: "ancestors h = pre @ subtree c # pp @ R"
      using ca pp by (auto simp: isBelow_def c_def [symmetric] suffix_def)
    from hierarchy_cases [OF h] show False
    proof
      assume "h = rootJoint"
      then have "length (ancestors rootJoint) = length (pre @ subtree c # pp @ R)" using pre by simp
      then show False by (simp add: R_def)
    next
      assume "\<exists>path. ancestors h = path @ subtree rootJoint # ancestors rootJoint \<and> isSkeleton h
                 \<and> (\<forall>q\<in>set path. isSkeleton (FbxNode [] q))"
      then obtain path where path: "ancestors h = path @ R"
        "\<forall>q\<in>set path. isSkeleton (FbxNode [] q)"
        unfolding R_def by blast
      have "path @ R = (pre @ subtree c # pp) @ R" using pre path(1) by simp
      then have "path = pre @ subtree c # pp" using append_same_eq by blast
      then have "isSkeleton (FbxNode [] (subtree c))" using path(2) by simp
      then have "isSkeleton c" using isSkeleton_tree [of "[]" "subtree c" "ancestors c"] by simp
      then show False using n c_def by simp
    qed
  qed
  have nc: "\<not> isSkeleton (FbxNode anc' (subtree c))" for anc'
    using n isSkeleton_tree [of anc' "subtree c" "ancestors c"] by (simp add: c_def)
  have "notSkeletonWarning (treeName (subtree c)) \<in> set (snd (collectSkeletonHierarchy rootJoint))"
  proof (cases "p = rootJoint")
    case True
    then show ?thesis
      using collectChildren_warns_child [OF _ nc, of "treeChildren (subtree rootJoint)"] cs
      by (simp add: collectSkeletonHierarchy_def)
  next
    case False
    then have "p \<in> set (fst (collectSkeletonHierarchy rootJoint))"
      using p by (simp add: skeletonHierarchyOf_def)
    then show ?thesis
      using collectChildren_warns_below [OF _ cs nc]
      by (simp add: collectSkeletonHierarchy_def)
  qed
  then show "notSkeletonWarning (GetNodeName (GetChild p i))
      \<in> set (snd (collectSkeletonHierarchy rootJoint))"
    by (simp add: c_def GetNodeName_def)
qed

text \<open>
C5. For the joint hierarchy a -> b -> c (b and c not named like the root joint), the
  joints are collected in the order a, b, c and their path tokens are "a", "a/b" and
  "a/b/c": the root joint gives only its own name. And for any root joint: a child of a
  collected joint (or of the root joint) that is not a joint is not in the collected list,
  no node of the list lies below it, and a warning naming it is issued.
\<close>

theorem joint_paths_and_exclusion:
  assumes "b \<noteq> a" "c \<noteq> a"
  shows "map GetNodeName (skeletonHierarchyOf (FbxNode anc (jointChain a b c))) = [a, b, c]
    \<and> skeletonHierarchyToTokenList (skeletonHierarchyOf (FbxNode anc (jointChain a b c)))
        = Some [a, a @ ''/'' @ b, a @ ''/'' @ b @ ''/'' @ c]
    \<and> (\<forall>p\<in>set (skeletonHierarchyOf rootJoint). \<forall>i<GetChildCount p.
          \<not> isSkeleton (GetChild p i) \<longrightarrow>
            GetChild p i \<notin> set (skeletonHierarchyOf rootJoint)
          \<and> (\<forall>h\<in>set (skeletonHierarchyOf rootJoint). \<not> isBelow h (GetChild p i))
          \<and> notSkeletonWarning (GetNodeName (GetChild p i))
               \<in> set (snd (collectSkeletonHierarchy rootJoint)))"
proof (intro conjI ballI allI impI)
  have h: "skeletonHierarchyOf (FbxNode anc (jointChain a b c))
      = [FbxNode anc (jointChain a b c),
         FbxNode (jointChain a b c # anc)
           (FbxNodeTree b (Some (FbxAttribute eSkeleton))
              [FbxNodeTree c (Some (FbxAttribute eSkeleton)) []]),
         FbxNode (FbxNodeTree b (Some (FbxAttribute eSkeleton))
                    [FbxNodeTree c (Some (FbxAttribute eSkeleton)) []] # jointChain a b c # anc)
           (FbxNodeTree c (Some (FbxAttribute eSkeleton)) [])]"
    by (simp add: skeletonHierarchyOf_def collectSkeletonHierarchy_def jointChain_def
        isSkeleton_def GetNodeAttribute_def GetNodeAttributeCount_def)
  show "map GetNodeName (skeletonHierarchyOf (FbxNode anc (jointChain a b c))) = [a, b, c]"
    unfolding h by (simp add: GetNodeName_def jointChain_def)
  show "skeletonHierarchyToTokenList (skeletonHierarchyOf (FbxNode anc (jointChain a b c)))
        = Some [a, a @ ''/'' @ b, a @ ''/'' @ b @ ''/'' @ c]"
    unfolding h using assms
    by (simp add: skeletonHierarchyToTokenList_def skeletonToTokenPath_def GetNodeName_def
        jointChain_def AppendChild_def AppendPath_def SdfPath_name_def GetAsToken_def)
next
  fix p i
  assume "p \<in> set (skeletonHierarchyOf rootJoint)" "i < GetChildCount p"
    "\<not> isSkeleton (GetChild p i)"
  note e = non_joint_child_excluded [OF this]
  show "GetChild p i \<notin> set (skeletonHierarchyOf rootJoint)" using e by blast
  show "notSkeletonWarning (GetNodeName (GetChild p i))
               \<in> set (snd (collectSkeletonHierarchy rootJoint))" using e by blast
  show "\<not> isBelow h (GetChild p i)" if "h \<in> set (skeletonHierarchyOf rootJoint)" for h
    using e that by blast
qed

theorem joint_paths_and_exclusion_witness:
  "skeletonHierarchyToTokenList (skeletonHierarchyOf (FbxNode [] (jointChain ''A'' ''B'' ''C'')))
     = Some [''A'', ''A/B'', ''A/B/C'']
   \<and> map GetNodeName (skeletonHierarchyOf example_broken_hierarchy) = [''Hips'', ''Spine'', ''Head'']
   \<and> GetNodeName (GetChild example_broken_hierarchy 1) = ''Prop''
   \<and> GetChild example_broken_hierarchy 1 \<notin> set (skeletonHierarchyOf example_broken_hierarchy)
   \<and> list_all (\<lambda>h. \<not> isBelow h (GetChild example_broken_hierarchy 1))
         (skeletonHierarchyOf example_broken_hierarchy)
   \<and> notSkeletonWarning ''Prop'' \<in> set (snd (collectSkeletonHierarchy example_broken_hierarchy))"
proof -
  have n: "''B'' \<noteq> ''A''" "''C'' \<noteq> ''A''" by simp_all
  have h: "skeletonHierarchyOf example_broken_hierarchy
      = [example_broken_hierarchy,
         FbxNode (subtree example_broken_hierarchy # ancestors example_broken_hierarchy)
           (FbxNodeTree ''Spine'' (Some (FbxAttribute eSkeleton))
             [FbxNodeTree ''Head'' (Some (FbxAttribute eSkeleton)) []]),
         FbxNode (FbxNodeTree ''Spine'' (Some (FbxAttribute eSkeleton))
                    [FbxNodeTree ''Head'' (Some (FbxAttribute eSkeleton)) []]
                  # subtree example_broken_hierarchy # ancestors example_broken_hierarchy)
           (FbxNodeTree ''Head'' (Some (FbxAttribute eSkeleton)) [])]"
    by (simp add: skeletonHierarchyOf_def collectSkeletonHierarchy_def example_broken_hierarchy_def
        isSkeleton_def GetNodeAttribute_def GetNodeAttributeCount_def)
  have p: "example_broken_hierarchy \<in> set (skeletonHierarchyOf example_broken_hierarchy)"
    by (simp add: skeletonHierarchyOf_def)
  have i: "1 < GetChildCount example_broken_hierarchy"
    by (simp add: GetChildCount_def example_broken_hierarchy_def)
  have c: "\<not> isSkeleton (GetChild example_broken_hierarchy 1)"
    "GetNodeName (GetChild example_broken_hierarchy 1) = ''Prop''"
    by (simp_all add: GetChild_def example_broken_hierarchy_def isSkeleton_def GetNodeAttribute_def
        GetNodeName_def)
  note T = joint_paths_and_exclusion [OF n, of "[]" example_broken_hierarchy]
  have t1: "skeletonHierarchyToTokenList (skeletonHierarchyOf (FbxNode [] (jointChain ''A'' ''B'' ''C'')))
     = Some [''A'', ''A/B'', ''A/B/C'']"
    using T by simp
  have t3: "\<forall>p\<in>set (skeletonHierarchyOf example_broken_hierarchy).
        \<forall>i<GetChildCount p. \<not> isSkeleton (GetChild p i) \<longrightarrow>
            GetChild p i \<notin> set (skeletonHierarchyOf example_broken_hierarchy)
          \<and> (\<forall>h\<in>set (skeletonHierarchyOf example_broken_hierarchy). \<not> isBelow h (GetChild p i))
          \<and> notSkeletonWarning (GetNodeName (GetChild p i))
               \<in> set (snd (collectSkeletonHierarchy example_broken_hierarchy))"
    using T by blast
  have e: "GetChild example_broken_hierarchy 1 \<notin> set (skeletonHierarchyOf example_broken_hierarchy)
      \<and> (\<forall>h\<in>set (skeletonHierarchyOf example_broken_hierarchy).
            \<not> isBelow h (GetChild example_broken_hierarchy 1))
      \<and> notSkeletonWarning (GetNodeName (GetChild example_broken_hierarchy 1))
            \<in> set (snd (collectSkeletonHierarchy example_broken_hierarchy))"
    using t3 p i c(1) by blast
  have m: "map GetNodeName (skeletonHierarchyOf example_broken_hierarchy) = [''Hips'', ''Spine'', ''Head'']"
    unfolding h by (simp add: GetNodeName_def example_broken_hierarchy_def)
  show ?thesis using t1 m e unfolding c(2) list_all_iff by blast
qed

section \<open>Properties of the layered mesh attributes\<close>

lemma findNormals_last:
  assumes "passesNormals l" "\<forall>l'\<in>set post. \<not> passesNormals l'"
  shows "findNormals (pre @ l # post) = GetNormals l"
proof -
  have "fold (\<lambda>layer cur. case GetNormals layer of None \<Rightarrow> cur
            | Some e \<Rightarrow> if perPolygonVertex e then Some e else cur) post acc = acc" for acc
    using assms(2) by (induction post) (auto simp: passesNormals_def split: option.splits)
  then show ?thesis
    using assms(1) by (auto simp: findNormals_def passesNormals_def split: option.splits)
qed

lemma findTangents_last:
  assumes "passesTangents l" "\<forall>l'\<in>set post. \<not> passesTangents l'"
  shows "findTangents (pre @ l # post) = GetTangents l"
proof -
  have "fold (\<lambda>layer cur. case GetTangents layer of None \<Rightarrow> cur
            | Some e \<Rightarrow> if perPolygonVertex e then Some e else cur) post acc = acc" for acc
    using assms(2) by (induction post) (auto simp: passesTangents_def split: option.splits)
  then show ?thesis
    using assms(1) by (auto simp: findTangents_def passesTangents_def split: option.splits)
qed

lemma findVertexColors_last:
  assumes "passesVertexColors l" "\<forall>l'\<in>set post. \<not> passesVertexColors l'"
  shows "findVertexColors (pre @ l # post) = GetVertexColors l"
proof -
  have "fold (\<lambda>layer cur. case GetVertexColors layer of None \<Rightarrow> cur
            | Some e \<Rightarrow> if GetMappingMode e \<noteq> eByControlPoint \<and> GetReferenceMode e \<noteq> eIndex
                        then cur else Some e) post acc = acc" for acc
    using assms(2) by (induction post) (auto simp: passesVertexColors_def split: option.splits)
  then show ?thesis
    using assms(1) by (auto simp: findVertexColors_def passesVertexColors_def split: option.splits)
qed

lemma polygonVertices_layers [simp]:
  "polygonVertices (pMesh\<lparr>GetLayers := ls\<rparr>) = polygonVertices pMesh"
  by (simp add: polygonVertices_def)

text \<open>
C2, as stated, fails: the first passing layer is not the one used. A triangle with two
  layers, the first with the value 1 and the second with the value 2 in its normals, tangents
  and vertex colors, all passing the tests: each converter returns the values of the second
  layer, and not what it returns for the first layer alone.
\<close>

theorem first_layer_not_preferred:
  "meshNormals (example_mesh [example_layer 1, example_layer 2])
      = Some [(2, 0, 0), (2, 0, 0), (2, 0, 0)]
   \<and> meshNormals (example_mesh [example_layer 1]) = Some [(1, 0, 0), (1, 0, 0), (1, 0, 0)]
   \<and> meshTangents (example_mesh [example_layer 1, example_layer 2])
      = Some [(0, 2, 0), (0, 2, 0), (0, 2, 0)]
   \<and> meshTangents (example_mesh [example_layer 1]) = Some [(0, 1, 0), (0, 1, 0), (0, 1, 0)]
   \<and> meshVertexColors (example_mesh [example_layer 1, example_layer 2])
      = Some [(2, 2, 2), (2, 2, 2), (2, 2, 2)]
   \<and> meshVertexColors (example_mesh [example_layer 1]) = Some [(1, 1, 1), (1, 1, 1), (1, 1, 1)]"
  by (simp add: meshNormals_def meshTangents_def meshVertexColors_def findNormals_def
      findTangents_def findVertexColors_def example_mesh_def example_layer_def
      perPolygonVertex_def polygonVertices_def getAtVertexIndex_def GetAt_def toGfVec_def
      upt_rec)

text \<open>
C2, amended. Among the layers of a mesh, the normals, tangents and vertex-color converters
  use only the last layer whose element passes the converter's test: with such a layer l, no
  passing layer after it and any layers before it, the output is the output for the mesh with
  l as its only layer.
\<close>

theorem last_passing_layer_used:
  assumes "GetLayers pMesh = pre @ l # post"
  shows "(passesNormals l \<and> (\<forall>l'\<in>set post. \<not> passesNormals l') \<longrightarrow>
            meshNormals pMesh = meshNormals (pMesh\<lparr>GetLayers := [l]\<rparr>))
    \<and> (passesTangents l \<and> (\<forall>l'\<in>set post. \<not> passesTangents l') \<longrightarrow>
            meshTangents pMesh = meshTangents (pMesh\<lparr>GetLayers := [l]\<rparr>))
    \<and> (passesVertexColors l \<and> (\<forall>l'\<in>set post. \<not> passesVertexColors l') \<longrightarrow>
            meshVertexColors pMesh = meshVertexColors (pMesh\<lparr>GetLayers := [l]\<rparr>))"
proof (intro conjI impI)
  assume aNormals: "passesNormals l \<and> (\<forall>l'\<in>set post. \<not> passesNormals l')"
  then have f1: "findNormals (pre @ l # post) = GetNormals l"
    using findNormals_last by blast
  from aNormals have f2: "findNormals [l] = GetNormals l"
    using findNormals_last [of l "[]" "[]"] by simp
  from f1 f2 show "meshNormals pMesh = meshNormals (pMesh\<lparr>GetLayers := [l]\<rparr>)"
    using assms by (simp add: meshNormals_def split: option.splits)
next
  assume aTangents: "passesTangents l \<and> (\<forall>l'\<in>set post. \<not> passesTangents l')"
  then have f1: "findTangents (pre @ l # post) = GetTangents l"
    using findTangents_last by blast
  from aTangents have f2: "findTangents [l] = GetTangents l"
    using findTangents_last [of l "[]" "[]"] by simp
  from f1 f2 show "meshTangents pMesh = meshTangents (pMesh\<lparr>GetLayers := [l]\<rparr>)"
    using assms by (simp add: meshTangents_def split: option.splits)
next
  assume aVertexColors: "passesVertexColors l \<and> (\<forall>l'\<in>set post. \<not> passesVertexColors l')"
  then have f1: "findVertexColors (pre @ l # post) = GetVertexColors l"
    using findVertexColors_last by blast
  from aVertexColors have f2: "findVertexColors [l] = GetVertexColors l"
    using findVertexColors_last [of l "[]" "[]"] by simp
  from f1 f2 show "meshVertexColors pMesh = meshVertexColors (pMesh\<lparr>GetLayers := [l]\<rparr>)"
    using assms by (simp add: meshVertexColors_def split: option.splits)
qed

theorem last_passing_layer_used_witness:
  "passesNormals (example_layer 2) \<and> passesTangents (example_layer 2)
   \<and> passesVertexColors (example_layer 2)
   \<and> meshNormals (example_mesh [example_layer 1, example_layer 2])
      = meshNormals (example_mesh [example_layer 2])
   \<and> meshTangents (example_mesh [example_layer 1, example_layer 2])
      = meshTangents (example_mesh [example_layer 2])
   \<and> meshVertexColors (example_mesh [example_layer 1, example_layer 2])
      = meshVertexColors (example_mesh [example_layer 2])"
proof -
  have l: "GetLayers (example_mesh [example_layer 1, example_layer 2])
      = [example_layer 1] @ example_layer 2 # []"
    by (simp add: example_mesh_def)
  have p: "passesNormals (example_layer 2)" "passesTangents (example_layer 2)"
    "passesVertexColors (example_layer 2)"
    by (simp_all add: passesNormals_def passesTangents_def passesVertexColors_def
        example_layer_def perPolygonVertex_def)
  have u: "(example_mesh [example_layer 1, example_layer 2])\<lparr>GetLayers := [example_layer 2]\<rparr>
      = example_mesh [example_layer 2]"
    by (simp add: example_mesh_def)
  show ?thesis
    using last_passing_layer_used [OF l] p unfolding u by simp
qed

section \<open>Properties of the skin binding data\<close>

lemma addInfluences_inv:
  "addInfluences k cps (pv, es) = Some (pv', es') \<Longrightarrow>
   \<forall>j<length pv. length (pv ! j) \<le> es \<Longrightarrow> es = 0 \<or> (\<exists>j<length pv. length (pv ! j) = es) \<Longrightarrow>
   length pv' = length pv \<and> (\<forall>j<length pv. length (pv' ! j) \<le> es')
   \<and> (es' = 0 \<or> (\<exists>j<length pv. length (pv' ! j) = es'))"
proof (induction cps arbitrary: pv es)
  case Nil
  then show ?case by simp
next
  case (Cons cp cps)
  obtain i w where cp: "cp = (i, w)" by (cases cp)
  define c where "c = nat i"
  define pv1 where "pv1 = pv[c := pv ! c @ [(k, w)]]"
  define es1 where "es1 = max (Suc (length (pv ! c))) es"
  have r: "0 \<le> i" "i < int (length pv)"
    using Cons.prems(1) cp by (auto split: if_splits)
  then have c: "c < length pv" by (simp add: c_def)
  have step: "addInfluences k cps (pv1, es1) = Some (pv', es')"
    using Cons.prems(1) cp r by (simp add: Let_def pv1_def es1_def c_def)
  have l1: "length pv1 = length pv" by (simp add: pv1_def)
  have a1: "\<forall>j<length pv1. length (pv1 ! j) \<le> es1"
    using Cons.prems(2) c by (auto simp: pv1_def es1_def nth_list_update)
  have b1: "es1 = 0 \<or> (\<exists>j<length pv1. length (pv1 ! j) = es1)"
  proof (cases "es \<le> Suc (length (pv ! c))")
    case True
    then have "length (pv1 ! c) = es1" using c by (simp add: pv1_def es1_def max_def)
    then show ?thesis using c l1 by auto
  next
    case False
    then have e: "es1 = es" "es \<noteq> 0" by (simp_all add: es1_def max_def)
    then obtain j where j: "j < length pv" "length (pv ! j) = es" using Cons.prems(3) by auto
    then have "j \<noteq> c" using False by auto
    then have "length (pv1 ! j) = es1" using j e by (simp add: pv1_def)
    then show ?thesis using j l1 by auto
  qed
  from Cons.IH [OF step a1 b1] show ?case using l1 by simp
qed

lemma addInfluences_defined:
  "list_all (\<lambda>(i, w). 0 \<le> i \<and> i < int (length pv)) cps \<Longrightarrow> addInfluences k cps (pv, es) \<noteq> None"
proof (induction cps arbitrary: pv es)
  case Nil
  then show ?case by simp
next
  case (Cons cp cps)
  obtain i w where cp: "cp = (i, w)" by (cases cp)
  have "list_all (\<lambda>(j, w'). 0 \<le> j \<and> j < int (length (pv[nat i := pv ! nat i @ [(k, w)]]))) cps"
    using Cons.prems by simp
  from Cons.IH [OF this] show ?case using Cons.prems cp by (simp add: Let_def)
qed

lemma clusterLoop_inv:
  "clusterLoop rbn clusters (pv, es, joints) = Some (pv', es', joints') \<Longrightarrow>
   \<forall>j<length pv. length (pv ! j) \<le> es \<Longrightarrow> es = 0 \<or> (\<exists>j<length pv. length (pv ! j) = es) \<Longrightarrow>
   length pv' = length pv \<and> (\<forall>j<length pv. length (pv' ! j) \<le> es')
   \<and> (es' = 0 \<or> (\<exists>j<length pv. length (pv' ! j) = es'))"
proof (induction clusters arbitrary: pv es joints)
  case Nil
  then show ?case by simp
next
  case (Cons cluster clusters)
  show ?case
  proof (cases "GetLink cluster")
    case None
    then show ?thesis using Cons by simp
  next
    case (Some link)
    then obtain pv1 es1 tok where
      a: "addInfluences (int (length joints)) (GetControlPoints cluster) (pv, es) = Some (pv1, es1)"
      and r: "clusterLoop rbn clusters (pv1, es1, joints @ [tok]) = Some (pv', es', joints')"
      using Cons.prems(1) by (auto split: option.splits if_splits)
    from addInfluences_inv [OF a Cons.prems(2,3)]
    have i1: "length pv1 = length pv" "\<forall>j<length pv1. length (pv1 ! j) \<le> es1"
      "es1 = 0 \<or> (\<exists>j<length pv1. length (pv1 ! j) = es1)"
      by simp_all
    from Cons.IH [OF r i1(2,3)] show ?thesis using i1(1) by simp
  qed
qed

lemma clusterLoop_defined:
  "list_all (clusterReadable rbn (length pv)) clusters \<Longrightarrow>
   clusterLoop rbn clusters (pv, es, joints) \<noteq> None"
proof (induction clusters arbitrary: pv es joints)
  case Nil
  then show ?case by simp
next
  case (Cons cluster clusters)
  show ?case
  proof (cases "GetLink cluster")
    case None
    then show ?thesis using Cons by simp
  next
    case (Some link)
    then have w: "GetNodeAttribute link \<noteq> None" "skeletonToTokenPath link rbn \<noteq> None"
      "list_all (\<lambda>(i, w). 0 \<le> i \<and> i < int (length pv)) (GetControlPoints cluster)"
      using Cons.prems by (simp_all add: clusterReadable_def)
    from addInfluences_defined [OF w(3)] obtain pv1 es1 where
      a: "addInfluences (int (length joints)) (GetControlPoints cluster) (pv, es) = Some (pv1, es1)"
      by fastforce
    have "length pv1 = length pv"
    proof -
      have "\<And>cps pv es pv1 es1. addInfluences (int (length joints)) cps (pv, es) = Some (pv1, es1)
          \<Longrightarrow> length pv1 = length (pv :: (int \<times> real) list list)"
      proof -
        fix cps pv es pv1 es1
        show "addInfluences (int (length joints)) cps (pv, es) = Some (pv1, es1)
          \<Longrightarrow> length pv1 = length (pv :: (int \<times> real) list list)"
          by (induction cps arbitrary: pv es) (auto simp: Let_def split: if_splits)
      qed
      then show ?thesis using a by blast
    qed
    then have "list_all (clusterReadable rbn (length pv1)) clusters" using Cons.prems by simp
    from Cons.IH [OF this] show ?thesis using Some a w by (auto split: option.splits)
  qed
qed

lemma length_flattenVertex: "length (flattenVertex es v) = es"
  by (simp add: flattenVertex_def)

lemma nth_flattenVertex:
  "length v \<le> es \<Longrightarrow> i < es \<Longrightarrow> flattenVertex es v ! i = (if i < length v then v ! i else (0, 0))"
  by (simp add: flattenVertex_def)

lemma length_concat_uniform:
  "\<forall>x\<in>set xs. length (f x) = m \<Longrightarrow> length (concat (map f xs)) = length xs * m"
  by (induction xs) auto

lemma nth_concat_uniform:
  "\<forall>x\<in>set xs. length (f x) = m \<Longrightarrow> v < length xs \<Longrightarrow> i < m \<Longrightarrow>
   concat (map f xs) ! (v * m + i) = f (xs ! v) ! i"
proof (induction xs arbitrary: v)
  case Nil
  then show ?case by simp
next
  case (Cons x xs)
  show ?case
  proof (cases v)
    case 0
    then show ?thesis using Cons.prems by (simp add: nth_append)
  next
    case (Suc v')
    then have "concat (map f (x # xs)) ! (v * m + i) = concat (map f xs) ! (v' * m + i)"
      using Cons.prems by (simp add: nth_append)
    then show ?thesis using Cons.IH [of v'] Cons.prems Suc by simp
  qed
qed

lemma flattenInfluences_shape:
  assumes "\<forall>v<length pv. length (pv ! v) \<le> es"
  shows "length (fst (flattenInfluences es pv)) = length pv * es
    \<and> length (snd (flattenInfluences es pv)) = length pv * es
    \<and> (\<forall>v<length pv. \<forall>i<es.
          fst (flattenInfluences es pv) ! (v * es + i)
            = (if i < length (pv ! v) then fst (pv ! v ! i) else 0)
        \<and> snd (flattenInfluences es pv) ! (v * es + i)
            = (if i < length (pv ! v) then snd (pv ! v ! i) else 0))"
proof -
  define flat where "flat = concat (map (flattenVertex es) pv)"
  have u: "\<forall>x\<in>set pv. length (flattenVertex es x) = es" by (simp add: length_flattenVertex)
  have len: "length flat = length pv * es"
    unfolding flat_def using length_concat_uniform [OF u] .
  have nth: "flat ! (v * es + i) = (if i < length (pv ! v) then pv ! v ! i else (0, 0))"
    if "v < length pv" "i < es" for v i
    unfolding flat_def using nth_concat_uniform [OF u that] nth_flattenVertex assms that by simp
  have bound: "v * es + i < length flat" if "v < length pv" "i < es" for v i
  proof -
    have "v * es + i < v * es + es" using that by simp
    also have "\<dots> = Suc v * es" by simp
    also have "\<dots> \<le> length pv * es" using that by (intro mult_le_mono1) simp
    finally show ?thesis using len by simp
  qed
  have f: "flattenInfluences es pv = (map fst flat, map snd flat)"
    by (simp add: flattenInfluences_def flat_def Let_def)
  show ?thesis
    unfolding f using len nth bound by (auto simp: nth_map)
qed

lemma example_skin_binding:
  "getBindingData keepWeights keepInfluences example_skin example_skinned_mesh
     = Some \<lparr>names = [''J'', ''J/K''],
              perVertexInfluences = [0, 0, 0, 1, 1, 0, 0, 0],
              perVertexWeights = [1, 0, 1 / 2, 1 / 2, 1, 0, 0, 0],
              influencesPerVertex = 2,
              pathToSkeleton = SdfPath True [''ROOT'', ''J''] None\<rparr>"
  by (simp add: getBindingData_def example_skin_def example_skinned_mesh_def example_joint_J_def
      example_joint_K_def GetChild_def GetNodeName_def GetNodeAttribute_def
      skeletonToTokenPath_def AppendChild_def AppendPath_def SdfPath_name_def GetAsToken_def
      flattenInfluences_def flattenVertex_def keepWeights_def keepInfluences_def ROOT_def
      Let_def upt_rec eval_nat_numeral)

lemma flattenVertex_append:
  "length v \<le> es \<Longrightarrow> flattenVertex es v = v @ replicate (es - length v) (0, 0)"
  by (rule nth_equalityI) (auto simp: length_flattenVertex nth_flattenVertex nth_append)

lemma component_concat:
  "\<forall>x\<in>set xs. length (f x) = m \<Longrightarrow> v < length xs \<Longrightarrow>
   take m (drop (v * m) (concat (map f xs))) = f (xs ! v)"
proof (induction xs arbitrary: v)
  case Nil
  then show ?case by simp
next
  case (Cons x xs)
  show ?case
  proof (cases v)
    case 0
    then show ?thesis using Cons.prems by simp
  next
    case (Suc v')
    then show ?thesis using Cons.IH [of v'] Cons.prems by simp
  qed
qed

lemma foldl_sum: "foldl (\<lambda>acc w. acc + w) a ws = a + sum_list (ws :: real list)"
  by (induction ws arbitrary: a) simp_all

lemma normalizeWeightSet_map:
  "\<exists>g. normalizeWeightSet ws = map g ws \<and> g 0 = 0
     \<and> ((\<forall>w\<in>set ws. 0 \<le> w) \<longrightarrow> (\<forall>w. 0 \<le> w \<longrightarrow> 0 \<le> g w))"
proof (cases "\<bar>sum_list ws\<bar> > FLT_EPSILON")
  case True
  have "(\<forall>w\<in>set ws. 0 \<le> w) \<longrightarrow> (\<forall>w. 0 \<le> w \<longrightarrow> 0 \<le> w / sum_list ws)"
    by (simp add: sum_list_nonneg)
  then show ?thesis
    using True by (intro exI [of _ "\<lambda>w. w / sum_list ws"]) (simp add: normalizeWeightSet_def foldl_sum)
next
  case False
  then show ?thesis
    by (intro exI [of _ "\<lambda>w. 0"]) (simp add: normalizeWeightSet_def foldl_sum)
qed

lemma length_normalizeWeightSet: "length (normalizeWeightSet ws) = length ws"
  by (simp add: normalizeWeightSet_def Let_def)

lemma sorted_least_first:
  fixes ys :: "('a :: linorder) list"
  assumes "sorted ys" "\<forall>y\<in>set ys. z \<le> y" "i < length (filter (\<lambda>y. y = z) ys)"
  shows "ys ! i = z"
proof (rule ccontr)
  assume ne: "ys ! i \<noteq> z"
  have i: "i < length ys"
    using length_filter_le [of "\<lambda>y. y = z" ys] assms(3) by linarith
  then have "z < ys ! i" using assms(2) ne by (metis nth_mem order_le_imp_less_or_eq)
  have "\<forall>y\<in>set (drop i ys). y \<noteq> z"
  proof
    fix y assume "y \<in> set (drop i ys)"
    then obtain j where "j < length (drop i ys)" "y = drop i ys ! j" by (metis in_set_conv_nth)
    then have "y = ys ! (i + j)" "i + j < length ys" by simp_all
    then have "ys ! i \<le> y" using assms(1) by (simp add: sorted_nth_mono)
    then show "y \<noteq> z" using \<open>z < ys ! i\<close> by auto
  qed
  then have "filter (\<lambda>y. y = z) (drop i ys) = []" by (simp add: filter_empty_conv)
  then have "length (filter (\<lambda>y. y = z) ys) = length (filter (\<lambda>y. y = z) (take i ys))"
    by (metis append_Nil2 append_take_drop_id filter_append)
  also have "\<dots> \<le> i" using length_filter_le [of "\<lambda>y. y = z" "take i ys"] by simp
  finally show False using assms(3) by simp
qed

lemma descending_least_last:
  fixes ps :: "('a :: linorder) list"
  assumes "\<forall>p\<in>set ps. z \<le> p" "length ps - i \<le> length (filter (\<lambda>p. p = z) ps)" "i < length ps"
  shows "rev (sort ps) ! i = z"
proof -
  have f: "length (filter (\<lambda>p. p = z) (sort ps)) = length (filter (\<lambda>p. p = z) ps)"
    by (simp add: filter_sort)
  have "rev (sort ps) ! i = sort ps ! (length ps - Suc i)"
    using assms(3) by (simp add: rev_nth)
  also have "\<dots> = z"
    by (rule sorted_least_first) (use assms f in auto)
  finally show ?thesis .
qed


lemma components_concat:
  assumes "\<forall>x\<in>set xs. length (f x) = m" "0 < m"
  shows "map (\<lambda>i. g (take m (drop (i * m) (concat (map f xs)))))
           [0..<length (concat (map f xs)) div m] = map (\<lambda>x. g (f x)) xs"
proof -
  have "length (concat (map f xs)) = length xs * m"
    using length_concat_uniform [OF assms(1)] .
  then have d: "length (concat (map f xs)) div m = length xs" using assms(2) by simp
  show ?thesis
    unfolding d by (rule nth_equalityI) (simp_all add: component_concat [OF assms(1)])
qed

lemma components_concat2:
  assumes "\<forall>x\<in>set xs. length (f x) = m" "\<forall>x\<in>set xs. length (f' x) = m" "0 < m"
  shows "map (\<lambda>i. g (take m (drop (i * m) (concat (map f xs))))
                     (take m (drop (i * m) (concat (map f' xs)))))
           [0..<length (concat (map f' xs)) div m] = map (\<lambda>x. g (f x) (f' x)) xs"
proof -
  have "length (concat (map f' xs)) = length xs * m"
    using length_concat_uniform [OF assms(2)] .
  then have d: "length (concat (map f' xs)) div m = length xs" using assms(3) by simp
  show ?thesis
    unfolding d
    by (rule nth_equalityI)
      (simp_all add: component_concat [OF assms(1)] component_concat [OF assms(2)])
qed

lemma length_flatIndices: "length (flatIndices es x) = es"
  by (simp add: flatIndices_def length_flattenVertex)

lemma length_flatWeights: "length (flatWeights es x) = es"
  by (simp add: flatWeights_def length_normalizeWeightSet length_flattenVertex)

lemma flattened_indices: "fst (flattenInfluences es pv) = concat (map (flatIndices es) pv)"
  by (simp add: flattenInfluences_def Let_def map_concat comp_def flatIndices_def [abs_def])

lemma normalized_weights:
  "UsdSkelNormalizeWeights (int es) (snd (flattenInfluences es pv)) = concat (map (flatWeights es) pv)"
proof (cases "es = 0")
  case True
  have "flattenVertex es = (\<lambda>x. [])" using True by (simp add: flattenVertex_def fun_eq_iff)
  then have a: "snd (flattenInfluences es pv) = []"
    by (simp add: flattenInfluences_def Let_def)
  have "flatWeights es x = []" for x
    using True by (simp add: flatWeights_def normalizeWeightSet_def flattenVertex_def)
  then have b: "concat (map (flatWeights es) pv) = []" by simp
  show ?thesis
    unfolding a b using True by (simp add: UsdSkelNormalizeWeights_def validateArrayShape_def)
next
  case False
  define f where "f = (\<lambda>x. map snd (flattenVertex es x))"
  have w: "snd (flattenInfluences es pv) = concat (map f pv)"
    by (simp add: flattenInfluences_def Let_def map_concat comp_def f_def)
  have u: "\<forall>x\<in>set pv. length (f x) = es" by (simp add: f_def length_flattenVertex)
  have l: "length (concat (map f pv)) = length pv * es" using length_concat_uniform [OF u] .
  have v: "validateArrayShape (length (concat (map f pv))) (int es)"
    using False by (simp add: validateArrayShape_def l)
  show ?thesis
    unfolding w UsdSkelNormalizeWeights_def component_def
    using v components_concat [OF u, of normalizeWeightSet] False
    by (simp add: flatWeights_def [abs_def] f_def)
qed

lemma length_vertexInfluences: "length (vertexInfluences es x) = es"
  by (simp add: vertexInfluences_def sortInfluenceSet_def length_flatIndices length_flatWeights)

lemma sorted_influences:
  "UsdSkelSortInfluences (int es) (fst (flattenInfluences es pv))
       (UsdSkelNormalizeWeights (int es) (snd (flattenInfluences es pv)))
     = (map snd (concat (map (vertexInfluences es) pv)),
        map fst (concat (map (vertexInfluences es) pv)))"
proof -
  have u: "\<forall>x\<in>set pv. length (flatIndices es x) = es" by (simp add: length_flatIndices)
  have u': "\<forall>x\<in>set pv. length (flatWeights es x) = es" by (simp add: length_flatWeights)
  have l: "length (concat (map (flatIndices es) pv)) = length pv * es"
    using length_concat_uniform [OF u] .
  have l': "length (concat (map (flatWeights es) pv)) = length pv * es"
    using length_concat_uniform [OF u'] .
  show ?thesis
  proof (cases "es < 2")
    case True
    have z: "map snd (zip (flatWeights es x) (flatIndices es x)) = flatIndices es x
        \<and> map fst (zip (flatWeights es x) (flatIndices es x)) = flatWeights es x" for x
      by (simp add: length_flatIndices length_flatWeights)
    show ?thesis
      unfolding flattened_indices normalized_weights UsdSkelSortInfluences_def
      using True by (simp add: vertexInfluences_def [abs_def] map_concat comp_def z l l')
  next
    case False
    then have v: "validateArrayShape (length (concat (map (flatWeights es) pv))) (int es)"
      by (simp add: validateArrayShape_def l')
    have "0 < es" using False by simp
    from components_concat2 [OF u u' this, of sortInfluenceSet]
    show ?thesis
      unfolding flattened_indices normalized_weights UsdSkelSortInfluences_def component_def
      using False v by (simp add: vertexInfluences_def [abs_def] l l' Let_def)
  qed
qed

lemma set_vertexInfluences_weights:
  "set (map fst (vertexInfluences es x)) = set (flatWeights es x)"
proof -
  have "map fst (zip (flatWeights es x) (flatIndices es x)) = flatWeights es x"
    by (simp add: length_flatIndices length_flatWeights)
  then have "fst ` set (zip (flatWeights es x) (flatIndices es x)) = set (flatWeights es x)"
    by (metis set_map)
  then show ?thesis by (simp add: vertexInfluences_def sortInfluenceSet_def)
qed

lemma flatWeights_nonneg:
  assumes "length x \<le> es" "\<forall>p\<in>set x. 0 \<le> snd p"
  shows "\<forall>w\<in>set (flatWeights es x). 0 \<le> w"
proof -
  define ws where "ws = map snd (flattenVertex es x)"
  obtain g where g: "normalizeWeightSet ws = map g ws"
      "(\<forall>w\<in>set ws. 0 \<le> w) \<longrightarrow> (\<forall>w. 0 \<le> w \<longrightarrow> 0 \<le> g w)"
    using normalizeWeightSet_map [of ws] by blast
  have n: "\<forall>w\<in>set ws. 0 \<le> w"
    using assms(2) by (auto simp: ws_def flattenVertex_append [OF assms(1)])
  then have "\<forall>w\<in>set (map g ws). 0 \<le> w" using g(2) by auto
  then show ?thesis by (simp add: flatWeights_def ws_def [symmetric] g(1))
qed

lemma padding_last:
  assumes "length x \<le> es" "\<forall>p\<in>set x. 0 \<le> fst p" "\<forall>w\<in>set (flatWeights es x). 0 \<le> w"
    and "length x \<le> i" "i < es"
  shows "vertexInfluences es x ! i = (0, 0)"
proof -
  define m where "m = es - length x"
  have fl: "flattenVertex es x = x @ replicate m (0, 0)"
    unfolding m_def using flattenVertex_append [OF assms(1)] .
  obtain g where g: "normalizeWeightSet (map snd x @ replicate m 0) = map g (map snd x @ replicate m 0)"
      "g 0 = 0"
    using normalizeWeightSet_map [of "map snd x @ replicate m 0"] by blast
  define ps where "ps = zip (flatWeights es x) (flatIndices es x)"
  have fw: "flatWeights es x = map g (map snd x @ replicate m 0)"
    using g(1) by (simp add: flatWeights_def fl)
  have ps: "ps = map (\<lambda>p. (g (snd p), fst p)) x @ replicate m (0, 0)"
    unfolding ps_def fw flatIndices_def fl
    by (simp add: g(2) zip_map_map zip_same_conv_map comp_def)
  have lp: "length ps = es" by (simp add: ps_def length_flatIndices length_flatWeights)
  have fi: "\<forall>j\<in>set (flatIndices es x). 0 \<le> j"
    using assms(2) by (auto simp: flatIndices_def fl)
  have lo: "\<forall>p\<in>set ps. (0, 0) \<le> p"
  proof
    fix p assume "p \<in> set ps"
    then have "fst p \<in> set (flatWeights es x)" "snd p \<in> set (flatIndices es x)"
      unfolding ps_def by (metis prod.collapse set_zip_leftD, metis prod.collapse set_zip_rightD)
    then have "0 \<le> fst p" "0 \<le> snd p" using assms(3) fi by simp_all
    then show "(0, 0) \<le> p" by (cases p) auto
  qed
  have "m \<le> length (filter (\<lambda>p. p = (0, 0)) (replicate m (0 :: real, 0 :: int)))" by simp
  also have "\<dots> \<le> length (filter (\<lambda>p. p = (0, 0)) ps)" by (simp add: ps)
  finally have cnt: "length ps - i \<le> length (filter (\<lambda>p. p = (0, 0)) ps)"
    using assms(4) by (simp add: lp m_def)
  show ?thesis
  proof (cases "es < 2")
    case True
    have "ps ! i = (0, 0)" using assms(4,5) by (simp add: ps nth_append m_def)
    then show ?thesis using True by (simp add: vertexInfluences_def ps_def)
  next
    case False
    have "rev (sort ps) ! i = (0, 0)"
      using descending_least_last [OF lo cnt] assms(5) lp by simp
    then show ?thesis using False by (simp add: vertexInfluences_def sortInfluenceSet_def ps_def)
  qed
qed

lemma addInfluences_indices:
  "addInfluences k cps (pv, es) = Some (pv', es') \<Longrightarrow> 0 \<le> k \<Longrightarrow>
   \<forall>x\<in>set pv. \<forall>p\<in>set x. 0 \<le> fst p \<Longrightarrow> \<forall>x\<in>set pv'. \<forall>p\<in>set x. 0 \<le> fst p"
proof (induction cps arbitrary: pv es)
  case Nil
  then show ?case by simp
next
  case (Cons cp cps)
  obtain i w where cp: "cp = (i, w)" by (cases cp)
  define pv1 where "pv1 = pv[nat i := pv ! nat i @ [(k, w)]]"
  have r: "0 \<le> i" "i < int (length pv)"
    using Cons.prems(1) cp by (auto split: if_splits)
  have step: "addInfluences k cps (pv1, max (Suc (length (pv ! nat i))) es) = Some (pv', es')"
    using Cons.prems(1) cp r by (simp add: Let_def pv1_def)
  have "pv ! nat i \<in> set pv" using r by simp
  then have "\<forall>p\<in>set (pv ! nat i @ [(k, w)]). 0 \<le> fst p"
    using Cons.prems(2,3) by auto
  moreover have "set pv1 \<subseteq> insert (pv ! nat i @ [(k, w)]) (set pv)"
    unfolding pv1_def by (rule set_update_subset_insert)
  ultimately have "\<forall>x\<in>set pv1. \<forall>p\<in>set x. 0 \<le> fst p"
    using Cons.prems(3) by blast
  from Cons.IH [OF step Cons.prems(2) this] show ?case .
qed

lemma clusterLoop_indices:
  "clusterLoop rbn clusters (pv, es, joints) = Some (pv', es', joints') \<Longrightarrow>
   \<forall>x\<in>set pv. \<forall>p\<in>set x. 0 \<le> fst p \<Longrightarrow> \<forall>x\<in>set pv'. \<forall>p\<in>set x. 0 \<le> fst p"
proof (induction clusters arbitrary: pv es joints)
  case Nil
  then show ?case by simp
next
  case (Cons cluster clusters)
  show ?case
  proof (cases "GetLink cluster")
    case None
    then show ?thesis using Cons by simp
  next
    case (Some link)
    then obtain pv1 es1 tok where
      a: "addInfluences (int (length joints)) (GetControlPoints cluster) (pv, es) = Some (pv1, es1)"
      and r: "clusterLoop rbn clusters (pv1, es1, joints @ [tok]) = Some (pv', es', joints')"
      using Cons.prems(1) by (auto split: option.splits if_splits)
    from addInfluences_indices [OF a _ Cons.prems(2)]
    have "\<forall>x\<in>set pv1. \<forall>p\<in>set x. 0 \<le> fst p" by simp
    from Cons.IH [OF r this] show ?thesis .
  qed
qed

lemma getBindingData_defined:
  assumes "GetLink (hd skin) = Some link"
    and "findRootBone (ancestors link) (subtree link) = Some rootBone"
    and "list_all (clusterReadable (GetNodeName rootBone) (GetControlPointsCount mesh)) skin"
    and "skin \<noteq> []"
  shows "getBindingData nrm srt skin mesh \<noteq> None"
proof -
  obtain firstCluster rest where sk: "skin = firstCluster # rest"
    using assms(4) by (cases skin) auto
  define n where "n = GetControlPointsCount mesh"
  have "list_all (clusterReadable (GetNodeName rootBone) (length (replicate n ([] :: (int \<times> real) list)))) skin"
    using assms(3) by (simp add: n_def)
  from clusterLoop_defined [OF this, of 0 "[]"] obtain st where
    "clusterLoop (GetNodeName rootBone) skin (replicate n [], 0, []) = Some st"
    by auto
  then show ?thesis
    using assms(1,2) sk
    by (auto simp: getBindingData_def n_def Let_def simp del: clusterLoop.simps split: prod.splits)
qed

lemma getBindingData_arrays:
  assumes "skin \<noteq> []" and "getBindingData nrm srt skin mesh = Some bd"
  shows "\<exists>link rootBone pv es joints.
      GetLink (hd skin) = Some link
    \<and> findRootBone (ancestors link) (subtree link) = Some rootBone
    \<and> clusterLoop (GetNodeName rootBone) skin (replicate (GetControlPointsCount mesh) [], 0, [])
        = Some (pv, es, joints)
    \<and> length pv = GetControlPointsCount mesh
    \<and> (\<forall>v<GetControlPointsCount mesh. length (pv ! v) \<le> es)
    \<and> (es = 0 \<or> (\<exists>v<GetControlPointsCount mesh. length (pv ! v) = es))
    \<and> (\<forall>x\<in>set pv. \<forall>p\<in>set x. 0 \<le> fst p)
    \<and> influencesPerVertex bd = int es
    \<and> (perVertexInfluences bd, perVertexWeights bd)
         = srt (int es) (fst (flattenInfluences es pv)) (nrm (int es) (snd (flattenInfluences es pv)))"
proof -
  obtain firstCluster rest where sk: "skin = firstCluster # rest"
    using assms(1) by (cases skin) auto
  define n where "n = GetControlPointsCount mesh"
  obtain link rootBone pv es joints where
    lr: "GetLink (hd skin) = Some link" "findRootBone (ancestors link) (subtree link) = Some rootBone"
    and cl: "clusterLoop (GetNodeName rootBone) skin (replicate n [], 0, []) = Some (pv, es, joints)"
    and bd: "(let (jointIndices, jointWeights) = flattenInfluences es pv;
                         influencesPerComponents = int es;
                         jointWeights = nrm influencesPerComponents jointWeights;
                         (jointIndices, jointWeights) =
                           srt influencesPerComponents jointIndices jointWeights;
                         jointPath = skeletonPathLoop (ancestors rootBone)
                                       (SdfPath_name (GetNodeName rootBone))
                     in Some \<lparr>names = joints, perVertexInfluences = jointIndices,
                               perVertexWeights = jointWeights,
                               influencesPerVertex = influencesPerComponents,
                               pathToSkeleton = AppendPath ROOT jointPath\<rparr>) = Some bd"
    using sk assms(2)
    by (auto simp: getBindingData_def n_def simp del: clusterLoop.simps split: option.splits)
  have i0: "\<forall>j<length (replicate n ([] :: (int \<times> real) list)). length (replicate n ([] :: (int \<times> real) list) ! j) \<le> 0"
    by simp
  from clusterLoop_inv [OF cl i0]
  have inv: "length pv = n" "\<forall>v<n. length (pv ! v) \<le> es" "es = 0 \<or> (\<exists>v<n. length (pv ! v) = es)"
    by simp_all
  have "\<forall>x\<in>set (replicate n ([] :: (int \<times> real) list)). \<forall>p\<in>set x. 0 \<le> fst p" by simp
  from clusterLoop_indices [OF cl this]
  have idx: "\<forall>x\<in>set pv. \<forall>p\<in>set x. 0 \<le> fst p" .
  have fin: "(perVertexInfluences bd, perVertexWeights bd)
                = srt (int es) (fst (flattenInfluences es pv))
                    (nrm (int es) (snd (flattenInfluences es pv)))"
    "influencesPerVertex bd = int es"
    using bd by (auto simp: Let_def split: prod.splits)
  show ?thesis
    unfolding n_def [symmetric]
    using lr cl inv idx fin by blast
qed

lemma returned_slot:
  assumes "v < length pv" "i < es"
  shows "map snd (concat (map (vertexInfluences es) pv)) ! (v * es + i)
           = snd (vertexInfluences es (pv ! v) ! i)
       \<and> map fst (concat (map (vertexInfluences es) pv)) ! (v * es + i)
           = fst (vertexInfluences es (pv ! v) ! i)
       \<and> length (concat (map (vertexInfluences es) pv)) = length pv * es"
proof -
  have u: "\<forall>x\<in>set pv. length (vertexInfluences es x) = es"
    by (simp add: length_vertexInfluences)
  have len: "length (concat (map (vertexInfluences es) pv)) = length pv * es"
    using length_concat_uniform [OF u] .
  have "v * es + i < v * es + es" using assms(2) by simp
  also have "\<dots> = Suc v * es" by simp
  also have "\<dots> \<le> length pv * es" using assms(1) by (intro mult_le_mono1) simp
  finally have b: "v * es + i < length (concat (map (vertexInfluences es) pv))"
    using len by simp
  show ?thesis
    using nth_concat_uniform [OF u assms] b len by (simp add: nth_map)
qed

lemma example_skin_loop:
  "clusterLoop ''J'' example_skin (replicate 4 [], 0, [])
     = Some ([[(0, 1)], [(0, 1 / 2), (1, 1 / 2)], [(1, 1)], []], 2, [''J'', ''J/K''])"
  by (simp add: example_skin_def example_joint_J_def
      example_joint_K_def GetChild_def GetNodeName_def GetNodeAttribute_def
      skeletonToTokenPath_def AppendChild_def AppendPath_def SdfPath_name_def GetAsToken_def
      Let_def eval_nat_numeral)

lemma example_skin_signed_loop:
  "clusterLoop ''J'' example_skin_signed (replicate 2 [], 0, [])
     = Some ([[(0, 1 / 2), (1, 1 / 4), (2, 1 / 4)], [(0, 3 / 2), (1, - (1 / 2))]], 3,
             [''J'', ''J/K'', ''J/K/L''])"
  by (simp add: example_skin_signed_def example_joint_chain_def
      GetChild_def GetNodeName_def GetNodeAttribute_def
      skeletonToTokenPath_def AppendChild_def AppendPath_def SdfPath_name_def GetAsToken_def
      Let_def eval_nat_numeral)

lemma example_vertexInfluences:
  "vertexInfluences 2 [(0, 1)] = [(1, 0), (0, 0)]"
  "vertexInfluences 2 [(0, 1 / 2), (1, 1 / 2)] = [(1 / 2, 1), (1 / 2, 0)]"
  "vertexInfluences 2 [(1, 1)] = [(1, 1), (0, 0)]"
  "vertexInfluences 2 [] = [(0, 0), (0, 0)]"
  "vertexInfluences 3 [(0, 1 / 2), (1, 1 / 4), (2, 1 / 4)] = [(1 / 2, 0), (1 / 4, 2), (1 / 4, 1)]"
  "vertexInfluences 3 [(0, 3 / 2), (1, - (1 / 2))] = [(3 / 2, 0), (0, 0), (- (1 / 2), 1)]"
  by (simp_all add: vertexInfluences_def sortInfluenceSet_def flatWeights_def flatIndices_def
      normalizeWeightSet_def FLT_EPSILON_def flattenVertex_def Let_def upt_rec eval_nat_numeral)


lemma getBindingData_run:
  assumes "skin \<noteq> []" and "GetLink (hd skin) = Some link"
    and "findRootBone (ancestors link) (subtree link) = Some rootBone"
    and "clusterLoop (GetNodeName rootBone) skin (replicate (GetControlPointsCount mesh) [], 0, [])
           = Some (pv, es, joints)"
  shows "getBindingData nrm srt skin mesh
    = Some \<lparr>names = joints,
             perVertexInfluences =
               fst (srt (int es) (fst (flattenInfluences es pv)) (nrm (int es) (snd (flattenInfluences es pv)))),
             perVertexWeights =
               snd (srt (int es) (fst (flattenInfluences es pv)) (nrm (int es) (snd (flattenInfluences es pv)))),
             influencesPerVertex = int es,
             pathToSkeleton = AppendPath ROOT
               (skeletonPathLoop (ancestors rootBone) (SdfPath_name (GetNodeName rootBone)))\<rparr>"
proof -
  obtain firstCluster rest where sk: "skin = firstCluster # rest"
    using assms(1) by (cases skin) auto
  have l: "GetLink firstCluster = Some link" using assms(2) by (simp add: sk)
  show ?thesis
    unfolding getBindingData_def
    using assms(3,4) l
    by (simp add: sk Let_def split_beta del: clusterLoop.simps)
qed

lemma example_skin_binding_usd:
  "getBindingData UsdSkelNormalizeWeights UsdSkelSortInfluences example_skin example_skinned_mesh
     = Some \<lparr>names = [''J'', ''J/K''],
              perVertexInfluences = [0, 0, 1, 0, 1, 0, 0, 0],
              perVertexWeights = [1, 0, 1 / 2, 1 / 2, 1, 0, 0, 0],
              influencesPerVertex = 2,
              pathToSkeleton = SdfPath True [''ROOT'', ''J''] None\<rparr>"
proof -
  have e: "example_skin \<noteq> []" by (simp add: example_skin_def)
  have l: "GetLink (hd example_skin) = Some example_joint_J" by (simp add: example_skin_def)
  have r: "findRootBone (ancestors example_joint_J) (subtree example_joint_J) = Some example_joint_J"
    by (simp add: example_joint_J_def)
  have n: "GetNodeName example_joint_J = ''J''" "GetControlPointsCount example_skinned_mesh = 4"
    by (simp_all add: example_joint_J_def GetNodeName_def example_skinned_mesh_def)
  have p: "skeletonPathLoop (ancestors example_joint_J) (SdfPath_name ''J'') = SdfPath_name ''J''"
    by (simp add: example_joint_J_def)
  have c: "clusterLoop (GetNodeName example_joint_J) example_skin
      (replicate (GetControlPointsCount example_skinned_mesh) [], 0, [])
     = Some ([[(0, 1)], [(0, 1 / 2), (1, 1 / 2)], [(1, 1)], []], 2, [''J'', ''J/K''])"
    unfolding n using example_skin_loop .
  show ?thesis
    unfolding getBindingData_run [OF e l r c] sorted_influences
    by (simp add: n p [unfolded SdfPath_name_def] example_vertexInfluences AppendPath_def
        SdfPath_name_def ROOT_def)
qed

lemma example_skin_signed_binding:
  "getBindingData UsdSkelNormalizeWeights UsdSkelSortInfluences example_skin_signed
       example_mesh_two_points
     = Some \<lparr>names = [''J'', ''J/K'', ''J/K/L''],
              perVertexInfluences = [0, 2, 1, 0, 0, 1],
              perVertexWeights = [1 / 2, 1 / 4, 1 / 4, 3 / 2, 0, - (1 / 2)],
              influencesPerVertex = 3,
              pathToSkeleton = SdfPath True [''ROOT'', ''J''] None\<rparr>"
proof -
  have e: "example_skin_signed \<noteq> []" by (simp add: example_skin_signed_def)
  have l: "GetLink (hd example_skin_signed) = Some example_joint_chain"
    by (simp add: example_skin_signed_def)
  have r: "findRootBone (ancestors example_joint_chain) (subtree example_joint_chain)
      = Some example_joint_chain"
    by (simp add: example_joint_chain_def)
  have n: "GetNodeName example_joint_chain = ''J''" "GetControlPointsCount example_mesh_two_points = 2"
    by (simp_all add: example_joint_chain_def GetNodeName_def example_mesh_two_points_def)
  have p: "skeletonPathLoop (ancestors example_joint_chain) (SdfPath_name ''J'') = SdfPath_name ''J''"
    by (simp add: example_joint_chain_def)
  have c: "clusterLoop (GetNodeName example_joint_chain) example_skin_signed
      (replicate (GetControlPointsCount example_mesh_two_points) [], 0, [])
     = Some ([[(0, 1 / 2), (1, 1 / 4), (2, 1 / 4)], [(0, 3 / 2), (1, - (1 / 2))]], 3,
             [''J'', ''J/K'', ''J/K/L''])"
    unfolding n using example_skin_signed_loop .
  show ?thesis
    unfolding getBindingData_run [OF e l r c] sorted_influences
    by (simp add: n p [unfolded SdfPath_name_def] example_vertexInfluences AppendPath_def
        SdfPath_name_def ROOT_def)
qed


text \<open>
C7, as stated, fails for the arrays \<open>getBindingData\<close> returns. The flattening loop puts
  the pair (0, 0.0) in every slot of a control point beyond its own influences, but the
  arrays are then normalised and sorted, run by run, by descending weight. In the skin with
  a negative weight control point 1 has two influences of three slots: as flattened its last
  slot (position 1 * 3 + 2) holds index 0 and weight 0, as returned it holds joint index 1
  and weight -1/2, and the padding stands in the slot before it.
\<close>

theorem padding_displaced_by_sort:
  "clusterLoop ''J'' example_skin_signed (replicate 2 [], 0, [])
     = Some ([[(0, 1 / 2), (1, 1 / 4), (2, 1 / 4)], [(0, 3 / 2), (1, - (1 / 2))]], 3,
             [''J'', ''J/K'', ''J/K/L''])
   \<and> flattenInfluences 3 [[(0, 1 / 2), (1, 1 / 4), (2, 1 / 4)], [(0, 3 / 2), (1, - (1 / 2))]]
     = ([0, 1, 2, 0, 1, 0], [1 / 2, 1 / 4, 1 / 4, 3 / 2, - (1 / 2), 0])
   \<and> getBindingData UsdSkelNormalizeWeights UsdSkelSortInfluences example_skin_signed
       example_mesh_two_points
     = Some \<lparr>names = [''J'', ''J/K'', ''J/K/L''],
              perVertexInfluences = [0, 2, 1, 0, 0, 1],
              perVertexWeights = [1 / 2, 1 / 4, 1 / 4, 3 / 2, 0, - (1 / 2)],
              influencesPerVertex = 3,
              pathToSkeleton = SdfPath True [''ROOT'', ''J''] None\<rparr>
   \<and> perVertexInfluences
       (the (getBindingData UsdSkelNormalizeWeights UsdSkelSortInfluences example_skin_signed
          example_mesh_two_points)) ! (1 * 3 + 2) = 1
   \<and> perVertexWeights
       (the (getBindingData UsdSkelNormalizeWeights UsdSkelSortInfluences example_skin_signed
          example_mesh_two_points)) ! (1 * 3 + 2) = - (1 / 2)"
proof -
  have "flattenInfluences 3 [[(0, 1 / 2), (1, 1 / 4), (2, 1 / 4)], [(0, 3 / 2), (1, - (1 / 2))]]
     = ([0, 1, 2, 0, 1, 0], [1 / 2, 1 / 4, 1 / 4, 3 / 2, - (1 / 2), 0 :: real])"
    by (simp add: flattenInfluences_def flattenVertex_def Let_def upt_rec eval_nat_numeral)
  then show ?thesis
    using example_skin_signed_loop example_skin_signed_binding by simp
qed

text \<open>
C7, amended. For a skin with at least one cluster and a mesh with n control points:
  \<open>getBindingData\<close> returns whenever the first cluster's link has a topmost joint and
  every cluster is readable; and whenever it returns, with pv the influence lists recorded
  per control point, influencesPerVertex is the greatest length of a list of pv (0 when
  there is none) and the returned joint-index and joint-weight arrays each have length
  n * influencesPerVertex. As flattened, vertex-major, the arrays hold for control point v
  at slot i (position v * influencesPerVertex + i) the i-th influence of v, or joint index 0
  and weight 0 when v has no i-th influence. The returned arrays are the flattened ones
  after \<open>UsdSkelNormalizeWeights\<close> and \<open>UsdSkelSortInfluences\<close>: in them
  every slot of a control point beyond its own influences holds joint index 0 and weight 0
  whenever none of the weights returned for that control point is negative; and none is
  whenever none of the weights recorded for it is negative.
\<close>

theorem binding_arrays_rectangular:
  assumes "skin \<noteq> []"
  shows "(\<forall>link rootBone. GetLink (hd skin) = Some link
            \<and> findRootBone (ancestors link) (subtree link) = Some rootBone
            \<and> list_all (clusterReadable (GetNodeName rootBone) (GetControlPointsCount mesh)) skin
            \<longrightarrow> getBindingData UsdSkelNormalizeWeights UsdSkelSortInfluences skin mesh \<noteq> None)
    \<and> (\<forall>bd. getBindingData UsdSkelNormalizeWeights UsdSkelSortInfluences skin mesh = Some bd \<longrightarrow>
          (\<exists>link rootBone pv es joints.
              GetLink (hd skin) = Some link
            \<and> findRootBone (ancestors link) (subtree link) = Some rootBone
            \<and> clusterLoop (GetNodeName rootBone) skin
                  (replicate (GetControlPointsCount mesh) [], 0, [])
                = Some (pv, es, joints)
            \<and> length pv = GetControlPointsCount mesh
            \<and> (\<forall>v<GetControlPointsCount mesh. length (pv ! v) \<le> es)
            \<and> (es = 0 \<or> (\<exists>v<GetControlPointsCount mesh. length (pv ! v) = es))
            \<and> influencesPerVertex bd = int es
            \<and> length (perVertexInfluences bd) = GetControlPointsCount mesh * es
            \<and> length (perVertexWeights bd) = GetControlPointsCount mesh * es
            \<and> (perVertexInfluences bd, perVertexWeights bd)
                = UsdSkelSortInfluences (int es) (fst (flattenInfluences es pv))
                    (UsdSkelNormalizeWeights (int es) (snd (flattenInfluences es pv)))
            \<and> length (fst (flattenInfluences es pv)) = GetControlPointsCount mesh * es
            \<and> length (snd (flattenInfluences es pv)) = GetControlPointsCount mesh * es
            \<and> (\<forall>v<GetControlPointsCount mesh. \<forall>i<es.
                  fst (flattenInfluences es pv) ! (v * es + i)
                    = (if i < length (pv ! v) then fst (pv ! v ! i) else 0)
                \<and> snd (flattenInfluences es pv) ! (v * es + i)
                    = (if i < length (pv ! v) then snd (pv ! v ! i) else 0))
            \<and> (\<forall>v<GetControlPointsCount mesh.
                  (\<forall>i<es. 0 \<le> perVertexWeights bd ! (v * es + i)) \<longrightarrow>
                  (\<forall>i<es. length (pv ! v) \<le> i \<longrightarrow>
                      perVertexInfluences bd ! (v * es + i) = 0
                    \<and> perVertexWeights bd ! (v * es + i) = 0))
            \<and> (\<forall>v<GetControlPointsCount mesh. (\<forall>p\<in>set (pv ! v). 0 \<le> snd p) \<longrightarrow>
                  (\<forall>i<es. 0 \<le> perVertexWeights bd ! (v * es + i)))))"
proof (intro conjI allI impI)
  fix link rootBone
  assume "GetLink (hd skin) = Some link
            \<and> findRootBone (ancestors link) (subtree link) = Some rootBone
            \<and> list_all (clusterReadable (GetNodeName rootBone) (GetControlPointsCount mesh)) skin"
  then show "getBindingData UsdSkelNormalizeWeights UsdSkelSortInfluences skin mesh \<noteq> None"
    using getBindingData_defined [of skin link rootBone mesh] assms by blast
next
  fix bd
  define n where "n = GetControlPointsCount mesh"
  assume "getBindingData UsdSkelNormalizeWeights UsdSkelSortInfluences skin mesh = Some bd"
  from getBindingData_arrays [OF assms this, folded n_def]
  obtain link rootBone pv es joints where
    lr: "GetLink (hd skin) = Some link" "findRootBone (ancestors link) (subtree link) = Some rootBone"
    and cl: "clusterLoop (GetNodeName rootBone) skin (replicate n [], 0, []) = Some (pv, es, joints)"
    and inv: "length pv = n" "\<forall>v<n. length (pv ! v) \<le> es"
      "es = 0 \<or> (\<exists>v<n. length (pv ! v) = es)"
    and idx: "\<forall>x\<in>set pv. \<forall>p\<in>set x. 0 \<le> fst p"
    and ipv: "influencesPerVertex bd = int es"
    and fin: "(perVertexInfluences bd, perVertexWeights bd)
         = UsdSkelSortInfluences (int es) (fst (flattenInfluences es pv))
             (UsdSkelNormalizeWeights (int es) (snd (flattenInfluences es pv)))"
    by blast
  have arr: "perVertexInfluences bd = map snd (concat (map (vertexInfluences es) pv))"
    "perVertexWeights bd = map fst (concat (map (vertexInfluences es) pv))"
    using fin unfolding sorted_influences by simp_all
  have u: "\<forall>x\<in>set pv. length (vertexInfluences es x) = es"
    by (simp add: length_vertexInfluences)
  have len: "length (perVertexInfluences bd) = n * es" "length (perVertexWeights bd) = n * es"
    using length_concat_uniform [OF u] inv(1) by (simp_all add: arr)
  have flen: "length (fst (flattenInfluences es pv)) = n * es"
    "length (snd (flattenInfluences es pv)) = n * es"
    using flattenInfluences_shape [of pv es] inv by simp_all
  have shape: "\<forall>v<n. \<forall>i<es.
          fst (flattenInfluences es pv) ! (v * es + i)
            = (if i < length (pv ! v) then fst (pv ! v ! i) else 0)
        \<and> snd (flattenInfluences es pv) ! (v * es + i)
            = (if i < length (pv ! v) then snd (pv ! v ! i) else 0)"
    using flattenInfluences_shape [of pv es] inv by simp
  have slot: "perVertexInfluences bd ! (v * es + i) = snd (vertexInfluences es (pv ! v) ! i)
      \<and> perVertexWeights bd ! (v * es + i) = fst (vertexInfluences es (pv ! v) ! i)"
    if "v < n" "i < es" for v i
    using returned_slot [of v pv i es] that inv(1) by (simp add: arr)
  have pad: "\<forall>v<n. (\<forall>i<es. 0 \<le> perVertexWeights bd ! (v * es + i)) \<longrightarrow>
      (\<forall>i<es. length (pv ! v) \<le> i \<longrightarrow>
          perVertexInfluences bd ! (v * es + i) = 0 \<and> perVertexWeights bd ! (v * es + i) = 0)"
  proof (intro allI impI)
    fix v i
    assume v: "v < n" and w: "\<forall>i<es. 0 \<le> perVertexWeights bd ! (v * es + i)"
      and i: "i < es" "length (pv ! v) \<le> i"
    have m: "pv ! v \<in> set pv" using v inv(1) by simp
    have "\<forall>w\<in>set (flatWeights es (pv ! v)). 0 \<le> w"
    proof
      fix w assume "w \<in> set (flatWeights es (pv ! v))"
      then have "w \<in> set (map fst (vertexInfluences es (pv ! v)))"
        by (simp only: set_vertexInfluences_weights)
      then obtain j where "j < es" "w = fst (vertexInfluences es (pv ! v) ! j)"
        by (auto simp: in_set_conv_nth length_vertexInfluences)
      then show "0 \<le> w" using w slot [OF v] by simp
    qed
    from padding_last [OF _ _ this i(2,1)] have "vertexInfluences es (pv ! v) ! i = (0, 0)"
      using inv(2) v idx m by blast
    then show "perVertexInfluences bd ! (v * es + i) = 0 \<and> perVertexWeights bd ! (v * es + i) = 0"
      using slot [OF v i(1)] by simp
  qed
  have nonneg: "\<forall>v<n. (\<forall>p\<in>set (pv ! v). 0 \<le> snd p) \<longrightarrow>
      (\<forall>i<es. 0 \<le> perVertexWeights bd ! (v * es + i))"
  proof (intro allI impI)
    fix v i
    assume v: "v < n" and w: "\<forall>p\<in>set (pv ! v). 0 \<le> snd p" and i: "i < es"
    have "fst (vertexInfluences es (pv ! v) ! i) \<in> set (map fst (vertexInfluences es (pv ! v)))"
      using i by (simp add: length_vertexInfluences)
    then have "fst (vertexInfluences es (pv ! v) ! i) \<in> set (flatWeights es (pv ! v))"
      by (simp only: set_vertexInfluences_weights)
    then have "0 \<le> fst (vertexInfluences es (pv ! v) ! i)"
      using flatWeights_nonneg [OF _ w, of es] inv(2) v by blast
    then show "0 \<le> perVertexWeights bd ! (v * es + i)" using slot [OF v i] by simp
  qed
  show "\<exists>link rootBone pv es joints.
              GetLink (hd skin) = Some link
            \<and> findRootBone (ancestors link) (subtree link) = Some rootBone
            \<and> clusterLoop (GetNodeName rootBone) skin
                  (replicate (GetControlPointsCount mesh) [], 0, [])
                = Some (pv, es, joints)
            \<and> length pv = GetControlPointsCount mesh
            \<and> (\<forall>v<GetControlPointsCount mesh. length (pv ! v) \<le> es)
            \<and> (es = 0 \<or> (\<exists>v<GetControlPointsCount mesh. length (pv ! v) = es))
            \<and> influencesPerVertex bd = int es
            \<and> length (perVertexInfluences bd) = GetControlPointsCount mesh * es
            \<and> length (perVertexWeights bd) = GetControlPointsCount mesh * es
            \<and> (perVertexInfluences bd, perVertexWeights bd)
                = UsdSkelSortInfluences (int es) (fst (flattenInfluences es pv))
                    (UsdSkelNormalizeWeights (int es) (snd (flattenInfluences es pv)))
            \<and> length (fst (flattenInfluences es pv)) = GetControlPointsCount mesh * es
            \<and> length (snd (flattenInfluences es pv)) = GetControlPointsCount mesh * es
            \<and> (\<forall>v<GetControlPointsCount mesh. \<forall>i<es.
                  fst (flattenInfluences es pv) ! (v * es + i)
                    = (if i < length (pv ! v) then fst (pv ! v ! i) else 0)
                \<and> snd (flattenInfluences es pv) ! (v * es + i)
                    = (if i < length (pv ! v) then snd (pv ! v ! i) else 0))
            \<and> (\<forall>v<GetControlPointsCount mesh.
                  (\<forall>i<es. 0 \<le> perVertexWeights bd ! (v * es + i)) \<longrightarrow>
                  (\<forall>i<es. length (pv ! v) \<le> i \<longrightarrow>
                      perVertexInfluences bd ! (v * es + i) = 0
                    \<and> perVertexWeights bd ! (v * es + i) = 0))
            \<and> (\<forall>v<GetControlPointsCount mesh. (\<forall>p\<in>set (pv ! v). 0 \<le> snd p) \<longrightarrow>
                  (\<forall>i<es. 0 \<le> perVertexWeights bd ! (v * es + i)))"
    unfolding n_def [symmetric]
    using lr cl inv ipv len fin flen shape pad nonneg by blast
qed

theorem binding_arrays_rectangular_witness:
  "\<exists>bd. getBindingData UsdSkelNormalizeWeights UsdSkelSortInfluences example_skin
           example_skinned_mesh = Some bd
     \<and> influencesPerVertex bd = 2
     \<and> length (perVertexInfluences bd) = 4 * 2 \<and> length (perVertexWeights bd) = 4 * 2
     \<and> perVertexInfluences bd ! (0 * 2 + 1) = 0 \<and> perVertexWeights bd ! (0 * 2 + 1) = 0
     \<and> perVertexInfluences bd ! (3 * 2 + 0) = 0 \<and> perVertexWeights bd ! (3 * 2 + 0) = 0
     \<and> perVertexInfluences bd = [0, 0, 1, 0, 1, 0, 0, 0]
     \<and> perVertexWeights bd = [1, 0, 1 / 2, 1 / 2, 1, 0, 0, 0]"
proof -
  have h: "example_skin \<noteq> []" by (simp add: example_skin_def)
  have l: "GetLink (hd example_skin) = Some example_joint_J" by (simp add: example_skin_def)
  have r: "findRootBone (ancestors example_joint_J) (subtree example_joint_J) = Some example_joint_J"
    by (simp add: example_joint_J_def)
  have n: "GetNodeName example_joint_J = ''J''" "GetControlPointsCount example_skinned_mesh = 4"
    by (simp_all add: example_joint_J_def GetNodeName_def example_skinned_mesh_def)
  note T = binding_arrays_rectangular [of example_skin example_skinned_mesh, OF h, unfolded n(2)]
  obtain bd where bd: "getBindingData UsdSkelNormalizeWeights UsdSkelSortInfluences example_skin
           example_skinned_mesh = Some bd"
    "perVertexInfluences bd = [0, 0, 1, 0, 1, 0, 0, 0]"
    "perVertexWeights bd = [1, 0, 1 / 2, 1 / 2, 1, 0, 0, 0]"
    using example_skin_binding_usd by simp
  from T [THEN conjunct2, rule_format, OF bd(1)] obtain link rootBone pv es joints where
    f: "GetLink (hd example_skin) = Some link"
      "findRootBone (ancestors link) (subtree link) = Some rootBone"
      "clusterLoop (GetNodeName rootBone) example_skin (replicate 4 [], 0, []) = Some (pv, es, joints)"
      "influencesPerVertex bd = int es"
      "length (perVertexInfluences bd) = 4 * es" "length (perVertexWeights bd) = 4 * es"
    and pad: "\<forall>v<4. (\<forall>i<es. 0 \<le> perVertexWeights bd ! (v * es + i)) \<longrightarrow>
                  (\<forall>i<es. length (pv ! v) \<le> i \<longrightarrow>
                      perVertexInfluences bd ! (v * es + i) = 0
                    \<and> perVertexWeights bd ! (v * es + i) = 0)"
    and nonneg: "\<forall>v<4. (\<forall>p\<in>set (pv ! v). 0 \<le> snd p) \<longrightarrow>
                  (\<forall>i<es. 0 \<le> perVertexWeights bd ! (v * es + i))"
    by (elim exE conjE) (rule that)
  have "link = example_joint_J" using f(1) l by simp
  then have "rootBone = example_joint_J" using f(2) r by simp
  then have pv: "pv = [[(0, 1)], [(0, 1 / 2), (1, 1 / 2)], [(1, 1)], []]" "es = 2"
    using f(3) example_skin_loop by (simp_all add: n(1))
  have w0: "\<forall>i<es. 0 \<le> perVertexWeights bd ! (0 * es + i)"
    using nonneg [rule_format, of 0] by (simp add: pv)
  have w3: "\<forall>i<es. 0 \<le> perVertexWeights bd ! (3 * es + i)"
    using nonneg [rule_format, of 3] by (simp add: pv)
  have p0: "perVertexInfluences bd ! (0 * 2 + 1) = 0 \<and> perVertexWeights bd ! (0 * 2 + 1) = 0"
    using pad [rule_format, of 0 1] w0 by (simp add: pv)
  have p3: "perVertexInfluences bd ! (3 * 2 + 0) = 0 \<and> perVertexWeights bd ! (3 * 2 + 0) = 0"
    using pad [rule_format, of 3 0] w3 by (simp add: pv)
  show ?thesis
    using bd f(4,5,6) p0 p3 unfolding pv(2) by (intro exI [of _ bd]) simp
qed

lemma clusterLoop_filter:
  "clusterLoop rbn (filter (\<lambda>cluster. GetLink cluster \<noteq> None) clusters) st
     = clusterLoop rbn clusters st"
proof (induction clusters arbitrary: st)
  case Nil
  then show ?case by simp
next
  case (Cons cluster clusters)
  obtain pv es joints where st: "st = (pv, es, joints)" by (cases st)
  show ?case using Cons.IH by (auto simp: st split: option.splits)
qed

text \<open>
C3, as stated, fails. With no cluster the skeleton path is \<open>SdfPath::EmptyPath()\<close>,
  which is neither the path /ROOT nor the absolute root path. And a cluster without a link
  takes no part in the elementSize bookkeeping: the example skin has elementSize 2, the same
  skin with the link of its second cluster removed has elementSize 1 and one joint name.
\<close>

theorem empty_skin_path_not_root:
  "getBindingData keepWeights keepInfluences [] example_skinned_mesh
     = Some \<lparr>names = [], perVertexInfluences = [], perVertexWeights = [],
              influencesPerVertex = 0, pathToSkeleton = EmptyPath\<rparr>
   \<and> EmptyPath \<noteq> ROOT \<and> EmptyPath \<noteq> AbsoluteRootPath
   \<and> map_option influencesPerVertex
        (getBindingData keepWeights keepInfluences example_skin example_skinned_mesh) = Some 2
   \<and> getBindingData keepWeights keepInfluences example_skin_unlinked example_skinned_mesh
     = Some \<lparr>names = [''J''], perVertexInfluences = [0, 0, 0, 0],
              perVertexWeights = [1, 1 / 2, 0, 0], influencesPerVertex = 1,
              pathToSkeleton = SdfPath True [''ROOT'', ''J''] None\<rparr>"
proof -
  have "getBindingData keepWeights keepInfluences example_skin_unlinked example_skinned_mesh
     = Some \<lparr>names = [''J''], perVertexInfluences = [0, 0, 0, 0],
              perVertexWeights = [1, 1 / 2, 0, 0], influencesPerVertex = 1,
              pathToSkeleton = SdfPath True [''ROOT'', ''J''] None\<rparr>"
    by (simp add: getBindingData_def example_skin_unlinked_def example_skinned_mesh_def
        example_joint_J_def GetNodeName_def GetNodeAttribute_def
        skeletonToTokenPath_def AppendPath_def SdfPath_name_def
        flattenInfluences_def flattenVertex_def keepWeights_def keepInfluences_def ROOT_def
        Let_def upt_rec eval_nat_numeral)
  then show ?thesis
    using example_skin_binding
    by (simp add: getBindingData_def ROOT_def AbsoluteRootPath_def)
qed

text \<open>
C3, amended. For a skin without clusters \<open>getBindingData\<close> returns empty joint names,
  joint indices and joint weights, influencesPerVertex 0 and the empty path. A cluster after
  the first whose link is absent is passed over altogether: the result is the result for the
  skin without such clusters (the first cluster having a link).
\<close>

theorem empty_skin_and_unlinked_clusters:
  "getBindingData nrm srt [] mesh
     = Some \<lparr>names = [], perVertexInfluences = [], perVertexWeights = [],
              influencesPerVertex = 0, pathToSkeleton = EmptyPath\<rparr>
   \<and> (GetLink firstCluster \<noteq> None \<longrightarrow>
        getBindingData nrm srt (firstCluster # clusters) mesh
          = getBindingData nrm srt
              (firstCluster # filter (\<lambda>cluster. GetLink cluster \<noteq> None) clusters) mesh)"
proof (intro conjI impI)
  show "getBindingData nrm srt [] mesh
     = Some \<lparr>names = [], perVertexInfluences = [], perVertexWeights = [],
              influencesPerVertex = 0, pathToSkeleton = EmptyPath\<rparr>"
    by (simp add: getBindingData_def)
next
  assume "GetLink firstCluster \<noteq> None"
  then obtain link where l: "GetLink firstCluster = Some link" by blast
  have "clusterLoop rbn (firstCluster # filter (\<lambda>cluster. GetLink cluster \<noteq> None) clusters) st
      = clusterLoop rbn (firstCluster # clusters) st" for rbn st
  proof -
    obtain pv es joints where st: "st = (pv, es, joints)" by (cases st)
    show ?thesis using l by (auto simp: st clusterLoop_filter [simplified] split: option.splits)
  qed
  then show "getBindingData nrm srt (firstCluster # clusters) mesh
          = getBindingData nrm srt
              (firstCluster # filter (\<lambda>cluster. GetLink cluster \<noteq> None) clusters) mesh"
    by (simp add: getBindingData_def del: clusterLoop.simps cong: option.case_cong)
qed

theorem empty_skin_and_unlinked_clusters_witness:
  "getBindingData keepWeights keepInfluences example_skin_unlinked example_skinned_mesh
     = getBindingData keepWeights keepInfluences [hd example_skin_unlinked] example_skinned_mesh
   \<and> getBindingData keepWeights keepInfluences [hd example_skin_unlinked] example_skinned_mesh
     = Some \<lparr>names = [''J''], perVertexInfluences = [0, 0, 0, 0],
              perVertexWeights = [1, 1 / 2, 0, 0], influencesPerVertex = 1,
              pathToSkeleton = SdfPath True [''ROOT'', ''J''] None\<rparr>"
proof -
  have l: "GetLink \<lparr>GetLink = Some example_joint_J, GetControlPoints = [(0, 1), (1, 1 / 2)]\<rparr> \<noteq> None"
    by simp
  have e: "getBindingData keepWeights keepInfluences [hd example_skin_unlinked] example_skinned_mesh
     = Some \<lparr>names = [''J''], perVertexInfluences = [0, 0, 0, 0],
              perVertexWeights = [1, 1 / 2, 0, 0], influencesPerVertex = 1,
              pathToSkeleton = SdfPath True [''ROOT'', ''J''] None\<rparr>"
    by (simp add: getBindingData_def example_skin_unlinked_def example_skinned_mesh_def
        example_joint_J_def GetNodeName_def GetNodeAttribute_def
        skeletonToTokenPath_def AppendPath_def SdfPath_name_def
        flattenInfluences_def flattenVertex_def keepWeights_def keepInfluences_def ROOT_def
        Let_def upt_rec eval_nat_numeral)
  show ?thesis
    using empty_skin_and_unlinked_clusters
      [of keepWeights keepInfluences example_skinned_mesh
          "\<lparr>GetLink = Some example_joint_J, GetControlPoints = [(0, 1), (1, 1 / 2)]\<rparr>"
          "[\<lparr>GetLink = None, GetControlPoints = [(1, 1 / 2), (2, 1)]\<rparr>]"] l e
    by (simp add: example_skin_unlinked_def)
qed

end
